theory Spec2Isabelle
  imports Complex_Main "HOL-Library.AList"
begin

section \<open>Match server of the two-player platformer\<close>

text \<open>
  The repository holds two variants of the match engine.
  \<^item> \<^verbatim>\<open>src/Edited_Dustin/protocol.py\<close>: the staged engine (five levels, stage winner,
    match winner, cumulative scores). Its definitions carry the source's names.
  \<^item> \<^verbatim>\<open>src/protocol.py\<close>: the single-arena engine that \<^verbatim>\<open>src/server.py\<close> imports. Its
    definitions carry the prefix \<open>legacy_\<close>.

  Python dictionaries keep insertion order, and \<^verbatim>\<open>get_game_state\<close> lists them in that
  order, so every dictionary is an association list: \<open>map_of\<close> looks a key up,
  \<open>AList.update\<close> assigns (in place when the key exists, at the end otherwise) and
  \<open>AList.delete\<close> is \<^verbatim>\<open>del\<close>. Every handler takes the state and returns the outcome
  together with the state it leaves behind; an exception is the outcome \<open>Raise\<close>, and the
  state beside it is the object as the exception left it.

  Request lines are strings of 8-bit characters read as code points; the wire contract
  makes them ASCII.
\<close>

subsection \<open>Python values\<close>

datatype py_error = IndexError | KeyError | ValueError | AttributeError

datatype 'a result = Return 'a | Raise py_error

text \<open>Truth value of an \<^verbatim>\<open>Optional[str]\<close>: \<^verbatim>\<open>None\<close> and the empty string are false.\<close>

definition truthy :: "string option \<Rightarrow> bool" where
  "truthy v = (case v of None \<Rightarrow> False | Some w \<Rightarrow> w \<noteq> [])"

text \<open>Truth value of \<^verbatim>\<open>self.start_time\<close>: \<^verbatim>\<open>None\<close> and \<^verbatim>\<open>0.0\<close> are false. Clock readings
  are idealised as reals.\<close>

definition truthy_time :: "real option \<Rightarrow> bool" where
  "truthy_time t = (case t of None \<Rightarrow> False | Some r \<Rightarrow> r \<noteq> 0)"

text \<open>\<^verbatim>\<open>str(n)\<close> for a natural number, as the f-strings that build identifiers use it.\<close>

definition digit_char :: "nat \<Rightarrow> char" where
  "digit_char d = ''0123456789'' ! (d mod 10)"

fun str_nat :: "nat \<Rightarrow> string" where
  "str_nat n = (if n < 10 then [digit_char n] else str_nat (n div 10) @ [digit_char (n mod 10)])"

declare str_nat.simps [simp del]

text \<open>\<^verbatim>\<open>str.lower\<close> on ASCII letters. The lowered text is only ever compared with ASCII
  constants, and no character outside \<open>A..Z\<close> lowers to an ASCII letter among the code
  points below 256, so leaving the others alone changes no comparison.\<close>

definition lower_char :: "char \<Rightarrow> char" where
  "lower_char c =
     (case map_of (zip ''ABCDEFGHIJKLMNOPQRSTUVWXYZ'' ''abcdefghijklmnopqrstuvwxyz'') c of
        Some d \<Rightarrow> d | None \<Rightarrow> c)"

definition lower :: "string \<Rightarrow> string" where
  "lower w = map lower_char w"

text \<open>The characters \<^verbatim>\<open>str.strip()\<close> and \<^verbatim>\<open>str.split()\<close> treat as whitespace, among the
  code points below 256.\<close>

definition is_space :: "char \<Rightarrow> bool" where
  "is_space c = (c \<in> set [CHR 0x09, CHR 0x0A, CHR 0x0B, CHR 0x0C, CHR 0x0D,
                          CHR 0x1C, CHR 0x1D, CHR 0x1E, CHR 0x1F, CHR 0x20,
                          CHR 0x85, CHR 0xA0])"

definition strip :: "string \<Rightarrow> string" where
  "strip w = rev (dropWhile is_space (rev (dropWhile is_space w)))"

text \<open>\<^verbatim>\<open>str.split()\<close> without a separator: the maximal runs of non-whitespace. The first
  argument is the token being read.\<close>

fun split_from :: "string \<Rightarrow> string \<Rightarrow> string list" where
  "split_from cur [] = (if cur = [] then [] else [cur])"
| "split_from cur (c # cs) =
     (if is_space c then (if cur = [] then split_from [] cs else cur # split_from [] cs)
      else split_from (cur @ [c]) cs)"

definition split :: "string \<Rightarrow> string list" where
  "split w = split_from [] w"

text \<open>\<^verbatim>\<open>int(token)\<close> in base 10: an optional sign, then digits, where a single underscore
  may stand between two digits. \<open>None\<close> is \<^verbatim>\<open>ValueError\<close>. (Tokens come from
  \<^verbatim>\<open>split()\<close>, so they hold no whitespace for \<^verbatim>\<open>int\<close> to strip; the length limit of
  recent interpreters is not modelled.) The flag of \<open>parse_digits\<close> says that the previous
  character was a digit.\<close>

definition is_digit :: "char \<Rightarrow> bool" where
  "is_digit c = (c \<in> set ''0123456789'')"

definition digit_val :: "char \<Rightarrow> nat" where
  "digit_val c = (case map_of (zip ''0123456789'' [0, 1, 2, 3, 4, 5, 6, 7, 8, 9]) c of
                    Some d \<Rightarrow> d | None \<Rightarrow> 0)"

fun parse_digits :: "bool \<Rightarrow> nat \<Rightarrow> string \<Rightarrow> nat option" where
  "parse_digits prev acc [] = (if prev then Some acc else None)"
| "parse_digits prev acc (c # cs) =
     (if is_digit c then parse_digits True (10 * acc + digit_val c) cs
      else if c = CHR ''_'' \<and> prev then parse_digits False acc cs
      else None)"

definition py_int :: "string \<Rightarrow> int option" where
  "py_int w =
     (case w of
        [] \<Rightarrow> None
      | c # cs \<Rightarrow>
          if c = CHR ''+'' then map_option int (parse_digits False 0 cs)
          else if c = CHR ''-'' then map_option (\<lambda>n. - int n) (parse_digits False 0 cs)
          else map_option int (parse_digits False 0 w))"

subsection \<open>Entities and the match state (Edited\_Dustin/protocol.py)\<close>

text \<open>A player dictionary. The keys \<^verbatim>\<open>x\<close> and \<^verbatim>\<open>y\<close> are the fields \<open>pos_x\<close> and \<open>pos_y\<close>.\<close>

record player =
  color_type :: string
  pos_x :: int
  pos_y :: int
  lives :: int
  gems_collected :: int
  at_exit :: bool

record gem =
  gem_x :: int
  gem_y :: int
  gem_type :: string

record hazard =
  hz_type :: string
  hz_x :: int
  hz_y :: int
  hz_width :: int
  hz_height :: int

record rect =
  rect_x :: int
  rect_y :: int
  rect_width :: int
  rect_height :: int

text \<open>A level of the catalog: the dictionary that \<^verbatim>\<open>_define_levels\<close> appends.\<close>

record level =
  start_pos :: "(string \<times> int \<times> int) list"
  lv_walls :: "(int \<times> int \<times> int \<times> int) list"
  lv_hazards :: "(string \<times> int \<times> int \<times> int \<times> int) list"
  lv_gems :: "(string \<times> int \<times> int) list"
  lv_exit :: "int \<times> int \<times> int \<times> int"

text \<open>The images generated in the constructor: opaque strings, never written again.\<close>

record assets =
  black_player_image_b64 :: string
  white_player_image_b64 :: string
  black_gem_image_b64 :: string
  white_gem_image_b64 :: string
  black_hazard_image_b64 :: string
  white_hazard_image_b64 :: string
  exit_area_image_b64 :: string
  wall_image_b64 :: string

text \<open>What a \<^verbatim>\<open>threading.Timer\<close> will call.\<close>

datatype callback = LoadNextStage

text \<open>
  The attributes of \<^verbatim>\<open>PlayerServerProtocol\<close>. \<open>exit_area = None\<close> is the empty dictionary
  of the constructor. \<open>timers\<close> is the one field with no attribute behind it: it lists the
  timers started and not yet fired, each with its delay in seconds.
\<close>

record state =
  players :: "(string \<times> player) list"
  gems :: "(string \<times> gem) list"
  hazards :: "(string \<times> hazard) list"
  walls :: "(string \<times> rect) list"
  exit_area :: "rect option"
  levels :: "level list"
  total_stages :: nat
  scores :: "(string \<times> int) list"
  current_level_index :: nat
  match_winner :: "string option"
  stage_winner :: "string option"
  start_time :: "real option"
  next_gem_id :: nat
  black_gems_required :: int
  white_gems_required :: int
  images :: assets
  timers :: "(real \<times> callback) list"

definition map_width :: int where "map_width = 800"
definition map_height :: int where "map_height = 600"
definition default_player_lives :: int where "default_player_lives = 1"

subsection \<open>The level catalog\<close>

definition level_1 :: level where
  "level_1 = \<lparr>
     start_pos = [(''black'', 50, 532), (''white'', 702, 532)],
     lv_walls = [(0, 580, 800, 20), (200, 480, 400, 20), (300, 380, 200, 20),
                 (550, 280, 100, 20), (250, 180, 100, 20)],
     lv_hazards = [(''white'', 300, 560, 100, 20)],
     lv_gems = [(''black'', 250, 450), (''white'', 500, 450), (''black'', 350, 350),
                (''white'', 400, 350)],
     lv_exit = (360, 40, 80, 80) \<rparr>"

definition level_2 :: level where
  "level_2 = \<lparr>
     start_pos = [(''black'', 50, 532), (''white'', 702, 532)],
     lv_walls = [(0, 580, 150, 20), (650, 580, 150, 20), (250, 500, 100, 20),
                 (450, 500, 100, 20), (100, 400, 100, 20), (600, 400, 100, 20),
                 (300, 300, 200, 20)],
     lv_hazards = [(''black'', 150, 560, 50, 20)],
     lv_gems = [(''black'', 270, 470), (''white'', 470, 470), (''black'', 120, 370),
                (''white'', 620, 370), (''black'', 390, 270)],
     lv_exit = (360, 220, 80, 80) \<rparr>"

definition level_3 :: level where
  "level_3 = \<lparr>
     start_pos = [(''black'', 50, 332), (''white'', 702, 332)],
     lv_walls = [(0, 380, 200, 20), (600, 380, 200, 20), (0, 580, 800, 20),
                 (380, 480, 40, 100), (250, 250, 300, 20)],
     lv_hazards = [(''white'', 20, 560, 350, 20), (''black'', 430, 560, 350, 20)],
     lv_gems = [(''black'', 100, 550), (''black'', 200, 550), (''white'', 600, 550),
                (''white'', 700, 550), (''black'', 390, 220), (''white'', 490, 220)],
     lv_exit = (360, 100, 80, 80) \<rparr>"

definition level_4 :: level where
  "level_4 = \<lparr>
     start_pos = [(''black'', 50, 532), (''white'', 702, 532)],
     lv_walls = [(0, 580, 800, 20), (150, 480, 50, 20), (600, 480, 50, 20),
                 (300, 400, 200, 20), (100, 300, 50, 20), (650, 300, 50, 20),
                 (250, 200, 300, 20)],
     lv_hazards = [(''white'', 200, 560, 100, 20), (''black'', 500, 560, 100, 20)],
     lv_gems = [(''black'', 160, 450), (''white'', 610, 450), (''black'', 390, 370),
                (''white'', 110, 270), (''black'', 660, 270)],
     lv_exit = (360, 40, 80, 80) \<rparr>"

definition level_5 :: level where
  "level_5 = \<lparr>
     start_pos = [(''black'', 30, 532), (''white'', 722, 532)],
     lv_walls = [(0, 580, 100, 20), (700, 580, 100, 20), (150, 500, 20, 80),
                 (630, 500, 20, 80), (250, 450, 300, 20), (380, 200, 40, 250),
                 (100, 350, 100, 20), (600, 350, 100, 20), (200, 150, 400, 20)],
     lv_hazards = [(''black'', 100, 560, 600, 20), (''white'', 250, 430, 300, 20)],
     lv_gems = [(''black'', 60, 550), (''white'', 730, 550), (''black'', 110, 320),
                (''white'', 610, 320), (''black'', 250, 120), (''white'', 500, 120)],
     lv_exit = (360, 40, 80, 80) \<rparr>"

definition define_levels :: "state \<Rightarrow> state" where
  "define_levels s = s\<lparr>levels := [level_1, level_2, level_3, level_4, level_5]\<rparr>"

subsection \<open>Stage controller\<close>

definition place_wall :: "int \<Rightarrow> int \<Rightarrow> int \<Rightarrow> int \<Rightarrow> state \<Rightarrow> state" where
  "place_wall x y width height s =
     (let wall_id = ''wall_'' @ str_nat (length (walls s))
      in s\<lparr>walls := AList.update wall_id
              \<lparr>rect_x = x, rect_y = y, rect_width = width, rect_height = height\<rparr> (walls s)\<rparr>)"

text \<open>\<^verbatim>\<open>_place_gem\<close> also returns the new identifier; no caller reads it.\<close>

definition place_gem :: "int \<Rightarrow> int \<Rightarrow> string \<Rightarrow> state \<Rightarrow> state" where
  "place_gem x y gtype s =
     (let gem_id = gtype @ ''_gem_'' @ str_nat (next_gem_id s);
          s1 = s\<lparr>next_gem_id := next_gem_id s + 1\<rparr>;
          s2 = s1\<lparr>gems := AList.update gem_id \<lparr>gem_x = x, gem_y = y, gem_type = gtype\<rparr> (gems s1)\<rparr>
      in if gtype = ''black'' then s2\<lparr>black_gems_required := black_gems_required s2 + 1\<rparr>
         else if gtype = ''white'' then s2\<lparr>white_gems_required := white_gems_required s2 + 1\<rparr>
         else s2)"

text \<open>The body of the loop over \<^verbatim>\<open>level_data['hazards']\<close> in \<^verbatim>\<open>_load_level\<close>.\<close>

definition place_hazard :: "state \<Rightarrow> string \<times> int \<times> int \<times> int \<times> int \<Rightarrow> state" where
  "place_hazard s hz =
     (case hz of (t, x, y, w, h) \<Rightarrow>
        let h_id = t @ ''_pool_'' @ str_nat (length (hazards s))
        in s\<lparr>hazards := AList.update h_id
                \<lparr>hz_type = t, hz_x = x, hz_y = y, hz_width = w, hz_height = h\<rparr> (hazards s)\<rparr>)"

text \<open>An empty \<open>start_positions\<close> is false in Python, like \<^verbatim>\<open>None\<close>.\<close>

definition reset_player_for_new_stage :: "player \<Rightarrow> (string \<times> int \<times> int) list \<Rightarrow> player" where
  "reset_player_for_new_stage player_data start_positions =
     (let color = color_type player_data;
          xy = (case (if start_positions \<noteq> [] then map_of start_positions color else None) of
                  Some p \<Rightarrow> p
                | None \<Rightarrow> (if color = ''black'' then 50 else map_width - 50 - 48,
                           map_height - 20 - 48))
      in player_data\<lparr>pos_x := fst xy, pos_y := snd xy, lives := default_player_lives,
                      gems_collected := 0, at_exit := False\<rparr>)"

definition load_level :: "nat \<Rightarrow> state \<Rightarrow> state" where
  "load_level level_index s =
     (if level_index \<ge> length (levels s) then s
      else
        let level_data = levels s ! level_index;
            s1 = s\<lparr>current_level_index := level_index, gems := [], hazards := [], walls := [],
                   black_gems_required := 0, white_gems_required := 0,
                   next_gem_id := 0, stage_winner := None\<rparr>;
            s2 = place_wall 0 (map_height - 20) map_width 20 s1;
            s3 = place_wall 0 0 20 map_height s2;
            s4 = place_wall (map_width - 20) 0 20 map_height s3;
            s5 = place_wall 0 0 map_width 20 s4;
            s6 = foldl (\<lambda>t (x, y, w, h). place_wall x y w h t) s5 (lv_walls level_data);
            s7 = foldl place_hazard s6 (lv_hazards level_data);
            s8 = foldl (\<lambda>t (c, x, y). place_gem x y c t) s7 (lv_gems level_data);
            s9 = s8\<lparr>exit_area := Some (case lv_exit level_data of (x, y, w, h) \<Rightarrow>
                        \<lparr>rect_x = x, rect_y = y, rect_width = w, rect_height = h\<rparr>)\<rparr>
        in s9\<lparr>players := map (\<lambda>(pid, p). (pid, reset_player_for_new_stage p (start_pos level_data)))
                              (players s9)\<rparr>)"

definition determine_final_winner :: "state \<Rightarrow> unit result \<times> state" where
  "determine_final_winner s =
     (case map_of (scores s) ''player_black'' of
        None \<Rightarrow> (Raise KeyError, s)
      | Some b \<Rightarrow>
          (case map_of (scores s) ''player_white'' of
             None \<Rightarrow> (Raise KeyError, s)
           | Some w \<Rightarrow>
               (Return (),
                s\<lparr>match_winner := Some (if b > w then ''player_black''
                                         else if w > b then ''player_white'' else ''draw'')\<rparr>)))"

definition load_next_stage :: "state \<Rightarrow> unit result \<times> state" where
  "load_next_stage s =
     (if truthy (match_winner s) then (Return (), s)
      else if current_level_index s + 1 < total_stages s
           then (Return (), load_level (current_level_index s + 1) s)
      else determine_final_winner s)"

definition full_reset :: "state \<Rightarrow> state" where
  "full_reset s =
     load_level 0
       (define_levels
          (s\<lparr>players := [], scores := [(''player_black'', 0), (''player_white'', 0)],
             match_winner := None, stage_winner := None, start_time := None\<rparr>))"

text \<open>The constructor: the attribute defaults, the generated images, then \<^verbatim>\<open>_full_reset\<close>.\<close>

definition new_protocol :: "assets \<Rightarrow> state" where
  "new_protocol imgs =
     full_reset
       \<lparr>players = [], gems = [], hazards = [], walls = [], exit_area = None, levels = [],
        total_stages = 5, scores = [(''player_black'', 0), (''player_white'', 0)],
        current_level_index = 0, match_winner = None, stage_winner = None, start_time = None,
        next_gem_id = 0, black_gems_required = 0, white_gems_required = 0, images = imgs,
        timers = []\<rparr>"

text \<open>A started timer fires outside any command and calls its callback. An exception in
  the timer thread ends that thread only, so the outcome is dropped.\<close>

definition fire_timer :: "state \<Rightarrow> state" where
  "fire_timer s =
     (case timers s of
        [] \<Rightarrow> s
      | t # ts \<Rightarrow> (case snd t of LoadNextStage \<Rightarrow> snd (load_next_stage (s\<lparr>timers := ts\<rparr>))))"

subsection \<open>Responses\<close>

datatype status = OK | ERROR

record game_info =
  gi_current_stage :: nat
  gi_total_stages :: nat
  gi_scores :: "(string \<times> int) list"
  gi_elapsed_time :: real
  gi_stage_winner :: "string option"
  gi_match_winner :: "string option"
  gi_required_black :: int
  gi_required_white :: int

record snapshot =
  snap_players :: "(string \<times> player) list"
  snap_gems :: "(string \<times> gem) list"
  snap_hazards :: "(string \<times> hazard) list"
  snap_walls :: "(string \<times> rect) list"
  snap_exit_area :: "rect option"
  snap_images :: "(string \<times> string) list"
  snap_game_info :: game_info

text \<open>
  The dictionary a handler returns: its status, its message when it has one, and the
  other keys when it has any. \<^verbatim>\<open>proses_string\<close> hands it to \<^verbatim>\<open>json.dumps\<close>, which
  cannot fail on these values; the text of the JSON is not modelled. \<open>Registered\<close> holds
  \<^verbatim>\<open>player_id\<close>, \<^verbatim>\<open>color_type\<close>, \<^verbatim>\<open>x\<close>, \<^verbatim>\<open>y\<close>; \<open>PlayerInfo\<close> holds \<^verbatim>\<open>color_type\<close> and
  \<^verbatim>\<open>face\<close>. A list entry \<open>(id, d)\<close> of a snapshot is the dictionary \<^verbatim>\<open>{'id': id, **d}\<close>.
\<close>

datatype body = Registered string string int int | PlayerInfo string string
  | GameState snapshot

record 'b response =
  status :: status
  message :: "string option"
  body :: "'b option"

definition reply :: "status \<Rightarrow> 'b response" where
  "reply st = \<lparr>status = st, message = None, body = None\<rparr>"

definition reply_msg :: "status \<Rightarrow> string \<Rightarrow> 'b response" where
  "reply_msg st m = \<lparr>status = st, message = Some m, body = None\<rparr>"

subsection \<open>Command handlers\<close>

text \<open>
  In \<^verbatim>\<open>_register_player\<close> the dictionary enters \<^verbatim>\<open>self.players\<close> with its colour only,
  and \<^verbatim>\<open>_reset_player_for_new_stage\<close> then assigns every other key. The record is
  created with zeros in those fields; they are all overwritten unless the level lookup
  raises first.
\<close>

definition register_player :: "real \<Rightarrow> string \<Rightarrow> state \<Rightarrow> body response result \<times> state" where
  "register_player now color_arg s =
     (let color_choice = lower color_arg
      in if color_choice \<notin> set [''black'', ''white'']
         then (Return (reply_msg ERROR ''Invalid color.''), s)
         else
           let player_id = ''player_'' @ color_choice
           in if map_of (players s) player_id \<noteq> None
              then (Return (reply_msg ERROR ''Color is taken.''), s)
              else
                let player_data = \<lparr>color_type = color_choice, pos_x = 0, pos_y = 0, lives = 0,
                                    gems_collected = 0, at_exit = False\<rparr>;
                    s1 = s\<lparr>players := AList.update player_id player_data (players s)\<rparr>
                in if current_level_index s1 \<ge> length (levels s1) then (Raise IndexError, s1)
                   else
                     let p = reset_player_for_new_stage player_data
                               (start_pos (levels s1 ! current_level_index s1));
                         s2 = s1\<lparr>players := AList.update player_id p (players s1)\<rparr>;
                         s3 = (if length (players s2) = 1 \<and> \<not> truthy_time (start_time s2)
                               then s2\<lparr>start_time := Some now\<rparr> else s2)
                     in (Return \<lparr>status = OK, message = None,
                                 body = Some (Registered player_id color_choice (pos_x p) (pos_y p))\<rparr>,
                         s3))"

definition set_player_state :: "string \<Rightarrow> int \<Rightarrow> int \<Rightarrow> int \<Rightarrow> state \<Rightarrow> body response result \<times> state" where
  "set_player_state player_id x y lv s =
     (case map_of (players s) player_id of
        Some p \<Rightarrow>
          (Return (reply OK),
           s\<lparr>players := AList.update player_id (p\<lparr>pos_x := x, pos_y := y, lives := lv\<rparr>) (players s)\<rparr>)
      | None \<Rightarrow> (Return (reply_msg ERROR ''Player not found.''), s))"

definition get_player_info :: "string \<Rightarrow> state \<Rightarrow> body response result \<times> state" where
  "get_player_info player_id s =
     (case map_of (players s) player_id of
        Some p \<Rightarrow>
          (let color = color_type p;
               face_b64 = (if color = ''black'' then black_player_image_b64 (images s)
                           else white_player_image_b64 (images s))
           in (Return \<lparr>status = OK, message = None, body = Some (PlayerInfo color face_b64)\<rparr>, s))
      | None \<Rightarrow> (Return (reply_msg ERROR ''Player not found.''), s))"

text \<open>\<open>now\<close> is the reading of \<^verbatim>\<open>time.time()\<close>; the elapsed time is the float difference in
  the source and the real difference here.\<close>

definition get_game_state :: "real \<Rightarrow> state \<Rightarrow> body response result \<times> state" where
  "get_game_state now s =
     (let elapsed_time = (case start_time s of
                            Some t \<Rightarrow> if t \<noteq> 0 then now - t else 0
                          | None \<Rightarrow> 0);
          game_info_data = \<lparr>gi_current_stage = current_level_index s + 1,
                            gi_total_stages = total_stages s,
                            gi_scores = scores s,
                            gi_elapsed_time = elapsed_time,
                            gi_stage_winner = stage_winner s,
                            gi_match_winner = match_winner s,
                            gi_required_black = black_gems_required s,
                            gi_required_white = white_gems_required s\<rparr>
      in (Return \<lparr>status = OK, message = None,
                  body = Some (GameState
                    \<lparr>snap_players = players s, snap_gems = gems s, snap_hazards = hazards s,
                     snap_walls = walls s, snap_exit_area = exit_area s,
                     snap_images = [(''black_gem'', black_gem_image_b64 (images s)),
                                    (''white_gem'', white_gem_image_b64 (images s)),
                                    (''black_hazard'', black_hazard_image_b64 (images s)),
                                    (''white_hazard'', white_hazard_image_b64 (images s)),
                                    (''exit'', exit_area_image_b64 (images s)),
                                    (''wall'', wall_image_b64 (images s))],
                     snap_game_info = game_info_data\<rparr>)\<rparr>,
          s))"

text \<open>\<^verbatim>\<open>self.scores[winner_id] += 1\<close> raises \<^verbatim>\<open>KeyError\<close> for a key that is not there,
  after \<^verbatim>\<open>stage_winner\<close> has been assigned.\<close>

definition handle_stage_win :: "string \<Rightarrow> state \<Rightarrow> unit result \<times> state" where
  "handle_stage_win winner_id s =
     (if truthy (stage_winner s) then (Return (), s)
      else
        let s1 = s\<lparr>stage_winner := Some winner_id\<rparr>
        in case map_of (scores s1) winner_id of
             None \<Rightarrow> (Raise KeyError, s1)
           | Some v \<Rightarrow>
               let s2 = s1\<lparr>scores := AList.update winner_id (v + 1) (scores s1)\<rparr>
               in if v + 1 \<ge> int (total_stages s2 div 2 + 1) then determine_final_winner s2
                  else if current_level_index s2 + 1 \<ge> total_stages s2
                       then determine_final_winner s2
                  else (Return (), s2\<lparr>timers := timers s2 @ [(3, LoadNextStage)]\<rparr>))"

definition collect_gem :: "string \<Rightarrow> string \<Rightarrow> state \<Rightarrow> body response result \<times> state" where
  "collect_gem player_id gem_id s =
     (if truthy (match_winner s) \<or> truthy (stage_winner s) then (Return (reply ERROR), s)
      else
        case map_of (players s) player_id of
          None \<Rightarrow> (Return (reply ERROR), s)
        | Some p \<Rightarrow>
            (case map_of (gems s) gem_id of
               None \<Rightarrow> (Return (reply ERROR), s)
             | Some g \<Rightarrow>
                 if color_type p = gem_type g
                 then (Return (reply OK),
                       s\<lparr>players := AList.update player_id
                                      (p\<lparr>gems_collected := gems_collected p + 1\<rparr>) (players s),
                         gems := AList.delete gem_id (gems s)\<rparr>)
                 else (Return (reply ERROR), s)))"

definition check_hazard_collision :: "string \<Rightarrow> string \<Rightarrow> state \<Rightarrow> body response result \<times> state" where
  "check_hazard_collision player_id hazard_id s =
     (if truthy (match_winner s) \<or> truthy (stage_winner s) then (Return (reply ERROR), s)
      else
        case map_of (players s) player_id of
          None \<Rightarrow> (Return (reply OK), s)
        | Some p \<Rightarrow>
            (case map_of (hazards s) hazard_id of
               None \<Rightarrow> (Return (reply OK), s)
             | Some hz \<Rightarrow>
                 if color_type p \<noteq> hz_type hz
                 then
                   let s1 = s\<lparr>players := AList.update player_id (p\<lparr>lives := 0\<rparr>) (players s)\<rparr>;
                       opponent_id = (if color_type p = ''black'' then ''player_white''
                                      else ''player_black'')
                   in (case handle_stage_win opponent_id s1 of
                         (Return u, s2) \<Rightarrow> (Return (reply OK), s2)
                       | (Raise e, s2) \<Rightarrow> (Raise e, s2))
                 else (Return (reply OK), s)))"

definition player_at_exit :: "string \<Rightarrow> state \<Rightarrow> body response result \<times> state" where
  "player_at_exit player_id s =
     (if truthy (match_winner s) \<or> truthy (stage_winner s)
      then (Return (reply_msg OK ''Stage has already been won.''), s)
      else
        case map_of (players s) player_id of
          None \<Rightarrow> (Return (reply_msg ERROR ''Player not found.''), s)
        | Some p \<Rightarrow>
            let s1 = s\<lparr>players := AList.update player_id (p\<lparr>at_exit := True\<rparr>) (players s)\<rparr>;
                required_gems = (if color_type p = ''black'' then black_gems_required s1
                                 else white_gems_required s1)
            in if gems_collected p \<ge> required_gems
               then (case handle_stage_win player_id s1 of
                       (Return u, s2) \<Rightarrow> (Return (reply_msg OK ''Player at exit processed.''), s2)
                     | (Raise e, s2) \<Rightarrow> (Raise e, s2))
               else (Return (reply_msg OK ''Player at exit processed.''), s1))"

subsection \<open>The command processor\<close>

text \<open>
  \<^verbatim>\<open>parts[0]\<close> is read before the lock is taken and outside any \<^verbatim>\<open>try\<close>: with no token
  it raises \<^verbatim>\<open>IndexError\<close>. The clock is read at most once in a command that goes through
  (a registration that finds one player afterwards found none before), so one reading
  \<open>now\<close> serves both places.
\<close>

text \<open>The first statement under the lock: the match clock starts once a player exists.\<close>

definition start_clock :: "real \<Rightarrow> state \<Rightarrow> state" where
  "start_clock now s =
     (if \<not> truthy_time (start_time s) \<and> length (players s) \<ge> 1
      then s\<lparr>start_time := Some now\<rparr> else s)"

definition proses_string :: "real \<Rightarrow> string \<Rightarrow> state \<Rightarrow> body response result \<times> state" where
  "proses_string now command_string s =
     (case split (strip command_string) of
        [] \<Rightarrow> (Raise IndexError, s)
      | p # args \<Rightarrow>
          let command = lower p;
              s0 = start_clock now s
          in if command = ''register_player''
             then (case args of [] \<Rightarrow> (Return (reply ERROR), s0)
                   | a # rest \<Rightarrow> register_player now a s0)
             else if command = ''set_player_state''
             then (if length args = 4
                   then (case (py_int (args ! 1), py_int (args ! 2), py_int (args ! 3)) of
                           (Some x, Some y, Some lv) \<Rightarrow> set_player_state (args ! 0) x y lv s0
                         | _ \<Rightarrow> (Return (reply ERROR), s0))
                   else (Return (reply ERROR), s0))
             else if command = ''get_game_state'' then get_game_state now s0
             else if command = ''get_player_info''
             then (case args of [] \<Rightarrow> (Return (reply ERROR), s0)
                   | a # rest \<Rightarrow> get_player_info a s0)
             else if command = ''collect_gem''
             then (if length args = 2 then collect_gem (args ! 0) (args ! 1) s0
                   else (Return (reply ERROR), s0))
             else if command = ''check_hazard_collision''
             then (if length args = 2 then check_hazard_collision (args ! 0) (args ! 1) s0
                   else (Return (reply ERROR), s0))
             else if command = ''player_at_exit''
             then (case args of [] \<Rightarrow> (Return (reply ERROR), s0)
                   | a # rest \<Rightarrow> player_at_exit a s0)
             else if command = ''reset_game'' then (Return (reply OK), full_reset s0)
             else (Return (reply_msg ERROR ''Unknown command''), s0))"

subsection \<open>The single-arena engine (src/protocol.py)\<close>

text \<open>The attributes of the class in \<^verbatim>\<open>src/protocol.py\<close>; \<open>l_winner\<close> is \<^verbatim>\<open>self.winner\<close>.\<close>

record legacy_state =
  l_players :: "(string \<times> player) list"
  l_gems :: "(string \<times> gem) list"
  l_hazards :: "(string \<times> hazard) list"
  l_walls :: "(string \<times> rect) list"
  l_exit_area :: "rect option"
  l_next_gem_id :: nat
  l_winner :: "string option"
  l_black_gems_required :: int
  l_white_gems_required :: int
  l_images :: assets

definition legacy_map_width :: int where "legacy_map_width = 640"
definition legacy_map_height :: int where "legacy_map_height = 480"

definition legacy_place_wall :: "int \<Rightarrow> int \<Rightarrow> int \<Rightarrow> int \<Rightarrow> legacy_state \<Rightarrow> legacy_state" where
  "legacy_place_wall x y width height s =
     (let wall_id = ''wall_'' @ str_nat (length (l_walls s))
      in s\<lparr>l_walls := AList.update wall_id
              \<lparr>rect_x = x, rect_y = y, rect_width = width, rect_height = height\<rparr> (l_walls s)\<rparr>)"

definition legacy_place_gem :: "int \<Rightarrow> int \<Rightarrow> string \<Rightarrow> legacy_state \<Rightarrow> legacy_state" where
  "legacy_place_gem x y gtype s =
     (let gem_id = gtype @ ''_gem_'' @ str_nat (l_next_gem_id s);
          s1 = s\<lparr>l_next_gem_id := l_next_gem_id s + 1\<rparr>;
          s2 = s1\<lparr>l_gems := AList.update gem_id \<lparr>gem_x = x, gem_y = y, gem_type = gtype\<rparr> (l_gems s1)\<rparr>
      in if gtype = ''black'' then s2\<lparr>l_black_gems_required := l_black_gems_required s2 + 1\<rparr>
         else s2\<lparr>l_white_gems_required := l_white_gems_required s2 + 1\<rparr>)"

definition legacy_set_hazard ::
  "string \<Rightarrow> int \<Rightarrow> int \<Rightarrow> string \<Rightarrow> int \<Rightarrow> int \<Rightarrow> legacy_state \<Rightarrow> legacy_state" where
  "legacy_set_hazard h_id x y t w h s =
     s\<lparr>l_hazards := AList.update h_id
          \<lparr>hz_type = t, hz_x = x, hz_y = y, hz_width = w, hz_height = h\<rparr> (l_hazards s)\<rparr>"

definition legacy_initialize_game_elements :: "legacy_state \<Rightarrow> legacy_state" where
  "legacy_initialize_game_elements s =
     (let s0 = s\<lparr>l_gems := [], l_hazards := [], l_walls := [], l_next_gem_id := 0,
                  l_winner := None, l_black_gems_required := 0, l_white_gems_required := 0\<rparr>;
          w = legacy_map_width; h = legacy_map_height;
          s1 = foldl (\<lambda>t (x, y, wd, ht). legacy_place_wall x y wd ht t) s0
                 [(0, h - 20, w, 20), (0, 0, 20, h), (w - 20, 0, 20, h), (0, 0, w, 20),
                  (50, 400, w - 100, 20), (150, 300, 100, 20), (w - 250, 300, 100, 20),
                  (50, 200, 150, 20), (w - 200, 200, 150, 20), (250, 100, 140, 20)];
          s2 = legacy_set_hazard ''white_pool_1'' 100 420 ''white'' 60 20 s1;
          s3 = legacy_set_hazard ''white_pool_2'' 300 380 ''white'' 60 20 s2;
          s4 = legacy_set_hazard ''black_pool_1'' (w - 160) 420 ''black'' 60 20 s3;
          s5 = legacy_set_hazard ''black_pool_2'' (w - 340) 200 ''black'' 60 20 s4;
          s6 = s5\<lparr>l_exit_area := Some \<lparr>rect_x = 280, rect_y = 40, rect_width = 80, rect_height = 80\<rparr>\<rparr>
      in foldl (\<lambda>t (x, y, c). legacy_place_gem x y c t) s6
           [(70, 370, ''black''), (200, 270, ''black''), (120, 170, ''black''),
            (w - 120, 370, ''white''), (w - 240, 270, ''white''), (w - 150, 170, ''white'')])"

definition legacy_new_protocol :: "assets \<Rightarrow> legacy_state" where
  "legacy_new_protocol imgs =
     legacy_initialize_game_elements
       \<lparr>l_players = [], l_gems = [], l_hazards = [], l_walls = [], l_exit_area = None,
        l_next_gem_id = 0, l_winner = None, l_black_gems_required = 0,
        l_white_gems_required = 0, l_images = imgs\<rparr>"

record legacy_snapshot =
  ls_players :: "(string \<times> player) list"
  ls_gems :: "(string \<times> gem) list"
  ls_hazards :: "(string \<times> hazard) list"
  ls_walls :: "(string \<times> rect) list"
  ls_exit_area :: "rect option"
  ls_images :: "(string \<times> string) list"
  ls_black_gems_required :: int
  ls_white_gems_required :: int
  ls_winner :: "string option"

text \<open>\<open>LWinner\<close> is the key \<^verbatim>\<open>winner\<close> of the answer to a fatal hazard hit.\<close>

datatype legacy_body = LRegistered string string int int | LPlayerInfo string string
  | LGameState legacy_snapshot | LWinner "string option"

definition legacy_register_player ::
  "string \<Rightarrow> legacy_state \<Rightarrow> legacy_body response result \<times> legacy_state" where
  "legacy_register_player color_arg s =
     (let color_choice = lower color_arg
      in if color_choice \<notin> set [''black'', ''white'']
         then (Return (reply_msg ERROR
                 (''Invalid color choice. Must be '' @ [CHR 0x27] @ ''black'' @ [CHR 0x27]
                  @ '' or '' @ [CHR 0x27] @ ''white'' @ [CHR 0x27] @ ''.'')), s)
         else
           let player_id = ''player_'' @ color_choice
           in if map_of (l_players s) player_id \<noteq> None
              then (Return (reply_msg ERROR
                      (''Player color '' @ [CHR 0x27] @ color_choice @ [CHR 0x27]
                       @ '' is already taken.'')), s)
              else
                let initial_x = (if color_choice = ''black'' then 70
                                 else legacy_map_width - 70 - 64);
                    initial_y = 400 - 64
                in (Return \<lparr>status = OK,
                            message = Some (''Player '' @ player_id @ '' registered as ''
                                            @ color_choice @ ''.''),
                            body = Some (LRegistered player_id color_choice initial_x initial_y)\<rparr>,
                    s\<lparr>l_players := AList.update player_id
                         \<lparr>color_type = color_choice, pos_x = initial_x, pos_y = initial_y,
                          lives = default_player_lives, gems_collected = 0, at_exit = False\<rparr>
                         (l_players s)\<rparr>))"

definition legacy_set_player_state ::
  "string \<Rightarrow> int \<Rightarrow> int \<Rightarrow> int \<Rightarrow> legacy_state \<Rightarrow> legacy_body response result \<times> legacy_state" where
  "legacy_set_player_state player_id x y lv s =
     (case map_of (l_players s) player_id of
        Some p \<Rightarrow>
          (Return (reply_msg OK (''Player '' @ player_id @ '' state updated.'')),
           s\<lparr>l_players := AList.update player_id (p\<lparr>pos_x := x, pos_y := y, lives := lv\<rparr>)
                             (l_players s)\<rparr>)
      | None \<Rightarrow> (Return (reply_msg ERROR (''Player '' @ player_id @ '' not found.'')), s))"

definition legacy_get_player_info ::
  "string \<Rightarrow> legacy_state \<Rightarrow> legacy_body response result \<times> legacy_state" where
  "legacy_get_player_info player_id s =
     (case map_of (l_players s) player_id of
        Some p \<Rightarrow>
          (let c = color_type p;
               face_b64 = (if c = ''black'' then black_player_image_b64 (l_images s)
                           else white_player_image_b64 (l_images s))
           in (Return \<lparr>status = OK, message = None, body = Some (LPlayerInfo c face_b64)\<rparr>, s))
      | None \<Rightarrow> (Return (reply_msg ERROR ''Player not found.''), s))"

definition legacy_get_game_state :: "legacy_state \<Rightarrow> legacy_body response result \<times> legacy_state" where
  "legacy_get_game_state s =
     (Return \<lparr>status = OK, message = None,
              body = Some (LGameState
                \<lparr>ls_players = l_players s, ls_gems = l_gems s, ls_hazards = l_hazards s,
                 ls_walls = l_walls s, ls_exit_area = l_exit_area s,
                 ls_images = [(''black_gem_image_b64'', black_gem_image_b64 (l_images s)),
                              (''white_gem_image_b64'', white_gem_image_b64 (l_images s)),
                              (''black_hazard_image_b64'', black_hazard_image_b64 (l_images s)),
                              (''white_hazard_image_b64'', white_hazard_image_b64 (l_images s)),
                              (''exit_area_image_b64'', exit_area_image_b64 (l_images s)),
                              (''wall_image_b64'', wall_image_b64 (l_images s))],
                 ls_black_gems_required = l_black_gems_required s,
                 ls_white_gems_required = l_white_gems_required s,
                 ls_winner = l_winner s\<rparr>)\<rparr>,
      s)"

definition legacy_collect_gem ::
  "string \<Rightarrow> string \<Rightarrow> legacy_state \<Rightarrow> legacy_body response result \<times> legacy_state" where
  "legacy_collect_gem player_id gem_id s =
     (if truthy (l_winner s) then (Return (reply_msg ERROR ''Game has already ended.''), s)
      else if map_of (l_players s) player_id = None \<or> map_of (l_gems s) gem_id = None
      then (Return (reply_msg ERROR ''Player or gem not found.''), s)
      else
        let p = the (map_of (l_players s) player_id);
            g = the (map_of (l_gems s) gem_id)
        in if color_type p = gem_type g
           then (Return (reply_msg OK ''Gem collected.''),
                 s\<lparr>l_players := AList.update player_id
                                  (p\<lparr>gems_collected := gems_collected p + 1\<rparr>) (l_players s),
                   l_gems := AList.delete gem_id (l_gems s)\<rparr>)
           else (Return (reply_msg ERROR ''Wrong gem color for this character.''), s))"

definition legacy_check_hazard_collision ::
  "string \<Rightarrow> string \<Rightarrow> legacy_state \<Rightarrow> legacy_body response result \<times> legacy_state" where
  "legacy_check_hazard_collision player_id hazard_id s =
     (if truthy (l_winner s) then (Return (reply_msg ERROR ''Game has already ended.''), s)
      else if map_of (l_players s) player_id = None \<or> map_of (l_hazards s) hazard_id = None
      then (Return (reply_msg ERROR ''Player or hazard not found.''), s)
      else
        let p = the (map_of (l_players s) player_id);
            hz = the (map_of (l_hazards s) hazard_id);
            opponent_color = (if color_type p = ''black'' then ''white'' else ''black'')
        in if color_type p \<noteq> hz_type hz
           then
             let w = Some (''player_'' @ opponent_color)
             in (Return \<lparr>status = OK, message = Some ''Hazard hit, game over.'',
                         body = Some (LWinner w)\<rparr>,
                 s\<lparr>l_players := AList.update player_id (p\<lparr>lives := 0\<rparr>) (l_players s),
                   l_winner := w\<rparr>)
           else (Return (reply_msg OK ''Safe hazard.''), s))"

definition legacy_check_race_win_condition :: "string \<Rightarrow> legacy_state \<Rightarrow> legacy_state" where
  "legacy_check_race_win_condition player_id s =
     (if truthy (l_winner s) then s
      else
        case map_of (l_players s) player_id of
          None \<Rightarrow> s
        | Some p \<Rightarrow>
            let required_gems = (if color_type p = ''black'' then l_black_gems_required s
                                 else l_white_gems_required s)
            in if at_exit p \<and> gems_collected p \<ge> required_gems
               then s\<lparr>l_winner := Some player_id\<rparr> else s)"

definition legacy_player_at_exit ::
  "string \<Rightarrow> legacy_state \<Rightarrow> legacy_body response result \<times> legacy_state" where
  "legacy_player_at_exit player_id s =
     (if truthy (l_winner s) then (Return (reply_msg ERROR ''Game has already ended.''), s)
      else
        case map_of (l_players s) player_id of
          Some p \<Rightarrow>
            (Return (reply_msg OK (''Player '' @ player_id @ '' is at exit.'')),
             legacy_check_race_win_condition player_id
               (s\<lparr>l_players := AList.update player_id (p\<lparr>at_exit := True\<rparr>) (l_players s)\<rparr>))
        | None \<Rightarrow> (Return (reply_msg ERROR ''Player not found.''), s))"

text \<open>
  \<^verbatim>\<open>def _reset_game(self)\<close> starts in column 0 of \<^verbatim>\<open>src/protocol.py\<close>: it is a function
  of the module, not a method of the class. This is what it would do to the object it is
  given.
\<close>

definition legacy_reset_game :: "legacy_state \<Rightarrow> legacy_body response result \<times> legacy_state" where
  "legacy_reset_game s =
     (let s1 = legacy_initialize_game_elements s;
          s2 = s1\<lparr>l_players :=
                    map (\<lambda>(pid, p).
                           (pid,
                            (if color_type p = ''black'' then p\<lparr>pos_x := 70, pos_y := 400 - 64\<rparr>
                             else if color_type p = ''white''
                                  then p\<lparr>pos_x := legacy_map_width - 70 - 64, pos_y := 400 - 64\<rparr>
                             else p)
                            \<lparr>lives := default_player_lives, gems_collected := 0, at_exit := False\<rparr>))
                        (l_players s1)\<rparr>
      in (Return (reply_msg OK ''Game state reset.''), s2\<lparr>l_players := []\<rparr>))"

text \<open>
  The command processor of \<^verbatim>\<open>src/protocol.py\<close>. The class has no attribute
  \<^verbatim>\<open>_reset_game\<close>, so the branch of \<^verbatim>\<open>reset_game\<close> raises \<^verbatim>\<open>AttributeError\<close> when it
  looks the method up.
\<close>

definition legacy_proses_string ::
  "string \<Rightarrow> legacy_state \<Rightarrow> legacy_body response result \<times> legacy_state" where
  "legacy_proses_string command_string s =
     (case split (strip command_string) of
        [] \<Rightarrow> (Raise IndexError, s)
      | p # args \<Rightarrow>
          let command = lower p
          in if command = ''register_player''
             then (if length args = 1 then legacy_register_player (args ! 0) s
                   else (Return (reply_msg ERROR ''Usage: register_player <player_id>''), s))
             else if command = ''set_player_state''
             then (if length args = 4
                   then (case (py_int (args ! 1), py_int (args ! 2), py_int (args ! 3)) of
                           (Some x, Some y, Some lv) \<Rightarrow> legacy_set_player_state (args ! 0) x y lv s
                         | _ \<Rightarrow> (Return (reply_msg ERROR ''Invalid state values''), s))
                   else (Return (reply_msg ERROR ''Usage: set_player_state <id> <x> <y> <lives>''), s))
             else if command = ''get_game_state'' then legacy_get_game_state s
             else if command = ''get_player_info''
             then (if length args = 1 then legacy_get_player_info (args ! 0) s
                   else (Return (reply_msg ERROR ''Usage: get_player_info <player_id>''), s))
             else if command = ''collect_gem''
             then (if length args = 2 then legacy_collect_gem (args ! 0) (args ! 1) s
                   else (Return (reply_msg ERROR ''Usage: collect_gem <player_id> <gem_id>''), s))
             else if command = ''check_hazard_collision''
             then (if length args = 2 then legacy_check_hazard_collision (args ! 0) (args ! 1) s
                   else (Return (reply_msg ERROR
                           ''Usage: check_hazard_collision <player_id> <hazard_id>''), s))
             else if command = ''player_at_exit''
             then (if length args = 1 then legacy_player_at_exit (args ! 0) s
                   else (Return (reply_msg ERROR ''Usage: player_at_exit <player_id>''), s))
             else if command = ''reset_game'' then (Raise AttributeError, s)
             else (Return (reply_msg ERROR ''Unknown command''), s))"

section \<open>Vocabulary of the properties\<close>

text \<open>The status of the response a command returned; \<open>None\<close> when it raised instead.\<close>

definition status_of :: "'b response result \<Rightarrow> status option" where
  "status_of r = (case r of Return a \<Rightarrow> Some (status a) | Raise e \<Rightarrow> None)"

text \<open>Neither winner is set, as the guard of the three gameplay handlers reads it.\<close>

definition undecided :: "state \<Rightarrow> bool" where
  "undecided s = (\<not> truthy (match_winner s) \<and> \<not> truthy (stage_winner s))"

definition other_color :: "string \<Rightarrow> string" where
  "other_color c = (if c = ''black'' then ''white'' else ''black'')"

text \<open>The entry of \<^verbatim>\<open>required_gems\<close> in the snapshot for a colour.\<close>

definition required_gems :: "state \<Rightarrow> string \<Rightarrow> int" where
  "required_gems s c = (if c = ''black'' then black_gems_required s else white_gems_required s)"

text \<open>The number of collectibles of a colour in a level of the catalog.\<close>

definition gems_of_color :: "string \<Rightarrow> level \<Rightarrow> int" where
  "gems_of_color c lv = int (length (filter (\<lambda>g. fst g = c) (lv_gems lv)))"

text \<open>
  What registration, the constructor and the handlers maintain: the players are keyed by
  \<^verbatim>\<open>player_\<close> and their colour, which is black or white; both scores exist; the current
  level is in the catalog; the clock runs once a player exists.
\<close>

definition wf_players :: "(string \<times> player) list \<Rightarrow> bool" where
  "wf_players ps =
     (distinct (map fst ps) \<and>
      (\<forall>e \<in> set ps. color_type (snd e) \<in> {''black'', ''white''}
                     \<and> fst e = ''player_'' @ color_type (snd e)))"

definition well_formed :: "state \<Rightarrow> bool" where
  "well_formed s =
     (wf_players (players s)
      \<and> map_of (scores s) ''player_black'' \<noteq> None
      \<and> map_of (scores s) ''player_white'' \<noteq> None
      \<and> current_level_index s < length (levels s)
      \<and> (players s \<noteq> [] \<longrightarrow> truthy_time (start_time s)))"

text \<open>The states the server can be in: built by the constructor, then changed by commands
  (the clock never reads zero) and by timers that fire.\<close>

inductive reachable :: "state \<Rightarrow> bool" where
  reachable_init: "reachable (new_protocol imgs)"
| reachable_command: "reachable s \<Longrightarrow> now \<noteq> 0 \<Longrightarrow> reachable (snd (proses_string now line s))"
| reachable_timer: "reachable s \<Longrightarrow> reachable (fire_timer s)"

text \<open>The command name of a request line, when the line has one.\<close>

definition command_of :: "string \<Rightarrow> string option" where
  "command_of line = (case split (strip line) of [] \<Rightarrow> None | p # args \<Rightarrow> Some (lower p))"

text \<open>A sequence of requests, each with the clock reading at its arrival.\<close>

fun run :: "(real \<times> string) list \<Rightarrow> state \<Rightarrow> state" where
  "run [] s = s"
| "run (c # cs) s = run cs (snd (proses_string (fst c) (snd c) s))"

text \<open>Collecting a list of gems in turn for one player.\<close>

definition collect_all :: "string \<Rightarrow> string list \<Rightarrow> state \<Rightarrow> state" where
  "collect_all player_id gem_ids s = foldl (\<lambda>t g. snd (collect_gem player_id g t)) s gem_ids"

text \<open>The part of the state that the placement of walls, hazards and gems leaves alone.\<close>

definition match_part ::
  "state \<Rightarrow> (string \<times> player) list \<times> level list \<times> nat \<times> (string \<times> int) list \<times> nat
            \<times> string option \<times> string option \<times> real option \<times> assets \<times> (real \<times> callback) list" where
  "match_part s = (players s, levels s, total_stages s, scores s, current_level_index s,
                   match_winner s, stage_winner s, start_time s, images s, timers s)"

text \<open>The state of \<^verbatim>\<open>_load_level\<close> after its three placement loops, before the exit and the
  players are replaced.\<close>

definition stage_entities_loaded :: "nat \<Rightarrow> state \<Rightarrow> state" where
  "stage_entities_loaded i s =
     (let level_data = levels s ! i;
          s1 = s\<lparr>current_level_index := i, gems := [], hazards := [], walls := [],
                 black_gems_required := 0, white_gems_required := 0,
                 next_gem_id := 0, stage_winner := None\<rparr>;
          s5 = place_wall 0 0 map_width 20 (place_wall (map_width - 20) 0 20 map_height
                 (place_wall 0 0 20 map_height (place_wall 0 (map_height - 20) map_width 20 s1)));
          s6 = foldl (\<lambda>t (x, y, w, h). place_wall x y w h t) s5 (lv_walls level_data);
          s7 = foldl place_hazard s6 (lv_hazards level_data)
      in foldl (\<lambda>t (c, x, y). place_gem x y c t) s7 (lv_gems level_data))"

text \<open>Nothing of the running stage was reloaded between two states: the requirement
  counts, the hazards and the level are the same, and no gem was added.\<close>

definition within_stage :: "state \<Rightarrow> state \<Rightarrow> bool" where
  "within_stage s t =
     (black_gems_required t = black_gems_required s
      \<and> white_gems_required t = white_gems_required s
      \<and> set (gems t) \<subseteq> set (gems s)
      \<and> hazards t = hazards s
      \<and> current_level_index t = current_level_index s)"

text \<open>
  The requests that the command processor rejects, by their tokens: an unknown command
  name; no argument for a command that takes a player or a colour; other than four
  arguments, or a non-integer among the last three, for \<^verbatim>\<open>set_player_state\<close>; other than
  two arguments for \<^verbatim>\<open>collect_gem\<close> and \<^verbatim>\<open>check_hazard_collision\<close>.
\<close>

definition rejected_request :: "string list \<Rightarrow> bool" where
  "rejected_request toks =
     (case toks of
        [] \<Rightarrow> False
      | p # args \<Rightarrow>
          let command = lower p
          in if command \<in> set [''register_player'', ''get_player_info'', ''player_at_exit'']
             then args = []
             else if command = ''set_player_state''
             then length args \<noteq> 4 \<or> py_int (args ! 1) = None \<or> py_int (args ! 2) = None
                  \<or> py_int (args ! 3) = None
             else if command \<in> set [''collect_gem'', ''check_hazard_collision'']
             then length args \<noteq> 2
             else command \<notin> set [''get_game_state'', ''reset_game''])"

text \<open>The identifiers of the gems that a \<^verbatim>\<open>get_game_state\<close> response lists.\<close>

definition snapshot_gem_ids :: "real \<Rightarrow> state \<Rightarrow> string list" where
  "snapshot_gem_ids now s =
     (case fst (get_game_state now s) of
        Return r \<Rightarrow> (case body r of Some (GameState sn) \<Rightarrow> map fst (snap_gems sn) | _ \<Rightarrow> [])
      | Raise e \<Rightarrow> [])"

text \<open>What a stage holds besides its exit: the entities that the placement loops write and
  the counters they keep.\<close>

definition entity_part ::
  "state \<Rightarrow> (string \<times> gem) list \<times> (string \<times> hazard) list \<times> (string \<times> rect) list
            \<times> nat \<times> int \<times> int" where
  "entity_part s = (gems s, hazards s, walls s, next_gem_id s,
                    black_gems_required s, white_gems_required s)"

text \<open>The requests that the command processor of \<^verbatim>\<open>src/protocol.py\<close> rejects: as above,
  except that a command that takes a player or a colour must have exactly one argument.\<close>

definition legacy_rejected_request :: "string list \<Rightarrow> bool" where
  "legacy_rejected_request toks =
     (case toks of
        [] \<Rightarrow> False
      | p # args \<Rightarrow>
          let command = lower p
          in if command \<in> set [''register_player'', ''get_player_info'', ''player_at_exit'']
             then length args \<noteq> 1
             else if command = ''set_player_state''
             then length args \<noteq> 4 \<or> py_int (args ! 1) = None \<or> py_int (args ! 2) = None
                  \<or> py_int (args ! 3) = None
             else if command \<in> set [''collect_gem'', ''check_hazard_collision'']
             then length args \<noteq> 2
             else command \<notin> set [''get_game_state'', ''reset_game''])"

subsection \<open>Example states\<close>

definition demo_assets :: assets where
  "demo_assets = \<lparr>black_player_image_b64 = ''bp'', white_player_image_b64 = ''wp'',
     black_gem_image_b64 = ''bg'', white_gem_image_b64 = ''wg'',
     black_hazard_image_b64 = ''bh'', white_hazard_image_b64 = ''wh'',
     exit_area_image_b64 = ''ex'', wall_image_b64 = ''wa''\<rparr>"

text \<open>The first stage with the black player registered at clock reading 1.\<close>

definition demo_stage :: state where
  "demo_stage = snd (proses_string 1 ''register_player black'' (new_protocol demo_assets))"

text \<open>The single arena with the black player registered.\<close>

definition legacy_demo :: legacy_state where
  "legacy_demo = snd (legacy_proses_string ''register_player black'' (legacy_new_protocol demo_assets))"

text \<open>The same stage after the black player touched the white pool: the white player
  has won it.\<close>

definition demo_won :: state where
  "demo_won = snd (proses_string 2 ''check_hazard_collision player_black white_pool_0'' demo_stage)"

section \<open>Properties\<close>

subsection \<open>Basic facts\<close>

lemma truthy_simps [simp]: "truthy None = False" "truthy (Some w) = (w \<noteq> [])"
  by (simp_all add: truthy_def)

lemma truthy_time_simps [simp]: "truthy_time None = False" "truthy_time (Some r) = (r \<noteq> 0)"
  by (simp_all add: truthy_time_def)

lemma status_of_simps [simp]:
  "status_of (Return a) = Some (status a)" "status_of (Raise e) = None"
  by (simp_all add: status_of_def)

lemma status_reply [simp]: "status (reply st) = st" "status (reply_msg st m) = st"
  by (simp_all add: reply_def reply_msg_def)

lemma foldl_preserves:
  "(\<And>t a. f (step t a) = f t) \<Longrightarrow> f (foldl step s xs) = f s"
  by (induction xs arbitrary: s) simp_all

lemma set_update_subset: "set (AList.update k v al) \<subseteq> insert (k, v) (set al)"
  by (induction al) auto

lemma wf_players_update:
  assumes "wf_players ps" "color_type p \<in> {''black'', ''white''}" "k = ''player_'' @ color_type p"
  shows "wf_players (AList.update k p ps)"
proof -
  have "distinct (map fst (AList.update k p ps))"
    using assms(1) by (simp add: wf_players_def distinct_update)
  moreover have "\<forall>e \<in> set (AList.update k p ps).
      color_type (snd e) \<in> {''black'', ''white''} \<and> fst e = ''player_'' @ color_type (snd e)"
    using assms set_update_subset [of k p ps] by (auto simp: wf_players_def)
  ultimately show ?thesis by (simp add: wf_players_def)
qed

lemma wf_players_lookup:
  "wf_players ps \<Longrightarrow> map_of ps k = Some p \<Longrightarrow>
   color_type p \<in> {''black'', ''white''} \<and> k = ''player_'' @ color_type p"
  by (auto simp: wf_players_def dest!: map_of_SomeD)

lemma color_type_reset [simp]:
  "color_type (reset_player_for_new_stage p sp) = color_type p"
  by (simp add: reset_player_for_new_stage_def Let_def)

lemma wf_players_reset:
  "wf_players ps \<Longrightarrow>
   wf_players (map (\<lambda>(pid, p). (pid, reset_player_for_new_stage p sp)) ps)"
proof -
  assume wf: "wf_players ps"
  have keys: "map fst (map (\<lambda>(pid, p). (pid, reset_player_for_new_stage p sp)) ps) = map fst ps"
    by (induction ps) auto
  have "distinct (map fst (map (\<lambda>(pid, p). (pid, reset_player_for_new_stage p sp)) ps))"
    using wf unfolding keys by (simp add: wf_players_def)
  moreover have "\<forall>e \<in> set (map (\<lambda>(pid, p). (pid, reset_player_for_new_stage p sp)) ps).
      color_type (snd e) \<in> {''black'', ''white''} \<and> fst e = ''player_'' @ color_type (snd e)"
    using wf by (auto simp: wf_players_def)
  ultimately show ?thesis unfolding wf_players_def by blast
qed

subsection \<open>Loading a stage\<close>

lemma match_part_place_wall [simp]: "match_part (place_wall x y w h s) = match_part s"
  by (simp add: match_part_def place_wall_def Let_def)

lemma match_part_place_hazard [simp]: "match_part (place_hazard s hz) = match_part s"
  by (simp add: match_part_def place_hazard_def Let_def split: prod.splits)

lemma match_part_place_gem [simp]: "match_part (place_gem x y c s) = match_part s"
  by (simp add: match_part_def place_gem_def Let_def)

lemma required_place_wall [simp]:
  "black_gems_required (place_wall x y w h s) = black_gems_required s"
  "white_gems_required (place_wall x y w h s) = white_gems_required s"
  by (simp_all add: place_wall_def Let_def)

lemma required_place_hazard [simp]:
  "black_gems_required (place_hazard s hz) = black_gems_required s"
  "white_gems_required (place_hazard s hz) = white_gems_required s"
  by (simp_all add: place_hazard_def Let_def split: prod.splits)

lemma black_required_place_gems:
  "black_gems_required (foldl (\<lambda>t (c, x, y). place_gem x y c t) s gs)
     = black_gems_required s + int (length (filter (\<lambda>g. fst g = ''black'') gs))"
  by (induction gs arbitrary: s) (auto simp: place_gem_def Let_def)

lemma white_required_place_gems:
  "white_gems_required (foldl (\<lambda>t (c, x, y). place_gem x y c t) s gs)
     = white_gems_required s + int (length (filter (\<lambda>g. fst g = ''white'') gs))"
  by (induction gs arbitrary: s) (auto simp: place_gem_def Let_def)

lemma load_level_unfold:
  "i < length (levels s) \<Longrightarrow>
   load_level i s =
     (stage_entities_loaded i s)
       \<lparr>exit_area := Some (case lv_exit (levels s ! i) of (x, y, w, h) \<Rightarrow>
                        \<lparr>rect_x = x, rect_y = y, rect_width = w, rect_height = h\<rparr>),
        players := map (\<lambda>(pid, p). (pid, reset_player_for_new_stage p (start_pos (levels s ! i))))
                       (players (stage_entities_loaded i s))\<rparr>"
  by (simp add: load_level_def stage_entities_loaded_def Let_def)

lemma load_level_out_of_range: "length (levels s) \<le> i \<Longrightarrow> load_level i s = s"
  by (simp add: load_level_def)

lemma match_part_stage_entities:
  "match_part (stage_entities_loaded i s)
     = match_part (s\<lparr>current_level_index := i, stage_winner := None\<rparr>)"
proof -
  have 1: "\<And>t a. match_part ((\<lambda>t (x, y, w, h). place_wall x y w h t) t a) = match_part t"
    by (simp split: prod.splits)
  have 3: "\<And>t a. match_part ((\<lambda>t (c, x, y). place_gem x y c t) t a) = match_part t"
    by (simp split: prod.splits)
  show ?thesis
    unfolding stage_entities_loaded_def Let_def
    by (simp add: foldl_preserves [of match_part, OF 1] foldl_preserves [of match_part, OF 3]
          foldl_preserves [of match_part place_hazard, OF match_part_place_hazard])
       (simp add: match_part_def)
qed

lemma black_required_stage_entities:
  "black_gems_required (stage_entities_loaded i s) = gems_of_color ''black'' (levels s ! i)"
proof -
  have 1: "\<And>t a. black_gems_required ((\<lambda>t (x, y, w, h). place_wall x y w h t) t a)
                   = black_gems_required t"
    by (simp split: prod.splits)
  show ?thesis
    unfolding stage_entities_loaded_def Let_def gems_of_color_def
    by (simp add: black_required_place_gems foldl_preserves [of black_gems_required, OF 1]
          foldl_preserves [of black_gems_required place_hazard, OF required_place_hazard(1)])
qed

lemma white_required_stage_entities:
  "white_gems_required (stage_entities_loaded i s) = gems_of_color ''white'' (levels s ! i)"
proof -
  have 1: "\<And>t a. white_gems_required ((\<lambda>t (x, y, w, h). place_wall x y w h t) t a)
                   = white_gems_required t"
    by (simp split: prod.splits)
  show ?thesis
    unfolding stage_entities_loaded_def Let_def gems_of_color_def
    by (simp add: white_required_place_gems foldl_preserves [of white_gems_required, OF 1]
          foldl_preserves [of white_gems_required place_hazard, OF required_place_hazard(2)])
qed

lemma load_level_match_fields:
  assumes "i < length (levels s)"
  shows "players (load_level i s)
           = map (\<lambda>(pid, p). (pid, reset_player_for_new_stage p (start_pos (levels s ! i)))) (players s)"
    and "levels (load_level i s) = levels s"
    and "total_stages (load_level i s) = total_stages s"
    and "scores (load_level i s) = scores s"
    and "current_level_index (load_level i s) = i"
    and "match_winner (load_level i s) = match_winner s"
    and "stage_winner (load_level i s) = None"
    and "start_time (load_level i s) = start_time s"
    and "images (load_level i s) = images s"
    and "timers (load_level i s) = timers s"
  using match_part_stage_entities [of i s]
  by (simp_all add: load_level_unfold [OF assms] match_part_def)

lemma well_formed_load_level:
  assumes "well_formed s" shows "well_formed (load_level i s)"
proof (cases "i < length (levels s)")
  case True
  show ?thesis
    using assms True
    by (simp add: well_formed_def load_level_match_fields [OF True] wf_players_reset)
next
  case False
  then show ?thesis using assms by (simp add: load_level_out_of_range)
qed

lemma length_define_levels [simp]: "length (levels (define_levels s)) = 5"
  by (simp add: define_levels_def)

lemma well_formed_full_reset: "well_formed (full_reset s)"
proof -
  let ?t = "define_levels (s\<lparr>players := [], scores := [(''player_black'', 0), (''player_white'', 0)],
             match_winner := None, stage_winner := None, start_time := None\<rparr>)"
  have len: "0 < length (levels ?t)" by simp
  show ?thesis
    unfolding full_reset_def
    by (simp add: well_formed_def load_level_match_fields [OF len] wf_players_def)
       (simp add: define_levels_def)
qed

lemma well_formed_new_protocol: "well_formed (new_protocol imgs)"
  by (simp add: new_protocol_def well_formed_full_reset)

subsection \<open>The invariant\<close>

lemma well_formed_start_clock:
  "well_formed s \<Longrightarrow> well_formed (start_clock now s)"
  by (auto simp: start_clock_def well_formed_def)

lemma start_clock_idle:
  "players s = [] \<or> truthy_time (start_time s) \<Longrightarrow> start_clock now s = s"
  by (auto simp: start_clock_def)

lemma start_clock_well_formed_idle: "well_formed s \<Longrightarrow> start_clock now s = s"
  by (rule start_clock_idle) (auto simp: well_formed_def)

lemma determine_final_winner_Return:
  assumes "map_of (scores s) ''player_black'' = Some b" "map_of (scores s) ''player_white'' = Some w"
  shows "determine_final_winner s =
           (Return (), s\<lparr>match_winner := Some (if b > w then ''player_black''
                                               else if w > b then ''player_white'' else ''draw'')\<rparr>)"
  using assms by (simp add: determine_final_winner_def)

lemma determine_final_winner_frame:
  "\<exists>m. snd (determine_final_winner s) = s\<lparr>match_winner := m\<rparr>"
proof (cases "map_of (scores s) ''player_black''")
  case None
  then have "snd (determine_final_winner s) = s\<lparr>match_winner := match_winner s\<rparr>"
    by (simp add: determine_final_winner_def)
  then show ?thesis ..
next
  case (Some b)
  show ?thesis
  proof (cases "map_of (scores s) ''player_white''")
    case None
    with Some have "snd (determine_final_winner s) = s\<lparr>match_winner := match_winner s\<rparr>"
      by (simp add: determine_final_winner_def)
    then show ?thesis ..
  next
    case (Some w)
    with \<open>map_of (scores s) ''player_black'' = Some b\<close>
    have "snd (determine_final_winner s) =
            s\<lparr>match_winner := Some (if b > w then ''player_black''
                                       else if w > b then ''player_white'' else ''draw'')\<rparr>"
      by (simp add: determine_final_winner_Return)
    then show ?thesis ..
  qed
qed

lemma well_formed_match_winner [simp]:
  "well_formed (s\<lparr>match_winner := m\<rparr>) = well_formed s"
  by (simp add: well_formed_def)

lemma well_formed_determine_final_winner:
  "well_formed s \<Longrightarrow> well_formed (snd (determine_final_winner s))"
proof -
  assume wf: "well_formed s"
  obtain m where "snd (determine_final_winner s) = s\<lparr>match_winner := m\<rparr>"
    using determine_final_winner_frame [of s] by blast
  then show ?thesis using wf by simp
qed

lemma well_formed_load_next_stage:
  "well_formed s \<Longrightarrow> well_formed (snd (load_next_stage s))"
  by (simp add: load_next_stage_def well_formed_load_level well_formed_determine_final_winner)

lemma well_formed_fire_timer: "well_formed s \<Longrightarrow> well_formed (fire_timer s)"
proof (cases "timers s")
  case Nil
  assume "well_formed s" with Nil show ?thesis by (simp add: fire_timer_def)
next
  case (Cons t ts)
  assume "well_formed s"
  then have "well_formed (s\<lparr>timers := ts\<rparr>)" by (simp add: well_formed_def)
  then show ?thesis
    using Cons by (cases "snd t") (simp add: fire_timer_def well_formed_load_next_stage)
qed

lemma map_of_update_keys:
  "map_of al k \<noteq> None \<Longrightarrow> map_of (AList.update j v al) k \<noteq> None"
  by (simp add: update_conv')

text \<open>What \<^verbatim>\<open>_handle_stage_win\<close> does when it records a win for a key of the scores.\<close>

lemma handle_stage_win_recorded:
  assumes "\<not> truthy (stage_winner s)" "map_of (scores s) w = Some v"
  shows "handle_stage_win w s =
     (let s2 = s\<lparr>stage_winner := Some w, scores := AList.update w (v + 1) (scores s)\<rparr>
      in if v + 1 \<ge> int (total_stages s div 2 + 1) \<or> current_level_index s + 1 \<ge> total_stages s
         then determine_final_winner s2
         else (Return (), s2\<lparr>timers := timers s @ [(3, LoadNextStage)]\<rparr>))"
  using assms by (simp add: handle_stage_win_def Let_def)

lemma well_formed_handle_stage_win:
  assumes "well_formed s" shows "well_formed (snd (handle_stage_win w s))"
proof (cases "truthy (stage_winner s)")
  case True
  then show ?thesis using assms by (simp add: handle_stage_win_def)
next
  case False
  show ?thesis
  proof (cases "map_of (scores s) w")
    case None
    then show ?thesis using assms False
      by (simp add: handle_stage_win_def Let_def well_formed_def)
  next
    case (Some v)
    let ?s2 = "s\<lparr>stage_winner := Some w, scores := AList.update w (v + 1) (scores s)\<rparr>"
    have wf2: "well_formed ?s2"
      using assms by (simp add: well_formed_def update_conv')
    then have "well_formed (?s2\<lparr>timers := timers s @ [(3, LoadNextStage)]\<rparr>)"
      by (simp add: well_formed_def)
    with wf2 show ?thesis
      by (simp add: handle_stage_win_recorded [OF False Some] Let_def
            well_formed_determine_final_winner)
  qed
qed

lemma well_formed_players_update:
  assumes "well_formed s" "map_of (players s) k = Some p" "color_type q = color_type p"
  shows "well_formed (s\<lparr>players := AList.update k q (players s)\<rparr>)"
proof -
  have "color_type p \<in> {''black'', ''white''} \<and> k = ''player_'' @ color_type p"
    using assms(1,2) wf_players_lookup [of "players s" k p] by (simp add: well_formed_def)
  moreover have "wf_players (players s)" using assms(1) by (simp add: well_formed_def)
  ultimately have "wf_players (AList.update k q (players s))"
    using assms(3) by (intro wf_players_update) simp_all
  moreover have "players s \<noteq> []" using assms(2) by auto
  ultimately show ?thesis using assms(1) by (simp add: well_formed_def)
qed

lemma well_formed_set_player_state:
  "well_formed s \<Longrightarrow> well_formed (snd (set_player_state k x y l s))"
  by (auto simp: set_player_state_def well_formed_players_update split: option.splits)

lemma well_formed_collect_gem:
  assumes "well_formed s" shows "well_formed (snd (collect_gem k g s))"
proof (cases "map_of (players s) k")
  case None
  then show ?thesis using assms by (simp add: collect_gem_def)
next
  case (Some p)
  have "well_formed (s\<lparr>players := AList.update k (p\<lparr>gems_collected := gems_collected p + 1\<rparr>) (players s)\<rparr>)"
    using well_formed_players_update [OF assms Some] by simp
  then have "well_formed (s\<lparr>players := AList.update k (p\<lparr>gems_collected := gems_collected p + 1\<rparr>) (players s),
                       gems := AList.delete g (gems s)\<rparr>)"
    by (simp add: well_formed_def)
  then show ?thesis using assms Some
    by (cases "map_of (gems s) g") (simp_all add: collect_gem_def)
qed

lemma snd_relay [simp]:
  "snd (case r of (Return u, s2) \<Rightarrow> (Return a, s2) | (Raise e, s2) \<Rightarrow> (Raise e, s2)) = snd r"
  by (cases r, cases "fst r") auto

lemma fst_relay_Return [simp]:
  "fst r = Return u \<Longrightarrow>
   fst (case r of (Return u, s2) \<Rightarrow> (Return a, s2) | (Raise e, s2) \<Rightarrow> (Raise e, s2)) = Return a"
  by (cases r) auto

lemma check_hazard_collision_decided:
  "\<not> undecided s \<Longrightarrow> check_hazard_collision k h s = (Return (reply ERROR), s)"
  by (auto simp: check_hazard_collision_def undecided_def)

lemma check_hazard_collision_hit:
  assumes "undecided s" "map_of (players s) k = Some p" "map_of (hazards s) h = Some hz"
    "color_type p \<noteq> hz_type hz"
  shows "snd (check_hazard_collision k h s) =
           snd (handle_stage_win (''player_'' @ other_color (color_type p))
                  (s\<lparr>players := AList.update k (p\<lparr>lives := 0\<rparr>) (players s)\<rparr>))"
  using assms by (simp add: check_hazard_collision_def undecided_def other_color_def Let_def)

lemma check_hazard_collision_miss:
  assumes "undecided s"
    "map_of (players s) k = None \<or> map_of (hazards s) h = None
     \<or> (\<exists>p hz. map_of (players s) k = Some p \<and> map_of (hazards s) h = Some hz
                \<and> color_type p = hz_type hz)"
  shows "check_hazard_collision k h s = (Return (reply OK), s)"
  using assms by (auto simp: check_hazard_collision_def undecided_def split: option.splits)

lemma well_formed_check_hazard_collision:
  assumes "well_formed s" shows "well_formed (snd (check_hazard_collision k h s))"
proof (cases "undecided s")
  case False
  then show ?thesis using assms by (simp add: check_hazard_collision_decided)
next
  case True
  show ?thesis
  proof (cases "\<exists>p hz. map_of (players s) k = Some p \<and> map_of (hazards s) h = Some hz
                        \<and> color_type p \<noteq> hz_type hz")
    case True
    then obtain p hz where h: "map_of (players s) k = Some p" "map_of (hazards s) h = Some hz"
      "color_type p \<noteq> hz_type hz" by blast
    have "well_formed (s\<lparr>players := AList.update k (p\<lparr>lives := 0\<rparr>) (players s)\<rparr>)"
      using well_formed_players_update [OF assms h(1)] by simp
    then show ?thesis
      by (simp add: check_hazard_collision_hit [OF \<open>undecided s\<close> h] well_formed_handle_stage_win)
  next
    case False
    then have "map_of (players s) k = None \<or> map_of (hazards s) h = None
       \<or> (\<exists>p hz. map_of (players s) k = Some p \<and> map_of (hazards s) h = Some hz
                \<and> color_type p = hz_type hz)"
      by (cases "map_of (players s) k"; cases "map_of (hazards s) h") auto
    then show ?thesis using assms
      by (simp add: check_hazard_collision_miss [OF \<open>undecided s\<close>])
  qed
qed

lemma player_at_exit_decided:
  "\<not> undecided s \<Longrightarrow>
   player_at_exit k s = (Return (reply_msg OK ''Stage has already been won.''), s)"
  by (auto simp: player_at_exit_def undecided_def)

lemma player_at_exit_unknown:
  "undecided s \<Longrightarrow> map_of (players s) k = None \<Longrightarrow>
   player_at_exit k s = (Return (reply_msg ERROR ''Player not found.''), s)"
  by (simp add: player_at_exit_def undecided_def)

lemma player_at_exit_short:
  assumes "undecided s" "map_of (players s) k = Some p"
    "gems_collected p < required_gems s (color_type p)"
  shows "player_at_exit k s =
           (Return (reply_msg OK ''Player at exit processed.''),
            s\<lparr>players := AList.update k (p\<lparr>at_exit := True\<rparr>) (players s)\<rparr>)"
  using assms
  by (cases "color_type p = ''black''")
     (simp_all add: player_at_exit_def undecided_def required_gems_def Let_def)

lemma player_at_exit_enough:
  assumes "undecided s" "map_of (players s) k = Some p"
    "gems_collected p \<ge> required_gems s (color_type p)"
  shows "snd (player_at_exit k s) =
           snd (handle_stage_win k (s\<lparr>players := AList.update k (p\<lparr>at_exit := True\<rparr>) (players s)\<rparr>))"
  using assms
  by (cases "color_type p = ''black''")
     (simp_all add: player_at_exit_def undecided_def required_gems_def Let_def)

lemma well_formed_player_at_exit:
  assumes "well_formed s" shows "well_formed (snd (player_at_exit k s))"
proof (cases "undecided s")
  case False
  then show ?thesis using assms by (simp add: player_at_exit_decided)
next
  case True
  show ?thesis
  proof (cases "map_of (players s) k")
    case None
    then show ?thesis using assms True by (simp add: player_at_exit_unknown)
  next
    case (Some p)
    have upd: "well_formed (s\<lparr>players := AList.update k (p\<lparr>at_exit := True\<rparr>) (players s)\<rparr>)"
      using well_formed_players_update [OF assms Some] by simp
    show ?thesis
    proof (cases "gems_collected p < required_gems s (color_type p)")
      case True
      then show ?thesis using upd by (simp add: player_at_exit_short [OF \<open>undecided s\<close> Some])
    next
      case False
      then have "gems_collected p \<ge> required_gems s (color_type p)" by simp
      then show ?thesis using upd
        by (simp add: player_at_exit_enough [OF \<open>undecided s\<close> Some] well_formed_handle_stage_win)
    qed
  qed
qed

lemma snd_get [simp]:
  "snd (get_player_info k s) = s" "snd (get_game_state now s) = s"
  by (simp_all add: get_player_info_def get_game_state_def Let_def split: option.splits)

lemma well_formed_register_player:
  assumes "well_formed s" "now \<noteq> 0"
  shows "well_formed (snd (register_player now a s))"
proof (cases "lower a \<in> set [''black'', ''white''] \<and> map_of (players s) (''player_'' @ lower a) = None")
  case False
  then show ?thesis using assms(1)
    by (auto simp: register_player_def Let_def)
next
  case True
  let ?c = "lower a"
  let ?k = "''player_'' @ ?c"
  let ?blank = "\<lparr>color_type = ?c, pos_x = 0, pos_y = 0, lives = 0, gems_collected = 0, at_exit = False\<rparr>"
  let ?p = "reset_player_for_new_stage ?blank (start_pos (levels s ! current_level_index s))"
  let ?s2 = "s\<lparr>players := AList.update ?k ?p (AList.update ?k ?blank (players s))\<rparr>"
  have idx: "current_level_index s < length (levels s)"
    using assms(1) by (simp add: well_formed_def)
  have col: "color_type ?p \<in> {''black'', ''white''}" using True by auto
  have wfp: "wf_players (players ?s2)"
    using assms(1) col by (simp add: well_formed_def wf_players_update)
  have "lower a = ''black'' \<or> lower a = ''white''" using True by simp
  then have res: "snd (register_player now a s) =
         (if length (players ?s2) = 1 \<and> \<not> truthy_time (start_time s)
          then ?s2\<lparr>start_time := Some now\<rparr> else ?s2)"
    using True idx by (elim disjE) (simp_all add: register_player_def Let_def)
  show ?thesis
  proof (cases "truthy_time (start_time s)")
    case True
    then show ?thesis using assms(1) wfp
      by (simp add: res well_formed_def)
  next
    case False
    then show ?thesis using assms wfp
      by (simp add: res well_formed_def)
  qed
qed

text \<open>The shape of the dispatcher: whatever holds of every branch holds of the outcome.\<close>

lemma proses_string_cases:
  assumes blank: "split (strip line) = [] \<Longrightarrow> Q (Raise IndexError, s)"
    and err: "\<And>r. status r = ERROR \<Longrightarrow> Q (Return r, start_clock now s)"
    and reg: "\<And>a. Q (register_player now a (start_clock now s))"
    and setp: "\<And>a x y l. Q (set_player_state a x y l (start_clock now s))"
    and ggs: "Q (get_game_state now (start_clock now s))"
    and gpi: "\<And>a. Q (get_player_info a (start_clock now s))"
    and col: "\<And>a b. Q (collect_gem a b (start_clock now s))"
    and haz: "\<And>a b. Q (check_hazard_collision a b (start_clock now s))"
    and ext: "\<And>a. Q (player_at_exit a (start_clock now s))"
    and rst: "command_of line = Some ''reset_game'' \<Longrightarrow>
              Q (Return (reply OK), full_reset (start_clock now s))"
  shows "Q (proses_string now line s)"
proof (cases "split (strip line)")
  case Nil
  then show ?thesis using blank by (simp add: proses_string_def)
next
  case (Cons p args)
  have e1: "Q (Return (reply ERROR), start_clock now s)" by (rule err) simp
  have e2: "Q (Return (reply_msg ERROR ''Unknown command''), start_clock now s)" by (rule err) simp
  have cmd: "command_of line = Some (lower p)" using Cons by (simp add: command_of_def)
  have rst': "lower p = ''reset_game'' \<Longrightarrow> Q (Return (reply OK), full_reset (start_clock now s))"
    using rst cmd by simp
  show ?thesis
    unfolding proses_string_def Cons Let_def list.case
    by (simp add: e1 e2 reg setp ggs gpi col haz ext rst' split: list.splits option.splits)
qed

lemma well_formed_proses_string:
  assumes "well_formed s" "now \<noteq> 0"
  shows "well_formed (snd (proses_string now line s))"
proof (rule proses_string_cases [where Q = "\<lambda>r. well_formed (snd r)"])
  show "well_formed (snd (Raise IndexError, s))" using assms by simp
qed (simp_all add: assms well_formed_start_clock well_formed_register_player
       well_formed_set_player_state well_formed_collect_gem well_formed_check_hazard_collision
       well_formed_player_at_exit well_formed_full_reset)

lemma reachable_well_formed: "reachable s \<Longrightarrow> well_formed s"
  by (induction rule: reachable.induct)
     (simp_all add: well_formed_new_protocol well_formed_proses_string well_formed_fire_timer)

text \<open>In every state the server can be in, the clock is started or no player exists, so
  the first statement under the lock changes nothing.\<close>

lemma reachable_clock_idle:
  "reachable s \<Longrightarrow> (players s = [] \<or> truthy_time (start_time s)) \<and> start_clock now s = s"
  using reachable_well_formed [of s] start_clock_well_formed_idle [of s now]
  by (auto simp: well_formed_def)

subsection \<open>Example states evaluated\<close>

lemmas stage_eval = full_reset_def define_levels_def load_level_def
  place_wall_def place_gem_def place_hazard_def reset_player_for_new_stage_def
  level_1_def map_width_def map_height_def default_player_lives_def Let_def
  str_nat.simps digit_char_def

lemmas parse_eval = split_def strip_def is_space_def lower_def lower_char_def command_of_def

lemma new_protocol_unfold:
  "new_protocol imgs =
     \<lparr>players = [],
      gems = [(''black_gem_0'', \<lparr>gem_x = 250, gem_y = 450, gem_type = ''black''\<rparr>),
              (''white_gem_1'', \<lparr>gem_x = 500, gem_y = 450, gem_type = ''white''\<rparr>),
              (''black_gem_2'', \<lparr>gem_x = 350, gem_y = 350, gem_type = ''black''\<rparr>),
              (''white_gem_3'', \<lparr>gem_x = 400, gem_y = 350, gem_type = ''white''\<rparr>)],
      hazards = [(''white_pool_0'',
                  \<lparr>hz_type = ''white'', hz_x = 300, hz_y = 560, hz_width = 100, hz_height = 20\<rparr>)],
      walls = [(''wall_0'', \<lparr>rect_x = 0, rect_y = 580, rect_width = 800, rect_height = 20\<rparr>),
               (''wall_1'', \<lparr>rect_x = 0, rect_y = 0, rect_width = 20, rect_height = 600\<rparr>),
               (''wall_2'', \<lparr>rect_x = 780, rect_y = 0, rect_width = 20, rect_height = 600\<rparr>),
               (''wall_3'', \<lparr>rect_x = 0, rect_y = 0, rect_width = 800, rect_height = 20\<rparr>),
               (''wall_4'', \<lparr>rect_x = 0, rect_y = 580, rect_width = 800, rect_height = 20\<rparr>),
               (''wall_5'', \<lparr>rect_x = 200, rect_y = 480, rect_width = 400, rect_height = 20\<rparr>),
               (''wall_6'', \<lparr>rect_x = 300, rect_y = 380, rect_width = 200, rect_height = 20\<rparr>),
               (''wall_7'', \<lparr>rect_x = 550, rect_y = 280, rect_width = 100, rect_height = 20\<rparr>),
               (''wall_8'', \<lparr>rect_x = 250, rect_y = 180, rect_width = 100, rect_height = 20\<rparr>)],
      exit_area = Some \<lparr>rect_x = 360, rect_y = 40, rect_width = 80, rect_height = 80\<rparr>,
      levels = [level_1, level_2, level_3, level_4, level_5],
      total_stages = 5,
      scores = [(''player_black'', 0), (''player_white'', 0)],
      current_level_index = 0, match_winner = None, stage_winner = None, start_time = None,
      next_gem_id = 4, black_gems_required = 2, white_gems_required = 2, images = imgs,
      timers = []\<rparr>"
  by (simp add: new_protocol_def stage_eval)

lemma new_protocol_fields:
  "players (new_protocol imgs) = []"
  "gems (new_protocol imgs) =
     [(''black_gem_0'', \<lparr>gem_x = 250, gem_y = 450, gem_type = ''black''\<rparr>),
      (''white_gem_1'', \<lparr>gem_x = 500, gem_y = 450, gem_type = ''white''\<rparr>),
      (''black_gem_2'', \<lparr>gem_x = 350, gem_y = 350, gem_type = ''black''\<rparr>),
      (''white_gem_3'', \<lparr>gem_x = 400, gem_y = 350, gem_type = ''white''\<rparr>)]"
  "hazards (new_protocol imgs) =
     [(''white_pool_0'', \<lparr>hz_type = ''white'', hz_x = 300, hz_y = 560, hz_width = 100, hz_height = 20\<rparr>)]"
  "scores (new_protocol imgs) = [(''player_black'', 0), (''player_white'', 0)]"
  "current_level_index (new_protocol imgs) = 0"
  "total_stages (new_protocol imgs) = 5"
  "match_winner (new_protocol imgs) = None"
  "stage_winner (new_protocol imgs) = None"
  "start_time (new_protocol imgs) = None"
  "black_gems_required (new_protocol imgs) = 2"
  "white_gems_required (new_protocol imgs) = 2"
  "timers (new_protocol imgs) = []"
  "levels (new_protocol imgs) = [level_1, level_2, level_3, level_4, level_5]"
  by (simp_all add: new_protocol_unfold)

lemma tokens_register: "split (strip ''register_player black'') = [''register_player'', ''black'']"
  by (simp add: parse_eval)

lemma demo_stage_unfold:
  "demo_stage = (new_protocol demo_assets)
     \<lparr>players := [(''player_black'',
          \<lparr>color_type = ''black'', pos_x = 50, pos_y = 532, lives = 1,
           gems_collected = 0, at_exit = False\<rparr>)],
      start_time := Some 1\<rparr>"
  by (simp add: demo_stage_def proses_string_def tokens_register lower_def lower_char_def
        start_clock_def new_protocol_fields register_player_def Let_def
        reset_player_for_new_stage_def level_1_def default_player_lives_def)

lemma demo_stage_fields:
  "players demo_stage = [(''player_black'',
          \<lparr>color_type = ''black'', pos_x = 50, pos_y = 532, lives = 1,
           gems_collected = 0, at_exit = False\<rparr>)]"
  "gems demo_stage =
     [(''black_gem_0'', \<lparr>gem_x = 250, gem_y = 450, gem_type = ''black''\<rparr>),
      (''white_gem_1'', \<lparr>gem_x = 500, gem_y = 450, gem_type = ''white''\<rparr>),
      (''black_gem_2'', \<lparr>gem_x = 350, gem_y = 350, gem_type = ''black''\<rparr>),
      (''white_gem_3'', \<lparr>gem_x = 400, gem_y = 350, gem_type = ''white''\<rparr>)]"
  "hazards demo_stage =
     [(''white_pool_0'', \<lparr>hz_type = ''white'', hz_x = 300, hz_y = 560, hz_width = 100, hz_height = 20\<rparr>)]"
  "scores demo_stage = [(''player_black'', 0), (''player_white'', 0)]"
  "current_level_index demo_stage = 0"
  "total_stages demo_stage = 5"
  "match_winner demo_stage = None"
  "stage_winner demo_stage = None"
  "start_time demo_stage = Some 1"
  "black_gems_required demo_stage = 2"
  "white_gems_required demo_stage = 2"
  "timers demo_stage = []"
  "levels demo_stage = [level_1, level_2, level_3, level_4, level_5]"
  by (simp_all add: demo_stage_unfold new_protocol_fields)

lemma undecided_demo_stage: "undecided demo_stage"
  by (simp add: undecided_def demo_stage_fields)

lemma well_formed_demo_stage: "well_formed demo_stage"
  unfolding demo_stage_def
  by (rule well_formed_proses_string) (simp_all add: well_formed_new_protocol)

lemma tokens_hazard:
  "split (strip ''check_hazard_collision player_black white_pool_0'')
     = [''check_hazard_collision'', ''player_black'', ''white_pool_0'']"
  by (simp add: parse_eval)

lemma demo_won_unfold:
  "demo_won = demo_stage
     \<lparr>players := [(''player_black'',
          \<lparr>color_type = ''black'', pos_x = 50, pos_y = 532, lives = 0,
           gems_collected = 0, at_exit = False\<rparr>)],
      stage_winner := Some ''player_white'',
      scores := [(''player_black'', 0), (''player_white'', 1)],
      timers := [(3, LoadNextStage)]\<rparr>"
proof -
  have "check_hazard_collision ''player_black'' ''white_pool_0'' demo_stage =
     (Return (reply OK), demo_stage
     \<lparr>players := [(''player_black'',
          \<lparr>color_type = ''black'', pos_x = 50, pos_y = 532, lives = 0,
           gems_collected = 0, at_exit = False\<rparr>)],
      stage_winner := Some ''player_white'',
      scores := [(''player_black'', 0), (''player_white'', 1)],
      timers := [(3, LoadNextStage)]\<rparr>)"
    by (simp add: check_hazard_collision_def handle_stage_win_def demo_stage_fields Let_def)
  moreover have "start_clock 2 demo_stage = demo_stage"
    by (simp add: start_clock_well_formed_idle well_formed_demo_stage)
  ultimately show ?thesis
    by (simp add: demo_won_def proses_string_def tokens_hazard lower_def lower_char_def)
qed

lemma legacy_demo_players:
  "l_players legacy_demo = [(''player_black'',
          \<lparr>color_type = ''black'', pos_x = 70, pos_y = 336, lives = 1,
           gems_collected = 0, at_exit = False\<rparr>)]"
  by code_simp

lemma legacy_demo_gems:
  "l_gems legacy_demo =
     [(''black_gem_0'', \<lparr>gem_x = 70, gem_y = 370, gem_type = ''black''\<rparr>),
      (''black_gem_1'', \<lparr>gem_x = 200, gem_y = 270, gem_type = ''black''\<rparr>),
      (''black_gem_2'', \<lparr>gem_x = 120, gem_y = 170, gem_type = ''black''\<rparr>),
      (''white_gem_3'', \<lparr>gem_x = 520, gem_y = 370, gem_type = ''white''\<rparr>),
      (''white_gem_4'', \<lparr>gem_x = 400, gem_y = 270, gem_type = ''white''\<rparr>),
      (''white_gem_5'', \<lparr>gem_x = 490, gem_y = 170, gem_type = ''white''\<rparr>)]"
  by code_simp

lemma legacy_demo_winner: "l_winner legacy_demo = None"
  by code_simp

subsection \<open>Collecting a gem of the other colour\<close>

lemma collect_gem_decided:
  "\<not> undecided s \<Longrightarrow> collect_gem k g s = (Return (reply ERROR), s)"
  by (auto simp: collect_gem_def undecided_def)

text \<open>
  C10. \<^verbatim>\<open>collect_gem\<close> for a registered player and a present gem whose colours differ
  answers with status ERROR and leaves the whole state as it was, so the gem stays and
  no counter moves. Both engines behave so.
\<close>

theorem collect_gem_wrong_color:
  "(map_of (players s) pid = Some p \<and> map_of (gems s) gid = Some g
      \<and> color_type p \<noteq> gem_type g
    \<longrightarrow> status_of (fst (collect_gem pid gid s)) = Some ERROR
        \<and> snd (collect_gem pid gid s) = s)
   \<and> (map_of (l_players t) lpid = Some q \<and> map_of (l_gems t) lgid = Some h
        \<and> color_type q \<noteq> gem_type h
      \<longrightarrow> status_of (fst (legacy_collect_gem lpid lgid t)) = Some ERROR
          \<and> snd (legacy_collect_gem lpid lgid t) = t)"
  by (simp add: collect_gem_def legacy_collect_gem_def)

theorem collect_gem_wrong_color_witness:
  "map_of (players demo_stage) ''player_black''
     = Some \<lparr>color_type = ''black'', pos_x = 50, pos_y = 532, lives = 1,
             gems_collected = 0, at_exit = False\<rparr>
   \<and> map_of (gems demo_stage) ''white_gem_1''
     = Some \<lparr>gem_x = 500, gem_y = 450, gem_type = ''white''\<rparr>
   \<and> status_of (fst (collect_gem ''player_black'' ''white_gem_1'' demo_stage)) = Some ERROR
   \<and> snd (collect_gem ''player_black'' ''white_gem_1'' demo_stage) = demo_stage
   \<and> map_of (l_players legacy_demo) ''player_black''
     = Some \<lparr>color_type = ''black'', pos_x = 70, pos_y = 336, lives = 1,
             gems_collected = 0, at_exit = False\<rparr>
   \<and> map_of (l_gems legacy_demo) ''white_gem_3''
     = Some \<lparr>gem_x = 520, gem_y = 370, gem_type = ''white''\<rparr>
   \<and> status_of (fst (legacy_collect_gem ''player_black'' ''white_gem_3'' legacy_demo)) = Some ERROR
   \<and> snd (legacy_collect_gem ''player_black'' ''white_gem_3'' legacy_demo) = legacy_demo"
  using collect_gem_wrong_color
    [of demo_stage "''player_black''"
        "\<lparr>color_type = ''black'', pos_x = 50, pos_y = 532, lives = 1,
          gems_collected = 0, at_exit = False\<rparr>"
        "''white_gem_1''" "\<lparr>gem_x = 500, gem_y = 450, gem_type = ''white''\<rparr>"
        legacy_demo "''player_black''"
        "\<lparr>color_type = ''black'', pos_x = 70, pos_y = 336, lives = 1,
          gems_collected = 0, at_exit = False\<rparr>"
        "''white_gem_3''" "\<lparr>gem_x = 520, gem_y = 370, gem_type = ''white''\<rparr>"]
  by (simp add: demo_stage_fields legacy_demo_players legacy_demo_gems)

subsection \<open>Commands after the stage or the match is decided\<close>

text \<open>
  C4, as the code has it. Once \<^verbatim>\<open>stage_winner\<close> or \<^verbatim>\<open>match_winner\<close> is set,
  \<^verbatim>\<open>collect_gem\<close> and \<^verbatim>\<open>check_hazard_collision\<close> answer with status ERROR, and
  \<^verbatim>\<open>player_at_exit\<close> answers with status OK and the message that the stage has already
  been won; each of the three leaves the whole state as it was.
\<close>

theorem decided_stage_no_op:
  "\<not> undecided s \<Longrightarrow>
   collect_gem pid gid s = (Return (reply ERROR), s)
   \<and> check_hazard_collision pid hid s = (Return (reply ERROR), s)
   \<and> player_at_exit pid s = (Return (reply_msg OK ''Stage has already been won.''), s)"
  by (simp add: collect_gem_decided check_hazard_collision_decided player_at_exit_decided)

theorem decided_stage_no_op_witness:
  "\<not> undecided demo_won
   \<and> collect_gem ''player_black'' ''black_gem_0'' demo_won = (Return (reply ERROR), demo_won)
   \<and> check_hazard_collision ''player_black'' ''white_pool_0'' demo_won
       = (Return (reply ERROR), demo_won)
   \<and> player_at_exit ''player_black'' demo_won
       = (Return (reply_msg OK ''Stage has already been won.''), demo_won)"
proof -
  have h: "\<not> undecided demo_won"
    by (simp add: undecided_def demo_won_unfold)
  show ?thesis
    using h decided_stage_no_op [OF h, of "''player_black''" "''black_gem_0''" "''white_pool_0''"]
    by simp
qed

text \<open>The claim as stated fails: with the stage won, \<^verbatim>\<open>player_at_exit\<close> reports OK.\<close>

theorem player_at_exit_after_win_counterexample:
  "truthy (stage_winner demo_won)
   \<and> status_of (fst (player_at_exit ''player_black'' demo_won)) = Some OK"
  by (simp add: player_at_exit_def demo_won_unfold)

subsection \<open>What a command leaves of the running stage\<close>

lemma within_stage_refl [simp]: "within_stage s s"
  by (simp add: within_stage_def)

lemma within_stage_trans: "within_stage s t \<Longrightarrow> within_stage t u \<Longrightarrow> within_stage s u"
  by (auto simp: within_stage_def)

lemma handle_stage_win_frame:
  "\<exists>w sc m tm. snd (handle_stage_win k s)
      = s\<lparr>stage_winner := w, scores := sc, match_winner := m, timers := tm\<rparr>"
proof (cases "truthy (stage_winner s)")
  case True
  then have "snd (handle_stage_win k s)
      = s\<lparr>stage_winner := stage_winner s, scores := scores s, match_winner := match_winner s,
          timers := timers s\<rparr>"
    by (simp add: handle_stage_win_def)
  then show ?thesis by blast
next
  case False
  show ?thesis
  proof (cases "map_of (scores s) k")
    case None
    then have "snd (handle_stage_win k s)
      = s\<lparr>stage_winner := Some k, scores := scores s, match_winner := match_winner s,
          timers := timers s\<rparr>"
      using False by (simp add: handle_stage_win_def Let_def)
    then show ?thesis by blast
  next
    case (Some v)
    let ?s2 = "s\<lparr>stage_winner := Some k, scores := AList.update k (v + 1) (scores s)\<rparr>"
    obtain m where m: "snd (determine_final_winner ?s2) = ?s2\<lparr>match_winner := m\<rparr>"
      using determine_final_winner_frame [of ?s2] by blast
    show ?thesis
    proof (cases "v + 1 \<ge> int (total_stages s div 2 + 1) \<or> current_level_index s + 1 \<ge> total_stages s")
      case True
      then have "snd (handle_stage_win k s)
        = s\<lparr>stage_winner := Some k, scores := AList.update k (v + 1) (scores s),
            match_winner := m, timers := timers s\<rparr>"
        using m by (simp add: handle_stage_win_recorded [OF False Some])
      then show ?thesis by blast
    next
      case False
      then have "snd (handle_stage_win k s)
        = s\<lparr>stage_winner := Some k, scores := AList.update k (v + 1) (scores s),
            match_winner := match_winner s, timers := timers s @ [(3, LoadNextStage)]\<rparr>"
        using \<open>\<not> truthy (stage_winner s)\<close>
        by (simp add: handle_stage_win_recorded [OF _ Some])
      then show ?thesis by blast
    qed
  qed
qed

lemma within_stage_handle_stage_win:
  "within_stage s (snd (handle_stage_win k s))"
proof -
  obtain w sc m tm where "snd (handle_stage_win k s)
      = s\<lparr>stage_winner := w, scores := sc, match_winner := m, timers := tm\<rparr>"
    using handle_stage_win_frame by blast
  then show ?thesis by (simp add: within_stage_def)
qed

lemma within_stage_players [simp]: "within_stage s (s\<lparr>players := ps\<rparr>)"
  by (simp add: within_stage_def)

lemma within_stage_start_clock: "within_stage s (start_clock now s)"
  by (simp add: start_clock_def within_stage_def)

lemma within_stage_register_player: "within_stage s (snd (register_player now a s))"
  by (simp add: register_player_def Let_def within_stage_def)

lemma within_stage_set_player_state: "within_stage s (snd (set_player_state k x y l s))"
  by (simp add: set_player_state_def split: option.splits)

lemma set_delete_subset: "set (AList.delete k al) \<subseteq> set al"
  by (auto simp: AList.delete_eq)

lemma within_stage_collect_gem: "within_stage s (snd (collect_gem k g s))"
  using set_delete_subset [of g "gems s"]
  by (simp add: collect_gem_def within_stage_def split: option.splits)

lemma within_stage_check_hazard_collision:
  "within_stage s (snd (check_hazard_collision k h s))"
proof (cases "undecided s \<and> (\<exists>p hz. map_of (players s) k = Some p \<and> map_of (hazards s) h = Some hz
                        \<and> color_type p \<noteq> hz_type hz)")
  case True
  then obtain p hz where h: "undecided s" "map_of (players s) k = Some p"
    "map_of (hazards s) h = Some hz" "color_type p \<noteq> hz_type hz" by blast
  show ?thesis
    unfolding check_hazard_collision_hit [OF h]
    by (rule within_stage_trans [OF _ within_stage_handle_stage_win]) simp
next
  case False
  show ?thesis
  proof (cases "undecided s")
    case True
    with False have "map_of (players s) k = None \<or> map_of (hazards s) h = None
       \<or> (\<exists>p hz. map_of (players s) k = Some p \<and> map_of (hazards s) h = Some hz
                \<and> color_type p = hz_type hz)"
      by (cases "map_of (players s) k"; cases "map_of (hazards s) h") auto
    then show ?thesis by (simp add: check_hazard_collision_miss [OF True])
  next
    case False
    then show ?thesis by (simp add: check_hazard_collision_decided)
  qed
qed

lemma within_stage_player_at_exit: "within_stage s (snd (player_at_exit k s))"
proof (cases "undecided s")
  case False
  then show ?thesis by (simp add: player_at_exit_decided)
next
  case True
  show ?thesis
  proof (cases "map_of (players s) k")
    case None
    then show ?thesis using True by (simp add: player_at_exit_unknown)
  next
    case (Some p)
    show ?thesis
    proof (cases "gems_collected p < required_gems s (color_type p)")
      case True
      then show ?thesis by (simp add: player_at_exit_short [OF \<open>undecided s\<close> Some])
    next
      case False
      then have ge: "gems_collected p \<ge> required_gems s (color_type p)" by simp
      show ?thesis
        unfolding player_at_exit_enough [OF \<open>undecided s\<close> Some ge]
        by (rule within_stage_trans [OF _ within_stage_handle_stage_win]) simp
    qed
  qed
qed

lemma within_stage_proses_string:
  assumes "command_of line \<noteq> Some ''reset_game''"
  shows "within_stage s (snd (proses_string now line s))"
proof (rule proses_string_cases [where Q = "\<lambda>r. within_stage s (snd r)"])
  show "command_of line = Some ''reset_game'' \<Longrightarrow>
        within_stage s (snd (Return (reply OK), full_reset (start_clock now s)))"
    using assms by simp
qed (simp_all add: within_stage_start_clock
       within_stage_trans [OF within_stage_start_clock within_stage_register_player]
       within_stage_trans [OF within_stage_start_clock within_stage_set_player_state]
       within_stage_trans [OF within_stage_start_clock within_stage_collect_gem]
       within_stage_trans [OF within_stage_start_clock within_stage_check_hazard_collision]
       within_stage_trans [OF within_stage_start_clock within_stage_player_at_exit])

lemma within_stage_run:
  "\<forall>c \<in> set cs. command_of (snd c) \<noteq> Some ''reset_game'' \<Longrightarrow> within_stage s (run cs s)"
proof (induction cs arbitrary: s)
  case Nil
  show ?case by simp
next
  case (Cons c cs)
  have "within_stage s (snd (proses_string (fst c) (snd c) s))"
    using Cons.prems by (simp add: within_stage_proses_string)
  moreover have "within_stage (snd (proses_string (fst c) (snd c) s))
                   (run cs (snd (proses_string (fst c) (snd c) s)))"
    using Cons.prems by (intro Cons.IH) simp
  ultimately show ?case by (simp add: within_stage_trans)
qed

subsection \<open>Requirement counts\<close>

text \<open>
  C5. Loading stage \<open>i\<close> of the catalog, from any state, makes each requirement count
  the number of collectibles of that colour in the definition of stage \<open>i\<close>, whatever the
  counts were before; and a command other than \<^verbatim>\<open>reset_game\<close> (which reloads the first
  stage) leaves both counts as they are.
\<close>

theorem required_gems_follow_level:
  "(i < length (levels s) \<longrightarrow>
      black_gems_required (load_level i s) = gems_of_color ''black'' (levels s ! i)
      \<and> white_gems_required (load_level i s) = gems_of_color ''white'' (levels s ! i))
   \<and> (command_of line \<noteq> Some ''reset_game'' \<longrightarrow>
         black_gems_required (snd (proses_string now line s)) = black_gems_required s
         \<and> white_gems_required (snd (proses_string now line s)) = white_gems_required s)"
proof -
  have "i < length (levels s) \<Longrightarrow>
      black_gems_required (load_level i s) = gems_of_color ''black'' (levels s ! i)
      \<and> white_gems_required (load_level i s) = gems_of_color ''white'' (levels s ! i)"
    by (simp add: load_level_unfold black_required_stage_entities white_required_stage_entities)
  moreover have "command_of line \<noteq> Some ''reset_game'' \<Longrightarrow>
         black_gems_required (snd (proses_string now line s)) = black_gems_required s
         \<and> white_gems_required (snd (proses_string now line s)) = white_gems_required s"
    using within_stage_proses_string [of line s now] by (simp add: within_stage_def)
  ultimately show ?thesis by blast
qed

lemma tokens_collect:
  "split (strip ''collect_gem player_black black_gem_0'')
     = [''collect_gem'', ''player_black'', ''black_gem_0'']"
  by (simp add: parse_eval)

theorem required_gems_follow_level_witness:
  "(1::nat) < length (levels demo_stage)
   \<and> black_gems_required demo_stage = 2
   \<and> black_gems_required (load_level 1 demo_stage) = 3
   \<and> white_gems_required (load_level 1 demo_stage) = 2
   \<and> command_of ''collect_gem player_black black_gem_0'' \<noteq> Some ''reset_game''
   \<and> black_gems_required (snd (proses_string 2 ''collect_gem player_black black_gem_0'' demo_stage)) = 2
   \<and> white_gems_required (snd (proses_string 2 ''collect_gem player_black black_gem_0'' demo_stage)) = 2"
  using required_gems_follow_level
          [of 1 demo_stage "''collect_gem player_black black_gem_0''" 2]
  by (simp add: demo_stage_fields gems_of_color_def level_2_def command_of_def tokens_collect
        lower_def lower_char_def)

subsection \<open>Collecting a gem\<close>

lemma snapshot_gem_ids_eq [simp]: "snapshot_gem_ids now s = map fst (gems s)"
  by (simp add: snapshot_gem_ids_def get_game_state_def Let_def)

lemma collect_gem_success:
  assumes "undecided s" "map_of (players s) k = Some p" "map_of (gems s) g = Some gm"
    "color_type p = gem_type gm"
  shows "collect_gem k g s =
           (Return (reply OK),
            s\<lparr>players := AList.update k (p\<lparr>gems_collected := gems_collected p + 1\<rparr>) (players s),
              gems := AList.delete g (gems s)\<rparr>)"
  using assms by (simp add: collect_gem_def undecided_def)

lemma collect_gem_unknown:
  "map_of (players s) k = None \<or> map_of (gems s) g = None \<Longrightarrow>
   collect_gem k g s = (Return (reply ERROR), s)"
  by (auto simp: collect_gem_def split: option.splits)

lemma map_of_None_iff_keys: "map_of al k = None \<longleftrightarrow> k \<notin> fst ` set al"
  by (simp add: map_of_eq_None_iff)

text \<open>
  C6. A \<^verbatim>\<open>collect_gem\<close> that succeeds (colours match, stage and match undecided) answers
  OK and, in the one command, deletes the gem and adds one to the collecting player's
  counter, leaving every other player as it was. The gem is in no \<^verbatim>\<open>get_game_state\<close>
  snapshot of the stage afterwards, that is after any further requests short of
  \<^verbatim>\<open>reset_game\<close>, and a second \<^verbatim>\<open>collect_gem\<close> for it answers ERROR and changes nothing.
\<close>

theorem collect_gem_removes_and_counts:
  assumes "undecided s" and "map_of (players s) pid = Some p"
    and "map_of (gems s) gid = Some g" and "color_type p = gem_type g"
  shows "status_of (fst (collect_gem pid gid s)) = Some OK
    \<and> gid \<notin> set (snapshot_gem_ids now (snd (collect_gem pid gid s)))
    \<and> (\<forall>cs. (\<forall>c \<in> set cs. command_of (snd c) \<noteq> Some ''reset_game'')
           \<longrightarrow> gid \<notin> set (snapshot_gem_ids now (run cs (snd (collect_gem pid gid s)))))
    \<and> map_of (players (snd (collect_gem pid gid s))) pid
         = Some (p\<lparr>gems_collected := gems_collected p + 1\<rparr>)
    \<and> (\<forall>k. k \<noteq> pid \<longrightarrow> map_of (players (snd (collect_gem pid gid s))) k = map_of (players s) k)
    \<and> status_of (fst (collect_gem pid gid (snd (collect_gem pid gid s)))) = Some ERROR
    \<and> snd (collect_gem pid gid (snd (collect_gem pid gid s))) = snd (collect_gem pid gid s)"
proof -
  let ?s' = "snd (collect_gem pid gid s)"
  have eq: "collect_gem pid gid s =
           (Return (reply OK),
            s\<lparr>players := AList.update pid (p\<lparr>gems_collected := gems_collected p + 1\<rparr>) (players s),
              gems := AList.delete gid (gems s)\<rparr>)"
    by (rule collect_gem_success [OF assms])
  have gone: "gid \<notin> fst ` set (gems ?s')"
    by (simp add: eq delete_notin_dom)
  have later: "gid \<notin> set (snapshot_gem_ids now (run cs ?s'))"
    if "\<forall>c \<in> set cs. command_of (snd c) \<noteq> Some ''reset_game''" for cs
  proof -
    have "set (gems (run cs ?s')) \<subseteq> set (gems ?s')"
      using within_stage_run [OF that, of ?s'] by (simp add: within_stage_def)
    then show ?thesis using gone by auto
  qed
  have none: "map_of (gems ?s') gid = None"
    using gone by (simp add: map_of_None_iff_keys)
  have again: "collect_gem pid gid ?s' = (Return (reply ERROR), ?s')"
    by (rule collect_gem_unknown) (simp add: none)
  show ?thesis
    using gone later again
    by (simp add: eq update_conv')
qed

theorem collect_gem_removes_and_counts_witness:
  "undecided demo_stage
   \<and> map_of (players demo_stage) ''player_black''
       = Some \<lparr>color_type = ''black'', pos_x = 50, pos_y = 532, lives = 1,
               gems_collected = 0, at_exit = False\<rparr>
   \<and> map_of (gems demo_stage) ''black_gem_0''
       = Some \<lparr>gem_x = 250, gem_y = 450, gem_type = ''black''\<rparr>
   \<and> status_of (fst (collect_gem ''player_black'' ''black_gem_0'' demo_stage)) = Some OK
   \<and> ''black_gem_0'' \<notin> set (snapshot_gem_ids 2
         (run [(3, ''get_game_state''), (4, ''player_at_exit player_black'')]
            (snd (collect_gem ''player_black'' ''black_gem_0'' demo_stage))))
   \<and> map_of (players (snd (collect_gem ''player_black'' ''black_gem_0'' demo_stage))) ''player_black''
       = Some \<lparr>color_type = ''black'', pos_x = 50, pos_y = 532, lives = 1,
               gems_collected = 1, at_exit = False\<rparr>
   \<and> status_of (fst (collect_gem ''player_black'' ''black_gem_0''
         (snd (collect_gem ''player_black'' ''black_gem_0'' demo_stage)))) = Some ERROR"
proof -
  have h1: "undecided demo_stage" by (rule undecided_demo_stage)
  have h2: "map_of (players demo_stage) ''player_black''
       = Some \<lparr>color_type = ''black'', pos_x = 50, pos_y = 532, lives = 1,
               gems_collected = 0, at_exit = False\<rparr>"
    by (simp add: demo_stage_fields)
  have h3: "map_of (gems demo_stage) ''black_gem_0''
       = Some \<lparr>gem_x = 250, gem_y = 450, gem_type = ''black''\<rparr>"
    by (simp add: demo_stage_fields)
  have h4: "color_type \<lparr>color_type = ''black'', pos_x = 50, pos_y = 532, lives = 1,
               gems_collected = 0, at_exit = False\<rparr>
            = gem_type \<lparr>gem_x = 250, gem_y = 450, gem_type = ''black''\<rparr>" by simp
  have c: "\<forall>c \<in> set [(3::real, ''get_game_state''), (4, ''player_at_exit player_black'')].
             command_of (snd c) \<noteq> Some ''reset_game''"
    by (simp add: parse_eval)
  note inst = collect_gem_removes_and_counts [OF h1 h2 h3 h4, of 2]
  from inst have later: "\<forall>cs. (\<forall>c \<in> set cs. command_of (snd c) \<noteq> Some ''reset_game'')
      \<longrightarrow> ''black_gem_0'' \<notin> set (snapshot_gem_ids 2
            (run cs (snd (collect_gem ''player_black'' ''black_gem_0'' demo_stage))))"
    by blast
  have l: "''black_gem_0'' \<notin> set (snapshot_gem_ids 2
         (run [(3, ''get_game_state''), (4, ''player_at_exit player_black'')]
            (snd (collect_gem ''player_black'' ''black_gem_0'' demo_stage))))"
    using later c by blast
  from inst have rest: "status_of (fst (collect_gem ''player_black'' ''black_gem_0'' demo_stage)) = Some OK"
    "map_of (players (snd (collect_gem ''player_black'' ''black_gem_0'' demo_stage))) ''player_black''
       = Some \<lparr>color_type = ''black'', pos_x = 50, pos_y = 532, lives = 1,
               gems_collected = 1, at_exit = False\<rparr>"
    "status_of (fst (collect_gem ''player_black'' ''black_gem_0''
         (snd (collect_gem ''player_black'' ''black_gem_0'' demo_stage)))) = Some ERROR"
    by simp_all
  show ?thesis
    using h1 h2 h3 l rest by blast
qed

subsection \<open>Recording a stage win\<close>

lemma majority_iff: "(v + 1 \<ge> int (n div 2 + 1)) \<longleftrightarrow> (2 * (v + 1) > int n)"
  by presburger

lemma handle_stage_win_majority:
  assumes "\<not> truthy (stage_winner s)" "map_of (scores s) w = Some v"
  shows "handle_stage_win w s =
     (if 2 * (v + 1) > int (total_stages s) \<or> current_level_index s + 1 \<ge> total_stages s
      then determine_final_winner
             (s\<lparr>stage_winner := Some w, scores := AList.update w (v + 1) (scores s)\<rparr>)
      else (Return (),
            s\<lparr>stage_winner := Some w, scores := AList.update w (v + 1) (scores s),
              timers := timers s @ [(3, LoadNextStage)]\<rparr>))"
proof -
  have "(v + 1 \<ge> int (total_stages s div 2 + 1)) = (2 * (v + 1) > int (total_stages s))"
    by (rule majority_iff)
  then show ?thesis
    unfolding handle_stage_win_recorded [OF assms] Let_def by simp
qed

lemma handle_stage_win_decides:
  assumes "\<not> truthy (stage_winner s)" "map_of (scores s) w = Some v"
    and "map_of (scores s) ''player_black'' \<noteq> None" "map_of (scores s) ''player_white'' \<noteq> None"
    and "2 * (v + 1) > int (total_stages s) \<or> current_level_index s + 1 \<ge> total_stages s"
  shows "\<exists>b wh.
     map_of (AList.update w (v + 1) (scores s)) ''player_black'' = Some b
     \<and> map_of (AList.update w (v + 1) (scores s)) ''player_white'' = Some wh
     \<and> handle_stage_win w s =
         (Return (),
          s\<lparr>stage_winner := Some w, scores := AList.update w (v + 1) (scores s),
            match_winner := Some (if b > wh then ''player_black''
                                  else if wh > b then ''player_white'' else ''draw'')\<rparr>)"
proof -
  let ?sc = "AList.update w (v + 1) (scores s)"
  let ?s2 = "s\<lparr>stage_winner := Some w, scores := ?sc\<rparr>"
  have "map_of ?sc ''player_black'' \<noteq> None" using assms(3) by (rule map_of_update_keys)
  then obtain b where b: "map_of ?sc ''player_black'' = Some b" by blast
  have "map_of ?sc ''player_white'' \<noteq> None" using assms(4) by (rule map_of_update_keys)
  then obtain wh where wh: "map_of ?sc ''player_white'' = Some wh" by blast
  have "handle_stage_win w s = determine_final_winner ?s2"
    unfolding handle_stage_win_majority [OF assms(1,2)] using assms(5) by (rule if_P)
  also have "\<dots> = (Return (), ?s2\<lparr>match_winner := Some (if b > wh then ''player_black''
                                  else if wh > b then ''player_white'' else ''draw'')\<rparr>)"
    by (rule determine_final_winner_Return) (simp_all add: b wh)
  finally show ?thesis using b wh by simp
qed

lemma handle_stage_win_defers:
  assumes "\<not> truthy (stage_winner s)" "map_of (scores s) w = Some v"
    and "\<not> (2 * (v + 1) > int (total_stages s) \<or> current_level_index s + 1 \<ge> total_stages s)"
  shows "handle_stage_win w s =
         (Return (),
          s\<lparr>stage_winner := Some w, scores := AList.update w (v + 1) (scores s),
            timers := timers s @ [(3, LoadNextStage)]\<rparr>)"
  unfolding handle_stage_win_majority [OF assms(1,2)] using assms(3) by (rule if_not_P)

lemma fire_timer_loads_next:
  assumes "timers s = [(d, LoadNextStage)]" "\<not> truthy (match_winner s)"
    "current_level_index s + 1 < total_stages s" "current_level_index s + 1 < length (levels s)"
  shows "current_level_index (fire_timer s) = current_level_index s + 1
         \<and> stage_winner (fire_timer s) = None \<and> timers (fire_timer s) = []"
proof -
  let ?t = "s\<lparr>timers := []\<rparr>"
  have "fire_timer s = load_level (current_level_index s + 1) ?t"
    using assms by (simp add: fire_timer_def load_next_stage_def)
  moreover have "current_level_index s + 1 < length (levels ?t)" using assms(4) by simp
  ultimately show ?thesis by (simp add: load_level_match_fields)
qed

lemma entity_part_place_wall:
  "entity_part u = entity_part v \<Longrightarrow>
   entity_part (place_wall x y w h u) = entity_part (place_wall x y w h v)"
  by (simp add: entity_part_def place_wall_def Let_def)

lemma entity_part_place_hazard:
  "entity_part u = entity_part v \<Longrightarrow>
   entity_part (place_hazard u hz) = entity_part (place_hazard v hz)"
  by (simp add: entity_part_def place_hazard_def Let_def split: prod.splits)

lemma entity_part_of_place_gem:
  "entity_part (place_gem x y c u) =
     (AList.update (c @ ''_gem_'' @ str_nat (next_gem_id u))
        \<lparr>gem_x = x, gem_y = y, gem_type = c\<rparr> (gems u),
      hazards u, walls u, next_gem_id u + 1,
      black_gems_required u + (if c = ''black'' then 1 else 0),
      white_gems_required u + (if c \<noteq> ''black'' \<and> c = ''white'' then 1 else 0))"
  by (simp add: entity_part_def place_gem_def Let_def)

lemma entity_part_place_gem:
  assumes "entity_part u = entity_part v"
  shows "entity_part (place_gem x y c u) = entity_part (place_gem x y c v)"
proof -
  have f: "gems u = gems v" "hazards u = hazards v" "walls u = walls v"
    "next_gem_id u = next_gem_id v" "black_gems_required u = black_gems_required v"
    "white_gems_required u = white_gems_required v"
    using assms by (simp_all add: entity_part_def)
  show ?thesis unfolding entity_part_of_place_gem f ..
qed

lemma entity_part_place_walls:
  "entity_part u = entity_part v \<Longrightarrow>
   entity_part (foldl (\<lambda>t (x, y, w, h). place_wall x y w h t) u ws)
     = entity_part (foldl (\<lambda>t (x, y, w, h). place_wall x y w h t) v ws)"
proof (induction ws arbitrary: u v)
  case Nil
  then show ?case by simp
next
  case (Cons a ws)
  obtain x y w h where a: "a = (x, y, w, h)" by (cases a) auto
  have "entity_part (place_wall x y w h u) = entity_part (place_wall x y w h v)"
    by (rule entity_part_place_wall [OF Cons.prems])
  then have "entity_part (foldl (\<lambda>t (x, y, w, h). place_wall x y w h t) (place_wall x y w h u) ws)
     = entity_part (foldl (\<lambda>t (x, y, w, h). place_wall x y w h t) (place_wall x y w h v) ws)"
    by (rule Cons.IH)
  then show ?case by (simp add: a)
qed

lemma entity_part_place_hazards:
  "entity_part u = entity_part v \<Longrightarrow>
   entity_part (foldl place_hazard u hs) = entity_part (foldl place_hazard v hs)"
proof (induction hs arbitrary: u v)
  case Nil
  then show ?case by simp
next
  case (Cons a hs)
  have "entity_part (place_hazard u a) = entity_part (place_hazard v a)"
    by (rule entity_part_place_hazard [OF Cons.prems])
  then have "entity_part (foldl place_hazard (place_hazard u a) hs)
     = entity_part (foldl place_hazard (place_hazard v a) hs)"
    by (rule Cons.IH)
  then show ?case by simp
qed

lemma entity_part_place_gems:
  "entity_part u = entity_part v \<Longrightarrow>
   entity_part (foldl (\<lambda>t (c, x, y). place_gem x y c t) u gs)
     = entity_part (foldl (\<lambda>t (c, x, y). place_gem x y c t) v gs)"
proof (induction gs arbitrary: u v)
  case Nil
  then show ?case by simp
next
  case (Cons a gs)
  obtain c x y where a: "a = (c, x, y)" by (cases a) auto
  have "entity_part (place_gem x y c u) = entity_part (place_gem x y c v)"
    by (rule entity_part_place_gem [OF Cons.prems])
  then have "entity_part (foldl (\<lambda>t (c, x, y). place_gem x y c t) (place_gem x y c u) gs)
     = entity_part (foldl (\<lambda>t (c, x, y). place_gem x y c t) (place_gem x y c v) gs)"
    by (rule Cons.IH)
  then show ?case by (simp add: a)
qed

lemma entity_part_stage_entities:
  assumes "levels s ! i = levels t ! i"
  shows "entity_part (stage_entities_loaded i s) = entity_part (stage_entities_loaded i t)"
proof -
  let ?s1 = "s\<lparr>current_level_index := i, gems := [], hazards := [], walls := [],
                 black_gems_required := 0, white_gems_required := 0,
                 next_gem_id := 0, stage_winner := None\<rparr>"
  let ?t1 = "t\<lparr>current_level_index := i, gems := [], hazards := [], walls := [],
                 black_gems_required := 0, white_gems_required := 0,
                 next_gem_id := 0, stage_winner := None\<rparr>"
  have "entity_part ?s1 = entity_part ?t1" by (simp add: entity_part_def)
  then have "entity_part (place_wall 0 (map_height - 20) map_width 20 ?s1)
           = entity_part (place_wall 0 (map_height - 20) map_width 20 ?t1)"
    by (rule entity_part_place_wall)
  then have "entity_part (place_wall 0 0 20 map_height (place_wall 0 (map_height - 20) map_width 20 ?s1))
           = entity_part (place_wall 0 0 20 map_height (place_wall 0 (map_height - 20) map_width 20 ?t1))"
    by (rule entity_part_place_wall)
  then have "entity_part (place_wall (map_width - 20) 0 20 map_height
               (place_wall 0 0 20 map_height (place_wall 0 (map_height - 20) map_width 20 ?s1)))
           = entity_part (place_wall (map_width - 20) 0 20 map_height
               (place_wall 0 0 20 map_height (place_wall 0 (map_height - 20) map_width 20 ?t1)))"
    by (rule entity_part_place_wall)
  then have "entity_part (place_wall 0 0 map_width 20 (place_wall (map_width - 20) 0 20 map_height
               (place_wall 0 0 20 map_height (place_wall 0 (map_height - 20) map_width 20 ?s1))))
           = entity_part (place_wall 0 0 map_width 20 (place_wall (map_width - 20) 0 20 map_height
               (place_wall 0 0 20 map_height (place_wall 0 (map_height - 20) map_width 20 ?t1))))"
    by (rule entity_part_place_wall)
  then show ?thesis
    unfolding stage_entities_loaded_def Let_def assms
    by (intro entity_part_place_gems entity_part_place_hazards entity_part_place_walls)
qed

text \<open>What a load leaves in the stage depends on the level alone, not on what the stage
  held before.\<close>

lemma load_level_replaces_entities:
  assumes "i < length (levels s)" "levels t = levels s"
  shows "gems (load_level i s) = gems (load_level i t)"
    and "hazards (load_level i s) = hazards (load_level i t)"
    and "walls (load_level i s) = walls (load_level i t)"
    and "exit_area (load_level i s) = exit_area (load_level i t)"
    and "exit_area (load_level i s)
           = Some (case lv_exit (levels s ! i) of (x, y, w, h) \<Rightarrow>
                     \<lparr>rect_x = x, rect_y = y, rect_width = w, rect_height = h\<rparr>)"
proof -
  have it: "i < length (levels t)" using assms by simp
  have "entity_part (stage_entities_loaded i s) = entity_part (stage_entities_loaded i t)"
    by (rule entity_part_stage_entities) (simp add: assms(2))
  then show "gems (load_level i s) = gems (load_level i t)"
    and "hazards (load_level i s) = hazards (load_level i t)"
    and "walls (load_level i s) = walls (load_level i t)"
    and "exit_area (load_level i s) = exit_area (load_level i t)"
    and "exit_area (load_level i s)
           = Some (case lv_exit (levels s ! i) of (x, y, w, h) \<Rightarrow>
                     \<lparr>rect_x = x, rect_y = y, rect_width = w, rect_height = h\<rparr>)"
    by (simp_all add: load_level_unfold [OF assms(1)] load_level_unfold [OF it] assms(2)
          entity_part_def)
qed

text \<open>Every gem and hazard of a freshly loaded stage is one that the level defines.\<close>

lemma gems_place_gems_subset:
  "snd ` set (gems (foldl (\<lambda>t (c, x, y). place_gem x y c t) s gs))
     \<subseteq> snd ` set (gems s) \<union> (\<lambda>(c, x, y). \<lparr>gem_x = x, gem_y = y, gem_type = c\<rparr>) ` set gs"
proof (induction gs arbitrary: s)
  case Nil
  show ?case by simp
next
  case (Cons a gs)
  obtain c x y where a: "a = (c, x, y)" by (cases a) auto
  have gp: "gems (place_gem x y c s)
      = AList.update (c @ ''_gem_'' @ str_nat (next_gem_id s))
          \<lparr>gem_x = x, gem_y = y, gem_type = c\<rparr> (gems s)"
    by (simp add: place_gem_def Let_def)
  have "set (gems (place_gem x y c s))
          \<subseteq> insert (c @ ''_gem_'' @ str_nat (next_gem_id s),
                       \<lparr>gem_x = x, gem_y = y, gem_type = c\<rparr>) (set (gems s))"
    unfolding gp by (rule set_update_subset)
  then have step: "snd ` set (gems (place_gem x y c s))
          \<subseteq> insert \<lparr>gem_x = x, gem_y = y, gem_type = c\<rparr> (snd ` set (gems s))"
    by force
  have "snd ` set (gems (foldl (\<lambda>t (c, x, y). place_gem x y c t) (place_gem x y c s) gs))
     \<subseteq> snd ` set (gems (place_gem x y c s))
         \<union> (\<lambda>(c, x, y). \<lparr>gem_x = x, gem_y = y, gem_type = c\<rparr>) ` set gs"
    by (rule Cons.IH)
  then show ?case using step by (auto simp: a)
qed

lemma hazards_place_hazards_subset:
  "snd ` set (hazards (foldl place_hazard s hs))
     \<subseteq> snd ` set (hazards s)
         \<union> (\<lambda>(t, x, y, w, h). \<lparr>hz_type = t, hz_x = x, hz_y = y, hz_width = w, hz_height = h\<rparr>)
             ` set hs"
proof (induction hs arbitrary: s)
  case Nil
  show ?case by simp
next
  case (Cons a hs)
  obtain t x y w h where a: "a = (t, x, y, w, h)" by (cases a) auto
  have hp: "hazards (place_hazard s a)
      = AList.update (t @ ''_pool_'' @ str_nat (length (hazards s)))
          \<lparr>hz_type = t, hz_x = x, hz_y = y, hz_width = w, hz_height = h\<rparr> (hazards s)"
    by (simp add: place_hazard_def a Let_def)
  have "set (hazards (place_hazard s a))
          \<subseteq> insert (t @ ''_pool_'' @ str_nat (length (hazards s)),
                       \<lparr>hz_type = t, hz_x = x, hz_y = y, hz_width = w, hz_height = h\<rparr>)
                (set (hazards s))"
    unfolding hp by (rule set_update_subset)
  then have step: "snd ` set (hazards (place_hazard s a))
          \<subseteq> insert \<lparr>hz_type = t, hz_x = x, hz_y = y, hz_width = w, hz_height = h\<rparr>
                (snd ` set (hazards s))"
    by force
  have "snd ` set (hazards (foldl place_hazard (place_hazard s a) hs))
     \<subseteq> snd ` set (hazards (place_hazard s a))
         \<union> (\<lambda>(t, x, y, w, h). \<lparr>hz_type = t, hz_x = x, hz_y = y, hz_width = w, hz_height = h\<rparr>)
             ` set hs"
    by (rule Cons.IH)
  then show ?case using step by (auto simp: a)
qed

lemma gems_place_wall [simp]: "gems (place_wall x y w h s) = gems s"
  and hazards_place_wall [simp]: "hazards (place_wall x y w h s) = hazards s"
  and gems_place_hazard [simp]: "gems (place_hazard s hz) = gems s"
  by (simp_all add: place_wall_def place_hazard_def Let_def split: prod.splits)

lemma hazards_place_gems:
  "hazards (foldl (\<lambda>t (c, x, y). place_gem x y c t) s gs) = hazards s"
  by (induction gs arbitrary: s) (auto simp: place_gem_def Let_def)

lemma load_level_content:
  assumes "i < length (levels s)"
  shows "snd ` set (gems (load_level i s))
           \<subseteq> (\<lambda>(c, x, y). \<lparr>gem_x = x, gem_y = y, gem_type = c\<rparr>) ` set (lv_gems (levels s ! i))"
    and "snd ` set (hazards (load_level i s))
           \<subseteq> (\<lambda>(t, x, y, w, h). \<lparr>hz_type = t, hz_x = x, hz_y = y, hz_width = w, hz_height = h\<rparr>)
                 ` set (lv_hazards (levels s ! i))"
proof -
  let ?s1 = "s\<lparr>current_level_index := i, gems := [], hazards := [], walls := [],
                 black_gems_required := 0, white_gems_required := 0,
                 next_gem_id := 0, stage_winner := None\<rparr>"
  let ?s5 = "place_wall 0 0 map_width 20 (place_wall (map_width - 20) 0 20 map_height
                 (place_wall 0 0 20 map_height (place_wall 0 (map_height - 20) map_width 20 ?s1)))"
  let ?s6 = "foldl (\<lambda>t (x, y, w, h). place_wall x y w h t) ?s5 (lv_walls (levels s ! i))"
  let ?s7 = "foldl place_hazard ?s6 (lv_hazards (levels s ! i))"
  have w: "\<And>t a. gems ((\<lambda>t (x, y, w, h). place_wall x y w h t) t a) = gems t"
    "\<And>t a. hazards ((\<lambda>t (x, y, w, h). place_wall x y w h t) t a) = hazards t"
    by (simp_all split: prod.splits)
  have g6: "gems ?s6 = []" "hazards ?s6 = []"
    by (simp_all add: foldl_preserves [of gems, OF w(1)] foldl_preserves [of hazards, OF w(2)])
  have g7: "gems ?s7 = []"
    by (simp add: foldl_preserves [of gems place_hazard, OF gems_place_hazard] g6)
  have "snd ` set (hazards ?s7)
     \<subseteq> snd ` set (hazards ?s6)
         \<union> (\<lambda>(t, x, y, w, h). \<lparr>hz_type = t, hz_x = x, hz_y = y, hz_width = w, hz_height = h\<rparr>)
             ` set (lv_hazards (levels s ! i))"
    by (rule hazards_place_hazards_subset)
  then have h7: "snd ` set (hazards ?s7)
     \<subseteq> (\<lambda>(t, x, y, w, h). \<lparr>hz_type = t, hz_x = x, hz_y = y, hz_width = w, hz_height = h\<rparr>)
             ` set (lv_hazards (levels s ! i))"
    by (simp add: g6)
  have "snd ` set (gems (foldl (\<lambda>t (c, x, y). place_gem x y c t) ?s7 (lv_gems (levels s ! i))))
     \<subseteq> snd ` set (gems ?s7)
         \<union> (\<lambda>(c, x, y). \<lparr>gem_x = x, gem_y = y, gem_type = c\<rparr>) ` set (lv_gems (levels s ! i))"
    by (rule gems_place_gems_subset)
  then have g8: "snd ` set (gems (foldl (\<lambda>t (c, x, y). place_gem x y c t) ?s7 (lv_gems (levels s ! i))))
     \<subseteq> (\<lambda>(c, x, y). \<lparr>gem_x = x, gem_y = y, gem_type = c\<rparr>) ` set (lv_gems (levels s ! i))"
    by (simp add: g7)
  have eqg: "gems (load_level i s)
      = gems (foldl (\<lambda>t (c, x, y). place_gem x y c t) ?s7 (lv_gems (levels s ! i)))"
    and eqh: "hazards (load_level i s) = hazards ?s7"
    by (simp_all add: load_level_unfold [OF assms] stage_entities_loaded_def Let_def
          hazards_place_gems)
  show "snd ` set (gems (load_level i s))
           \<subseteq> (\<lambda>(c, x, y). \<lparr>gem_x = x, gem_y = y, gem_type = c\<rparr>) ` set (lv_gems (levels s ! i))"
    unfolding eqg by (rule g8)
  show "snd ` set (hazards (load_level i s))
           \<subseteq> (\<lambda>(t, x, y, w, h). \<lparr>hz_type = t, hz_x = x, hz_y = y, hz_width = w, hz_height = h\<rparr>)
                 ` set (lv_hazards (levels s ! i))"
    unfolding eqh by (rule h7)
qed

lemma load_level_required:
  assumes "i < length (levels s)"
  shows "black_gems_required (load_level i s) = gems_of_color ''black'' (levels s ! i)"
    and "white_gems_required (load_level i s) = gems_of_color ''white'' (levels s ! i)"
  by (simp_all add: load_level_unfold [OF assms] black_required_stage_entities
        white_required_stage_entities)

text \<open>The timer's callback on a state with no match winner and a next stage in the
  catalog: the timer is used up and the next stage is loaded.\<close>

lemma fire_timer_is_load:
  assumes "timers s = [(d, LoadNextStage)]" "\<not> truthy (match_winner s)"
    "current_level_index s + 1 < total_stages s"
  shows "fire_timer s = load_level (current_level_index s + 1) (s\<lparr>timers := []\<rparr>)"
  using assms by (simp add: fire_timer_def load_next_stage_def)

lemma fire_timer_none: "timers s = [] \<Longrightarrow> fire_timer s = s"
  by (simp add: fire_timer_def)

text \<open>
  C3. When \<^verbatim>\<open>_handle_stage_win\<close> records a win (no stage winner and no match winner
  yet, the winner has a score), it returns with the winner's score raised by one and
  every other score as it was, and:
  if that score is more than half of \<^verbatim>\<open>total_stages\<close>, or the stage was the last one,
  \<^verbatim>\<open>match_winner\<close> is set in the same call to the player with the strictly higher
  score, or to \<^verbatim>\<open>draw\<close> on equal scores, and no timer is started; otherwise
  \<^verbatim>\<open>match_winner\<close> stays unset, the stage in play stays as it is (level, gems, hazards,
  walls, exit, players), and the one effect towards the next stage is a timer of three
  seconds for \<^verbatim>\<open>_load_next_stage\<close>. When that timer fires it is used up (firing again
  does nothing) and the next stage is loaded: the level index is one higher, the stage
  winner is cleared, the gems, hazards and walls are those that a load of that level
  places whatever the stage held before, every gem and every hazard is one that the
  level defines, the exit is the level's exit, the requirement counts are the level's
  gem counts, and every player is reset for the new stage, while scores and match
  winner stay.
\<close>

theorem stage_win_decides_match:
  assumes "\<not> truthy (stage_winner s)" and "\<not> truthy (match_winner s)"
    and "map_of (scores s) w = Some v"
    and "map_of (scores s) ''player_black'' \<noteq> None"
    and "map_of (scores s) ''player_white'' \<noteq> None"
  shows "fst (handle_stage_win w s) = Return ()
    \<and> stage_winner (snd (handle_stage_win w s)) = Some w
    \<and> map_of (scores (snd (handle_stage_win w s))) w = Some (v + 1)
    \<and> (\<forall>k. k \<noteq> w \<longrightarrow> map_of (scores (snd (handle_stage_win w s))) k = map_of (scores s) k)
    \<and> (2 * (v + 1) > int (total_stages s) \<or> current_level_index s + 1 \<ge> total_stages s
        \<longrightarrow> (\<exists>b wh. map_of (scores (snd (handle_stage_win w s))) ''player_black'' = Some b
                   \<and> map_of (scores (snd (handle_stage_win w s))) ''player_white'' = Some wh
                   \<and> match_winner (snd (handle_stage_win w s))
                       = Some (if b > wh then ''player_black''
                               else if wh > b then ''player_white'' else ''draw''))
            \<and> timers (snd (handle_stage_win w s)) = timers s)
    \<and> (\<not> (2 * (v + 1) > int (total_stages s) \<or> current_level_index s + 1 \<ge> total_stages s)
        \<longrightarrow> match_winner (snd (handle_stage_win w s)) = match_winner s
            \<and> \<not> truthy (match_winner (snd (handle_stage_win w s)))
            \<and> within_stage s (snd (handle_stage_win w s))
            \<and> gems (snd (handle_stage_win w s)) = gems s
            \<and> hazards (snd (handle_stage_win w s)) = hazards s
            \<and> walls (snd (handle_stage_win w s)) = walls s
            \<and> exit_area (snd (handle_stage_win w s)) = exit_area s
            \<and> current_level_index (snd (handle_stage_win w s)) = current_level_index s
            \<and> players (snd (handle_stage_win w s)) = players s
            \<and> timers (snd (handle_stage_win w s)) = timers s @ [(3, LoadNextStage)]
            \<and> (timers s = [] \<and> current_level_index s + 1 < length (levels s)
                \<longrightarrow> current_level_index (fire_timer (snd (handle_stage_win w s)))
                      = current_level_index s + 1
                    \<and> fire_timer (snd (handle_stage_win w s))
                        = load_level (current_level_index s + 1)
                            ((snd (handle_stage_win w s))\<lparr>timers := []\<rparr>)
                    \<and> timers (fire_timer (snd (handle_stage_win w s))) = []
                    \<and> fire_timer (fire_timer (snd (handle_stage_win w s)))
                        = fire_timer (snd (handle_stage_win w s))
                    \<and> stage_winner (fire_timer (snd (handle_stage_win w s))) = None
                    \<and> match_winner (fire_timer (snd (handle_stage_win w s))) = match_winner s
                    \<and> scores (fire_timer (snd (handle_stage_win w s)))
                        = scores (snd (handle_stage_win w s))
                    \<and> players (fire_timer (snd (handle_stage_win w s)))
                        = map (\<lambda>(pid, p). (pid, reset_player_for_new_stage p
                                 (start_pos (levels s ! (current_level_index s + 1)))))
                            (players s)
                    \<and> black_gems_required (fire_timer (snd (handle_stage_win w s)))
                        = gems_of_color ''black'' (levels s ! (current_level_index s + 1))
                    \<and> white_gems_required (fire_timer (snd (handle_stage_win w s)))
                        = gems_of_color ''white'' (levels s ! (current_level_index s + 1))
                    \<and> exit_area (fire_timer (snd (handle_stage_win w s)))
                        = Some (case lv_exit (levels s ! (current_level_index s + 1)) of
                                  (x, y, wd, ht) \<Rightarrow>
                                    \<lparr>rect_x = x, rect_y = y, rect_width = wd, rect_height = ht\<rparr>)
                    \<and> (\<forall>t. levels t = levels s \<longrightarrow>
                          gems (fire_timer (snd (handle_stage_win w s)))
                            = gems (load_level (current_level_index s + 1) t)
                          \<and> hazards (fire_timer (snd (handle_stage_win w s)))
                            = hazards (load_level (current_level_index s + 1) t)
                          \<and> walls (fire_timer (snd (handle_stage_win w s)))
                            = walls (load_level (current_level_index s + 1) t))
                    \<and> snd ` set (gems (fire_timer (snd (handle_stage_win w s))))
                        \<subseteq> (\<lambda>(c, x, y). \<lparr>gem_x = x, gem_y = y, gem_type = c\<rparr>)
                              ` set (lv_gems (levels s ! (current_level_index s + 1)))
                    \<and> snd ` set (hazards (fire_timer (snd (handle_stage_win w s))))
                        \<subseteq> (\<lambda>(ht, x, y, wd, h). \<lparr>hz_type = ht, hz_x = x, hz_y = y, hz_width = wd, hz_height = h\<rparr>)
                              ` set (lv_hazards (levels s ! (current_level_index s + 1)))))"
proof (cases "2 * (v + 1) > int (total_stages s) \<or> current_level_index s + 1 \<ge> total_stages s")
  case True
  obtain b wh where
    "map_of (AList.update w (v + 1) (scores s)) ''player_black'' = Some b"
    "map_of (AList.update w (v + 1) (scores s)) ''player_white'' = Some wh"
    "handle_stage_win w s =
         (Return (),
          s\<lparr>stage_winner := Some w, scores := AList.update w (v + 1) (scores s),
            match_winner := Some (if b > wh then ''player_black''
                                  else if wh > b then ''player_white'' else ''draw'')\<rparr>)"
    using handle_stage_win_decides [OF assms(1,3,4,5) True] by blast
  then show ?thesis using True by (simp add: update_conv')
next
  case False
  let ?n = "current_level_index s + 1"
  let ?s' = "s\<lparr>stage_winner := Some w, scores := AList.update w (v + 1) (scores s),
            timers := timers s @ [(3, LoadNextStage)]\<rparr>"
  let ?u = "fire_timer ?s'"
  have eq: "handle_stage_win w s = (Return (), ?s')"
    by (rule handle_stage_win_defers [OF assms(1,3) False])
  have fire: "current_level_index ?u = ?n
      \<and> ?u = load_level ?n (?s'\<lparr>timers := []\<rparr>)
      \<and> timers ?u = []
      \<and> fire_timer ?u = ?u
      \<and> stage_winner ?u = None
      \<and> match_winner ?u = match_winner s
      \<and> scores ?u = scores ?s'
      \<and> players ?u = map (\<lambda>(pid, p). (pid, reset_player_for_new_stage p
                                 (start_pos (levels s ! ?n)))) (players s)
      \<and> black_gems_required ?u = gems_of_color ''black'' (levels s ! ?n)
      \<and> white_gems_required ?u = gems_of_color ''white'' (levels s ! ?n)
      \<and> exit_area ?u = Some (case lv_exit (levels s ! ?n) of
                                  (x, y, wd, ht) \<Rightarrow>
                                    \<lparr>rect_x = x, rect_y = y, rect_width = wd, rect_height = ht\<rparr>)
      \<and> (\<forall>t. levels t = levels s \<longrightarrow>
             gems ?u = gems (load_level ?n t)
             \<and> hazards ?u = hazards (load_level ?n t)
             \<and> walls ?u = walls (load_level ?n t))
      \<and> snd ` set (gems ?u) \<subseteq> (\<lambda>(c, x, y). \<lparr>gem_x = x, gem_y = y, gem_type = c\<rparr>) ` set (lv_gems (levels s ! ?n))
      \<and> snd ` set (hazards ?u) \<subseteq> (\<lambda>(ht, x, y, wd, h). \<lparr>hz_type = ht, hz_x = x, hz_y = y, hz_width = wd, hz_height = h\<rparr>) ` set (lv_hazards (levels s ! ?n))"
    if empty: "timers s = []" and next_level: "?n < length (levels s)"
  proof -
    let ?b = "?s'\<lparr>timers := []\<rparr>"
    have "timers ?s' = [(3, LoadNextStage)]" "\<not> truthy (match_winner ?s')"
      "current_level_index ?s' + 1 < total_stages ?s'"
      using empty assms(2) False by simp_all
    then have "?u = load_level (current_level_index ?s' + 1) ?b"
      by (rule fire_timer_is_load)
    then have load: "?u = load_level ?n ?b" by simp
    have len: "?n < length (levels ?b)" using next_level by simp
    note fields = load_level_match_fields [OF len]
    have "timers (load_level ?n ?b) = timers ?b" by (rule fields(10))
    then have "timers ?u = []" unfolding load by simp
    then have none: "fire_timer ?u = ?u" by (rule fire_timer_none)
    have ent: "gems ?u = gems (load_level ?n t) \<and> hazards ?u = hazards (load_level ?n t)
               \<and> walls ?u = walls (load_level ?n t)" if "levels t = levels s" for t
    proof -
      have "levels t = levels ?b" using that by simp
      then show ?thesis
        unfolding load using load_level_replaces_entities(1,2,3) [OF len] by blast
    qed
    have ex: "exit_area ?u = Some (case lv_exit (levels s ! ?n) of
                                  (x, y, wd, ht) \<Rightarrow>
                                    \<lparr>rect_x = x, rect_y = y, rect_width = wd, rect_height = ht\<rparr>)"
      unfolding load using load_level_replaces_entities(5) [OF len refl] by simp
    have req: "black_gems_required ?u = gems_of_color ''black'' (levels s ! ?n)"
      "white_gems_required ?u = gems_of_color ''white'' (levels s ! ?n)"
      unfolding load using load_level_required [OF len] by simp_all
    have f: "current_level_index ?u = ?n" "timers ?u = []" "stage_winner ?u = None"
      "match_winner ?u = match_winner s" "scores ?u = scores ?s'"
      "players ?u = map (\<lambda>(pid, p). (pid, reset_player_for_new_stage p
                                 (start_pos (levels s ! ?n)))) (players s)"
      unfolding load using fields by simp_all
    have lv: "levels ?b = levels s" by simp
    have cont: "snd ` set (gems ?u) \<subseteq> (\<lambda>(c, x, y). \<lparr>gem_x = x, gem_y = y, gem_type = c\<rparr>) ` set (lv_gems (levels s ! ?n))"
      "snd ` set (hazards ?u) \<subseteq> (\<lambda>(ht, x, y, wd, h). \<lparr>hz_type = ht, hz_x = x, hz_y = y, hz_width = wd, hz_height = h\<rparr>) ` set (lv_hazards (levels s ! ?n))"
      unfolding load using load_level_content [OF len] unfolding lv by blast+
    show ?thesis
      using none ent ex req load f cont by blast
  qed
  have top: "stage_winner ?s' = Some w" "map_of (scores ?s') w = Some (v + 1)"
    "\<forall>k. k \<noteq> w \<longrightarrow> map_of (scores ?s') k = map_of (scores s) k"
    by (simp_all add: update_conv')
  have stay: "match_winner ?s' = match_winner s" "\<not> truthy (match_winner ?s')"
    "within_stage s ?s'" "gems ?s' = gems s" "hazards ?s' = hazards s" "walls ?s' = walls s"
    "exit_area ?s' = exit_area s" "current_level_index ?s' = current_level_index s"
    "players ?s' = players s" "timers ?s' = timers s @ [(3, LoadNextStage)]"
    using assms(2) by (simp_all add: within_stage_def)
  show ?thesis
    unfolding eq fst_conv snd_conv
    using False top stay fire by blast
qed

lemma next_stage_gems_example:
  "gems (load_level 1 (new_protocol demo_assets)) =
     [(''black_gem_0'', \<lparr>gem_x = 270, gem_y = 470, gem_type = ''black''\<rparr>),
      (''white_gem_1'', \<lparr>gem_x = 470, gem_y = 470, gem_type = ''white''\<rparr>),
      (''black_gem_2'', \<lparr>gem_x = 120, gem_y = 370, gem_type = ''black''\<rparr>),
      (''white_gem_3'', \<lparr>gem_x = 620, gem_y = 370, gem_type = ''white''\<rparr>),
      (''black_gem_4'', \<lparr>gem_x = 390, gem_y = 270, gem_type = ''black''\<rparr>)]"
  "hazards (load_level 1 (new_protocol demo_assets)) =
     [(''black_pool_0'',
       \<lparr>hz_type = ''black'', hz_x = 150, hz_y = 560, hz_width = 50, hz_height = 20\<rparr>)]"
  by code_simp+

theorem stage_win_decides_match_witness:
  "\<not> truthy (stage_winner demo_stage) \<and> \<not> truthy (match_winner demo_stage)
   \<and> map_of (scores demo_stage) ''player_white'' = Some 0
   \<and> match_winner (snd (handle_stage_win ''player_white'' demo_stage)) = None
   \<and> timers (snd (handle_stage_win ''player_white'' demo_stage)) = [(3, LoadNextStage)]
   \<and> current_level_index (snd (handle_stage_win ''player_white'' demo_stage)) = 0
   \<and> gems (snd (handle_stage_win ''player_white'' demo_stage)) = gems demo_stage
   \<and> current_level_index (fire_timer (snd (handle_stage_win ''player_white'' demo_stage))) = 1
   \<and> stage_winner (fire_timer (snd (handle_stage_win ''player_white'' demo_stage))) = None
   \<and> timers (fire_timer (snd (handle_stage_win ''player_white'' demo_stage))) = []
   \<and> black_gems_required (fire_timer (snd (handle_stage_win ''player_white'' demo_stage))) = 3
   \<and> gems (fire_timer (snd (handle_stage_win ''player_white'' demo_stage))) =
       [(''black_gem_0'', \<lparr>gem_x = 270, gem_y = 470, gem_type = ''black''\<rparr>),
        (''white_gem_1'', \<lparr>gem_x = 470, gem_y = 470, gem_type = ''white''\<rparr>),
        (''black_gem_2'', \<lparr>gem_x = 120, gem_y = 370, gem_type = ''black''\<rparr>),
        (''white_gem_3'', \<lparr>gem_x = 620, gem_y = 370, gem_type = ''white''\<rparr>),
        (''black_gem_4'', \<lparr>gem_x = 390, gem_y = 270, gem_type = ''black''\<rparr>)]
   \<and> hazards (fire_timer (snd (handle_stage_win ''player_white'' demo_stage))) =
       [(''black_pool_0'',
         \<lparr>hz_type = ''black'', hz_x = 150, hz_y = 560, hz_width = 50, hz_height = 20\<rparr>)]
   \<and> map_of (scores (demo_stage\<lparr>scores := [(''player_black'', 0), (''player_white'', 2)],
                               current_level_index := 2\<rparr>)) ''player_white'' = Some 2
   \<and> match_winner (snd (handle_stage_win ''player_white''
         (demo_stage\<lparr>scores := [(''player_black'', 0), (''player_white'', 2)],
                      current_level_index := 2\<rparr>))) = Some ''player_white''
   \<and> timers (snd (handle_stage_win ''player_white''
         (demo_stage\<lparr>scores := [(''player_black'', 0), (''player_white'', 2)],
                      current_level_index := 2\<rparr>))) = []"
proof -
  let ?s' = "snd (handle_stage_win ''player_white'' demo_stage)"
  let ?d = "demo_stage\<lparr>scores := [(''player_black'', 0), (''player_white'', 2)],
                       current_level_index := 2\<rparr>"
  have h: "\<not> truthy (stage_winner demo_stage)" "\<not> truthy (match_winner demo_stage)"
    "map_of (scores demo_stage) ''player_white'' = Some 0"
    "map_of (scores demo_stage) ''player_black'' \<noteq> None"
    "map_of (scores demo_stage) ''player_white'' \<noteq> None"
    by (simp_all add: demo_stage_fields)
  note first = stage_win_decides_match [OF h]
  have deferred: "\<not> (2 * ((0::int) + 1) > int (total_stages demo_stage)
                   \<or> current_level_index demo_stage + 1 \<ge> total_stages demo_stage)"
    by (simp add: demo_stage_fields)
  have ready: "timers demo_stage = [] \<and> current_level_index demo_stage + 1 < length (levels demo_stage)"
    by (simp add: demo_stage_fields)
  from first deferred have stay:
    "match_winner ?s' = match_winner demo_stage" "gems ?s' = gems demo_stage"
    "current_level_index ?s' = current_level_index demo_stage"
    "timers ?s' = timers demo_stage @ [(3, LoadNextStage)]"
    by blast+
  from first deferred ready have fired:
    "current_level_index (fire_timer ?s') = current_level_index demo_stage + 1"
    "stage_winner (fire_timer ?s') = None" "timers (fire_timer ?s') = []"
    "black_gems_required (fire_timer ?s')
       = gems_of_color ''black'' (levels demo_stage ! (current_level_index demo_stage + 1))"
    by blast+
  from first deferred ready have ent: "\<forall>t. levels t = levels demo_stage \<longrightarrow>
      gems (fire_timer ?s') = gems (load_level (current_level_index demo_stage + 1) t)
      \<and> hazards (fire_timer ?s') = hazards (load_level (current_level_index demo_stage + 1) t)
      \<and> walls (fire_timer ?s') = walls (load_level (current_level_index demo_stage + 1) t)"
    by blast
  have "levels (new_protocol demo_assets) = levels demo_stage"
    by (simp add: demo_stage_fields new_protocol_fields)
  with ent have loaded:
    "gems (fire_timer ?s') = gems (load_level (current_level_index demo_stage + 1) (new_protocol demo_assets))"
    "hazards (fire_timer ?s') = hazards (load_level (current_level_index demo_stage + 1) (new_protocol demo_assets))"
    by blast+
  have h2: "\<not> truthy (stage_winner ?d)" "\<not> truthy (match_winner ?d)"
    "map_of (scores ?d) ''player_white'' = Some 2"
    "map_of (scores ?d) ''player_black'' \<noteq> None"
    "map_of (scores ?d) ''player_white'' \<noteq> None"
    by (simp_all add: demo_stage_fields)
  note second = stage_win_decides_match [OF h2]
  have decide: "2 * ((2::int) + 1) > int (total_stages ?d) \<or> current_level_index ?d + 1 \<ge> total_stages ?d"
    by (simp add: demo_stage_fields)
  from second decide have won:
    "match_winner (snd (handle_stage_win ''player_white'' ?d)) = Some ''player_white''"
    "timers (snd (handle_stage_win ''player_white'' ?d)) = []"
    by (auto simp add: demo_stage_fields)
  have idx: "current_level_index demo_stage + 1 = 1" by (simp add: demo_stage_fields)
  have placed: "gems (fire_timer ?s') =
       [(''black_gem_0'', \<lparr>gem_x = 270, gem_y = 470, gem_type = ''black''\<rparr>),
        (''white_gem_1'', \<lparr>gem_x = 470, gem_y = 470, gem_type = ''white''\<rparr>),
        (''black_gem_2'', \<lparr>gem_x = 120, gem_y = 370, gem_type = ''black''\<rparr>),
        (''white_gem_3'', \<lparr>gem_x = 620, gem_y = 370, gem_type = ''white''\<rparr>),
        (''black_gem_4'', \<lparr>gem_x = 390, gem_y = 270, gem_type = ''black''\<rparr>)]"
    "hazards (fire_timer ?s') =
       [(''black_pool_0'',
         \<lparr>hz_type = ''black'', hz_x = 150, hz_y = 560, hz_width = 50, hz_height = 20\<rparr>)]"
    using loaded unfolding idx next_stage_gems_example by blast+
  show ?thesis
    using h(1,2,3) h2(3) stay fired placed won
    by (simp add: demo_stage_fields gems_of_color_def level_2_def)
qed

subsection \<open>Hazards and the exit\<close>

lemma handle_stage_win_effect:
  assumes "\<not> truthy (stage_winner s)" "map_of (scores s) w = Some v"
    and "map_of (scores s) ''player_black'' \<noteq> None" "map_of (scores s) ''player_white'' \<noteq> None"
  shows "\<exists>m tm. handle_stage_win w s =
           (Return (),
            s\<lparr>stage_winner := Some w, scores := AList.update w (v + 1) (scores s),
              match_winner := m, timers := tm\<rparr>)"
proof (cases "2 * (v + 1) > int (total_stages s) \<or> current_level_index s + 1 \<ge> total_stages s")
  case True
  from handle_stage_win_decides [OF assms True] obtain b wh where
    "map_of (AList.update w (v + 1) (scores s)) ''player_black'' = Some b
     \<and> map_of (AList.update w (v + 1) (scores s)) ''player_white'' = Some wh
     \<and> handle_stage_win w s =
         (Return (),
          s\<lparr>stage_winner := Some w, scores := AList.update w (v + 1) (scores s),
            match_winner := Some (if b > wh then ''player_black''
                                  else if wh > b then ''player_white'' else ''draw'')\<rparr>)"
    by (elim exE)
  then have "handle_stage_win w s =
         (Return (),
          s\<lparr>stage_winner := Some w, scores := AList.update w (v + 1) (scores s),
            match_winner := Some (if b > wh then ''player_black''
                                  else if wh > b then ''player_white'' else ''draw''),
            timers := timers s\<rparr>)"
    by simp
  then show ?thesis by blast
next
  case False
  have "handle_stage_win w s =
         (Return (),
          s\<lparr>stage_winner := Some w, scores := AList.update w (v + 1) (scores s),
            match_winner := match_winner s, timers := timers s @ [(3, LoadNextStage)]\<rparr>)"
    by (simp add: handle_stage_win_defers [OF assms(1,2) False])
  then show ?thesis by blast
qed

lemma check_hazard_collision_hit_full:
  assumes "undecided s" "map_of (players s) k = Some p" "map_of (hazards s) h = Some hz"
    "color_type p \<noteq> hz_type hz"
  shows "check_hazard_collision k h s =
           (case handle_stage_win (''player_'' @ other_color (color_type p))
                   (s\<lparr>players := AList.update k (p\<lparr>lives := 0\<rparr>) (players s)\<rparr>) of
              (Return u, s2) \<Rightarrow> (Return (reply OK), s2)
            | (Raise e, s2) \<Rightarrow> (Raise e, s2))"
  using assms by (simp add: check_hazard_collision_def undecided_def other_color_def Let_def)

lemma player_at_exit_enough_full:
  assumes "undecided s" "map_of (players s) k = Some p"
    "gems_collected p \<ge> required_gems s (color_type p)"
  shows "player_at_exit k s =
           (case handle_stage_win k (s\<lparr>players := AList.update k (p\<lparr>at_exit := True\<rparr>) (players s)\<rparr>) of
              (Return u, s2) \<Rightarrow> (Return (reply_msg OK ''Player at exit processed.''), s2)
            | (Raise e, s2) \<Rightarrow> (Raise e, s2))"
  using assms
  by (cases "color_type p = ''black''")
     (simp_all add: player_at_exit_def undecided_def required_gems_def Let_def)

lemma opponent_has_score:
  assumes "well_formed s" "map_of (players s) k = Some p"
  shows "map_of (scores s) (''player_'' @ other_color (color_type p)) \<noteq> None"
    and "map_of (scores s) k \<noteq> None"
    and "k \<noteq> ''player_'' @ other_color (color_type p)"
    and "k \<noteq> []"
proof -
  have c: "color_type p \<in> {''black'', ''white''} \<and> k = ''player_'' @ color_type p"
    using assms wf_players_lookup [of "players s" k p] by (simp add: well_formed_def)
  have sc: "map_of (scores s) ''player_black'' \<noteq> None" "map_of (scores s) ''player_white'' \<noteq> None"
    using assms(1) by (simp_all add: well_formed_def)
  from c have "color_type p = ''black'' \<or> color_type p = ''white''" by simp
  then show "map_of (scores s) (''player_'' @ other_color (color_type p)) \<noteq> None"
    using sc by (elim disjE) (simp_all add: other_color_def)
  from c have "color_type p = ''black'' \<or> color_type p = ''white''" by simp
  then show "map_of (scores s) k \<noteq> None"
    using sc c by (elim disjE) simp_all
  from c have "color_type p = ''black'' \<or> color_type p = ''white''" by simp
  then show "k \<noteq> ''player_'' @ other_color (color_type p)"
    using c by (elim disjE) (simp_all add: other_color_def)
  show "k \<noteq> []" using c by simp
qed

text \<open>
  C1. In a state the server can be in, with neither winner set, a registered player who
  touches a hazard of the current stage whose colour differs from the player's own has
  the lives set to 0; \<^verbatim>\<open>stage_winner\<close> becomes the player id of the opposing colour;
  that colour's cumulative score goes up by exactly 1 and no other score changes.
\<close>

theorem wrong_color_hazard_ends_stage:
  assumes "well_formed s" and "undecided s"
    and "map_of (players s) pid = Some p" and "map_of (hazards s) hid = Some hz"
    and "color_type p \<noteq> hz_type hz"
  shows "\<exists>v. map_of (scores s) (''player_'' @ other_color (color_type p)) = Some v
    \<and> status_of (fst (check_hazard_collision pid hid s)) = Some OK
    \<and> map_of (players (snd (check_hazard_collision pid hid s))) pid = Some (p\<lparr>lives := 0\<rparr>)
    \<and> stage_winner (snd (check_hazard_collision pid hid s))
        = Some (''player_'' @ other_color (color_type p))
    \<and> map_of (scores (snd (check_hazard_collision pid hid s)))
          (''player_'' @ other_color (color_type p)) = Some (v + 1)
    \<and> (\<forall>k. k \<noteq> ''player_'' @ other_color (color_type p) \<longrightarrow>
          map_of (scores (snd (check_hazard_collision pid hid s))) k = map_of (scores s) k)"
proof -
  let ?opp = "''player_'' @ other_color (color_type p)"
  let ?s1 = "s\<lparr>players := AList.update pid (p\<lparr>lives := 0\<rparr>) (players s)\<rparr>"
  obtain v where v: "map_of (scores s) ?opp = Some v"
    using opponent_has_score(1) [OF assms(1,3)] by blast
  have "\<not> truthy (stage_winner ?s1)" "map_of (scores ?s1) ?opp = Some v"
    "map_of (scores ?s1) ''player_black'' \<noteq> None" "map_of (scores ?s1) ''player_white'' \<noteq> None"
    using assms(1,2) v by (simp_all add: undecided_def well_formed_def)
  then obtain m tm where win: "handle_stage_win ?opp ?s1 =
           (Return (),
            ?s1\<lparr>stage_winner := Some ?opp, scores := AList.update ?opp (v + 1) (scores ?s1),
              match_winner := m, timers := tm\<rparr>)"
    using handle_stage_win_effect [of ?s1 ?opp v] by blast
  have "check_hazard_collision pid hid s =
          (Return (reply OK),
            ?s1\<lparr>stage_winner := Some ?opp, scores := AList.update ?opp (v + 1) (scores ?s1),
              match_winner := m, timers := tm\<rparr>)"
    unfolding check_hazard_collision_hit_full [OF assms(2,3,4,5)] win by simp
  then show ?thesis using v by (simp add: update_conv')
qed

theorem wrong_color_hazard_ends_stage_witness:
  "well_formed demo_stage \<and> undecided demo_stage
   \<and> map_of (players demo_stage) ''player_black''
       = Some \<lparr>color_type = ''black'', pos_x = 50, pos_y = 532, lives = 1,
               gems_collected = 0, at_exit = False\<rparr>
   \<and> map_of (hazards demo_stage) ''white_pool_0''
       = Some \<lparr>hz_type = ''white'', hz_x = 300, hz_y = 560, hz_width = 100, hz_height = 20\<rparr>
   \<and> map_of (scores demo_stage) ''player_white'' = Some 0
   \<and> status_of (fst (check_hazard_collision ''player_black'' ''white_pool_0'' demo_stage)) = Some OK
   \<and> map_of (players (snd (check_hazard_collision ''player_black'' ''white_pool_0'' demo_stage)))
         ''player_black''
       = Some \<lparr>color_type = ''black'', pos_x = 50, pos_y = 532, lives = 0,
               gems_collected = 0, at_exit = False\<rparr>
   \<and> stage_winner (snd (check_hazard_collision ''player_black'' ''white_pool_0'' demo_stage))
       = Some ''player_white''
   \<and> map_of (scores (snd (check_hazard_collision ''player_black'' ''white_pool_0'' demo_stage)))
         ''player_white'' = Some 1
   \<and> map_of (scores (snd (check_hazard_collision ''player_black'' ''white_pool_0'' demo_stage)))
         ''player_black'' = Some 0"
proof -
  have h3: "map_of (players demo_stage) ''player_black''
       = Some \<lparr>color_type = ''black'', pos_x = 50, pos_y = 532, lives = 1,
               gems_collected = 0, at_exit = False\<rparr>"
    by (simp add: demo_stage_fields)
  have h4: "map_of (hazards demo_stage) ''white_pool_0''
       = Some \<lparr>hz_type = ''white'', hz_x = 300, hz_y = 560, hz_width = 100, hz_height = 20\<rparr>"
    by (simp add: demo_stage_fields)
  have h5: "color_type \<lparr>color_type = ''black'', pos_x = 50, pos_y = 532, lives = 1,
               gems_collected = 0, at_exit = False\<rparr>
            \<noteq> hz_type \<lparr>hz_type = ''white'', hz_x = 300, hz_y = 560, hz_width = 100, hz_height = 20\<rparr>"
    by simp
  show ?thesis
    using well_formed_demo_stage undecided_demo_stage h3 h4
      wrong_color_hazard_ends_stage [OF well_formed_demo_stage undecided_demo_stage h3 h4 h5]
    by (auto simp: other_color_def demo_stage_fields)
qed

lemma undecided_collect_gem [simp]: "undecided (snd (collect_gem k g s)) = undecided s"
  by (simp add: collect_gem_def undecided_def split: option.splits)

lemma well_formed_collect_all:
  "well_formed s \<Longrightarrow> well_formed (collect_all k gs s)"
  unfolding collect_all_def
  by (induction gs arbitrary: s) (simp_all add: well_formed_collect_gem)

lemma undecided_collect_all:
  "undecided s \<Longrightarrow> undecided (collect_all k gs s)"
  unfolding collect_all_def
  by (induction gs arbitrary: s) simp_all

lemma exit_with_enough_gems_wins:
  assumes "well_formed s" "undecided s" "map_of (players s) k = Some p"
    "gems_collected p \<ge> required_gems s (color_type p)"
  shows "\<exists>sc m tm. player_at_exit k s =
           (Return (reply_msg OK ''Player at exit processed.''),
            s\<lparr>players := AList.update k (p\<lparr>at_exit := True\<rparr>) (players s),
              stage_winner := Some k, scores := sc, match_winner := m, timers := tm\<rparr>)"
proof -
  let ?s1 = "s\<lparr>players := AList.update k (p\<lparr>at_exit := True\<rparr>) (players s)\<rparr>"
  obtain v where v: "map_of (scores s) k = Some v"
    using opponent_has_score(2) [OF assms(1,3)] by blast
  have "\<not> truthy (stage_winner ?s1)" "map_of (scores ?s1) k = Some v"
    "map_of (scores ?s1) ''player_black'' \<noteq> None" "map_of (scores ?s1) ''player_white'' \<noteq> None"
    using assms(1,2) v by (simp_all add: undecided_def well_formed_def)
  then obtain m tm where win: "handle_stage_win k ?s1 =
           (Return (),
            ?s1\<lparr>stage_winner := Some k, scores := AList.update k (v + 1) (scores ?s1),
              match_winner := m, timers := tm\<rparr>)"
    using handle_stage_win_effect [of ?s1 k v] by blast
  have "player_at_exit k s =
          (Return (reply_msg OK ''Player at exit processed.''),
            s\<lparr>players := AList.update k (p\<lparr>at_exit := True\<rparr>) (players s),
              stage_winner := Some k, scores := AList.update k (v + 1) (scores s),
              match_winner := m, timers := tm\<rparr>)"
    unfolding player_at_exit_enough_full [OF assms(2,3,4)] win by simp
  then show ?thesis by blast
qed

text \<open>
  C2. In a state the server can be in, with neither winner set, \<^verbatim>\<open>player_at_exit\<close> for a
  registered player answers OK and sets the player's \<^verbatim>\<open>at_exit\<close> whatever the gem count;
  \<^verbatim>\<open>stage_winner\<close> becomes that player exactly when \<^verbatim>\<open>gems_collected\<close> has reached the
  requirement of the player's colour. When it falls short nothing else changes, the
  stage stays undecided, and after the player has collected any further gems a new
  \<^verbatim>\<open>player_at_exit\<close> that finds the requirement met makes the player the stage winner.
\<close>

theorem player_at_exit_rule:
  assumes "well_formed s" and "undecided s" and "map_of (players s) pid = Some p"
  shows "status_of (fst (player_at_exit pid s)) = Some OK
    \<and> map_of (players (snd (player_at_exit pid s))) pid = Some (p\<lparr>at_exit := True\<rparr>)
    \<and> (stage_winner (snd (player_at_exit pid s)) = Some pid
         \<longleftrightarrow> gems_collected p \<ge> required_gems s (color_type p))
    \<and> (gems_collected p < required_gems s (color_type p) \<longrightarrow>
          snd (player_at_exit pid s)
            = s\<lparr>players := AList.update pid (p\<lparr>at_exit := True\<rparr>) (players s)\<rparr>
          \<and> undecided (snd (player_at_exit pid s))
          \<and> (\<forall>gids q.
                map_of (players (collect_all pid gids (snd (player_at_exit pid s)))) pid = Some q
                \<and> gems_collected q
                    \<ge> required_gems (collect_all pid gids (snd (player_at_exit pid s))) (color_type q)
                \<longrightarrow> stage_winner
                      (snd (player_at_exit pid (collect_all pid gids (snd (player_at_exit pid s)))))
                    = Some pid))"
proof (cases "gems_collected p < required_gems s (color_type p)")
  case True
  let ?s1 = "s\<lparr>players := AList.update pid (p\<lparr>at_exit := True\<rparr>) (players s)\<rparr>"
  have eq: "player_at_exit pid s = (Return (reply_msg OK ''Player at exit processed.''), ?s1)"
    by (rule player_at_exit_short [OF assms(2,3) True])
  have und: "undecided ?s1" using assms(2) by (simp add: undecided_def)
  have wf1: "well_formed ?s1" using well_formed_players_update [OF assms(1,3)] by simp
  have "pid \<noteq> []" by (rule opponent_has_score(4) [OF assms(1,3)])
  then have nowin: "stage_winner ?s1 \<noteq> Some pid"
    using assms(2) by (auto simp: undecided_def)
  have later: "stage_winner (snd (player_at_exit pid (collect_all pid gids ?s1))) = Some pid"
    if reg: "map_of (players (collect_all pid gids ?s1)) pid = Some q"
      and enough: "gems_collected q \<ge> required_gems (collect_all pid gids ?s1) (color_type q)"
    for gids q
  proof -
    obtain sc m tm where "player_at_exit pid (collect_all pid gids ?s1) =
           (Return (reply_msg OK ''Player at exit processed.''),
            (collect_all pid gids ?s1)
              \<lparr>players := AList.update pid (q\<lparr>at_exit := True\<rparr>) (players (collect_all pid gids ?s1)),
               stage_winner := Some pid, scores := sc, match_winner := m, timers := tm\<rparr>)"
      using exit_with_enough_gems_wins
              [OF well_formed_collect_all [OF wf1] undecided_collect_all [OF und] reg enough]
      by blast
    then show ?thesis by simp
  qed
  show ?thesis
    using True und nowin later
    by (simp add: eq update_conv')
next
  case False
  then have ge: "gems_collected p \<ge> required_gems s (color_type p)" by simp
  obtain sc m tm where "player_at_exit pid s =
           (Return (reply_msg OK ''Player at exit processed.''),
            s\<lparr>players := AList.update pid (p\<lparr>at_exit := True\<rparr>) (players s),
              stage_winner := Some pid, scores := sc, match_winner := m, timers := tm\<rparr>)"
    using exit_with_enough_gems_wins [OF assms ge] by blast
  then show ?thesis using ge by (simp add: update_conv')
qed

theorem player_at_exit_rule_witness:
  "well_formed demo_stage \<and> undecided demo_stage
   \<and> map_of (players demo_stage) ''player_black''
       = Some \<lparr>color_type = ''black'', pos_x = 50, pos_y = 532, lives = 1,
               gems_collected = 0, at_exit = False\<rparr>
   \<and> (0::int) < required_gems demo_stage ''black''
   \<and> map_of (players (snd (player_at_exit ''player_black'' demo_stage))) ''player_black''
       = Some \<lparr>color_type = ''black'', pos_x = 50, pos_y = 532, lives = 1,
               gems_collected = 0, at_exit = True\<rparr>
   \<and> stage_winner (snd (player_at_exit ''player_black'' demo_stage)) = None
   \<and> map_of (players (collect_all ''player_black'' [''black_gem_0'', ''black_gem_2'']
                 (snd (player_at_exit ''player_black'' demo_stage)))) ''player_black''
       = Some \<lparr>color_type = ''black'', pos_x = 50, pos_y = 532, lives = 1,
               gems_collected = 2, at_exit = True\<rparr>
   \<and> stage_winner (snd (player_at_exit ''player_black''
         (collect_all ''player_black'' [''black_gem_0'', ''black_gem_2'']
            (snd (player_at_exit ''player_black'' demo_stage))))) = Some ''player_black''"
proof -
  let ?P = "\<lparr>color_type = ''black'', pos_x = 50, pos_y = 532, lives = 1,
               gems_collected = 0, at_exit = False\<rparr>"
  let ?Q = "\<lparr>color_type = ''black'', pos_x = 50, pos_y = 532, lives = 1,
               gems_collected = 2, at_exit = True\<rparr>"
  let ?s1 = "snd (player_at_exit ''player_black'' demo_stage)"
  let ?t = "collect_all ''player_black'' [''black_gem_0'', ''black_gem_2''] ?s1"
  have h3: "map_of (players demo_stage) ''player_black'' = Some ?P"
    by (simp add: demo_stage_fields)
  have req: "required_gems demo_stage ''black'' = 2"
    by (simp add: required_gems_def demo_stage_fields)
  note inst = player_at_exit_rule [OF well_formed_demo_stage undecided_demo_stage h3]
  have short: "gems_collected ?P < required_gems demo_stage (color_type ?P)"
    by (simp add: req)
  from inst short have s1: "?s1 = demo_stage\<lparr>players :=
      AList.update ''player_black'' (?P\<lparr>at_exit := True\<rparr>) (players demo_stage)\<rparr>"
    by blast
  from inst have atexit: "map_of (players ?s1) ''player_black'' = Some (?P\<lparr>at_exit := True\<rparr>)"
    by blast
  from inst short have later: "\<forall>gids q.
      map_of (players (collect_all ''player_black'' gids ?s1)) ''player_black'' = Some q
      \<and> gems_collected q \<ge> required_gems (collect_all ''player_black'' gids ?s1) (color_type q)
      \<longrightarrow> stage_winner (snd (player_at_exit ''player_black''
              (collect_all ''player_black'' gids ?s1))) = Some ''player_black''"
    by blast
  have t: "?t = demo_stage\<lparr>players := [(''player_black'', ?Q)],
      gems := [(''white_gem_1'', \<lparr>gem_x = 500, gem_y = 450, gem_type = ''white''\<rparr>),
               (''white_gem_3'', \<lparr>gem_x = 400, gem_y = 350, gem_type = ''white''\<rparr>)]\<rparr>"
    unfolding s1
    by (simp add: collect_all_def collect_gem_def demo_stage_fields)
  have q: "map_of (players ?t) ''player_black'' = Some ?Q"
    unfolding t by simp
  have enough: "gems_collected ?Q \<ge> required_gems ?t (color_type ?Q)"
    unfolding t by (simp add: required_gems_def demo_stage_fields)
  have win: "stage_winner (snd (player_at_exit ''player_black'' ?t)) = Some ''player_black''"
    using later q enough by blast
  have none: "stage_winner ?s1 = None"
    unfolding s1 by (simp add: demo_stage_fields)
  show ?thesis
    using well_formed_demo_stage undecided_demo_stage h3 req atexit none q win
    by simp
qed

subsection \<open>Resetting the game\<close>

lemma tokens_reset: "split (strip ''reset_game'') = [''reset_game'']"
  by (simp add: parse_eval)

lemma full_reset_fields:
  "players (full_reset s) = []"
  "scores (full_reset s) = [(''player_black'', 0), (''player_white'', 0)]"
  "current_level_index (full_reset s) = 0"
  "match_winner (full_reset s) = None"
  "stage_winner (full_reset s) = None"
  "start_time (full_reset s) = None"
  "levels (full_reset s) = [level_1, level_2, level_3, level_4, level_5]"
proof -
  let ?t = "define_levels (s\<lparr>players := [], scores := [(''player_black'', 0), (''player_white'', 0)],
             match_winner := None, stage_winner := None, start_time := None\<rparr>)"
  have len: "0 < length (levels ?t)" by simp
  note f = load_level_match_fields [OF len]
  show "players (full_reset s) = []"
    "scores (full_reset s) = [(''player_black'', 0), (''player_white'', 0)]"
    "current_level_index (full_reset s) = 0"
    "match_winner (full_reset s) = None"
    "stage_winner (full_reset s) = None"
    "start_time (full_reset s) = None"
    "levels (full_reset s) = [level_1, level_2, level_3, level_4, level_5]"
    unfolding full_reset_def by (simp_all add: f) (simp_all add: define_levels_def)
qed

text \<open>The staged engine resets from any state: \<^verbatim>\<open>reset_game\<close> answers OK and leaves the
  first stage loaded with no players, zero scores and no winner.\<close>

lemma reset_game_restores_initial_state:
  "fst (proses_string now ''reset_game'' s) = Return (reply OK)
   \<and> current_level_index (snd (proses_string now ''reset_game'' s)) = 0
   \<and> players (snd (proses_string now ''reset_game'' s)) = []
   \<and> scores (snd (proses_string now ''reset_game'' s))
       = [(''player_black'', 0), (''player_white'', 0)]
   \<and> stage_winner (snd (proses_string now ''reset_game'' s)) = None
   \<and> match_winner (snd (proses_string now ''reset_game'' s)) = None
   \<and> black_gems_required (snd (proses_string now ''reset_game'' s)) = 2
   \<and> white_gems_required (snd (proses_string now ''reset_game'' s)) = 2"
proof -
  have eq: "proses_string now ''reset_game'' s = (Return (reply OK), full_reset (start_clock now s))"
    by (simp add: proses_string_def tokens_reset lower_def lower_char_def)
  let ?t = "define_levels ((start_clock now s)\<lparr>players := [],
             scores := [(''player_black'', 0), (''player_white'', 0)],
             match_winner := None, stage_winner := None, start_time := None\<rparr>)"
  have len: "0 < length (levels ?t)" by simp
  have req: "black_gems_required (full_reset (start_clock now s)) = 2"
    "white_gems_required (full_reset (start_clock now s)) = 2"
    unfolding full_reset_def
    by (simp_all add: load_level_unfold [OF len] black_required_stage_entities
          white_required_stage_entities)
       (simp_all add: define_levels_def gems_of_color_def level_1_def)
  show ?thesis by (simp add: eq full_reset_fields req)
qed

text \<open>The function \<^verbatim>\<open>_reset_game\<close> of \<^verbatim>\<open>src/protocol.py\<close> would itself reset the arena and
  drop the players; only nothing can call it as a method.\<close>

lemma legacy_reset_game_function:
  "legacy_reset_game t =
     (Return (reply_msg OK ''Game state reset.''),
      (legacy_initialize_game_elements t)\<lparr>l_players := []\<rparr>)"
  by (simp add: legacy_reset_game_def Let_def)

text \<open>
  C7, at the input where the code departs from it. In \<^verbatim>\<open>src/protocol.py\<close>, the engine
  that \<^verbatim>\<open>src/server.py\<close> imports, \<^verbatim>\<open>reset_game\<close> raises \<^verbatim>\<open>AttributeError\<close>: no response
  is returned and nothing is reset (here the registered player stays).
\<close>

theorem legacy_reset_game_raises:
  "legacy_proses_string ''reset_game'' legacy_demo = (Raise AttributeError, legacy_demo)
   \<and> l_players legacy_demo \<noteq> []"
  by (simp add: legacy_proses_string_def tokens_reset lower_def lower_char_def legacy_demo_players)

subsection \<open>Unknown identifiers\<close>

lemma tokens_ghost:
  "split (strip ''check_hazard_collision ghost nowhere'')
     = [''check_hazard_collision'', ''ghost'', ''nowhere'']"
  by (simp add: parse_eval)

text \<open>With the stage undecided, \<^verbatim>\<open>check_hazard_collision\<close> for a player and a hazard that
  do not exist answers OK: the last \<^verbatim>\<open>return\<close> of the handler serves the safe hazard and
  the unknown identifier alike.\<close>

lemma check_hazard_collision_unknown_ids:
  "check_hazard_collision ''ghost'' ''nowhere'' demo_stage = (Return (reply OK), demo_stage)
   \<and> proses_string 2 ''check_hazard_collision ghost nowhere'' demo_stage
       = (Return (reply OK), demo_stage)"
proof -
  have a: "map_of (players demo_stage) ''ghost'' = None" by (simp add: demo_stage_fields)
  have c: "check_hazard_collision ''ghost'' ''nowhere'' demo_stage = (Return (reply OK), demo_stage)"
    by (rule check_hazard_collision_miss [OF undecided_demo_stage]) (simp add: a)
  have d: "start_clock 2 demo_stage = demo_stage"
    by (simp add: start_clock_well_formed_idle well_formed_demo_stage)
  have "proses_string 2 ''check_hazard_collision ghost nowhere'' demo_stage
       = (Return (reply OK), demo_stage)"
    by (simp add: proses_string_def tokens_ghost lower_def lower_char_def c d)
  then show ?thesis using c by simp
qed

lemma check_hazard_collision_unknown_unchanged:
  assumes "map_of (players s) k = None \<or> map_of (hazards s) h = None"
  shows "snd (check_hazard_collision k h s) = s"
proof (cases "undecided s")
  case True
  have "check_hazard_collision k h s = (Return (reply OK), s)"
    using assms by (intro check_hazard_collision_miss [OF True]) blast
  then show ?thesis by simp
next
  case False
  then show ?thesis by (simp add: check_hazard_collision_decided)
qed

text \<open>
  C8, as the code has it. Given a player id that is not registered, \<^verbatim>\<open>set_player_state\<close>
  and \<^verbatim>\<open>get_player_info\<close> answer with status ERROR, and \<^verbatim>\<open>player_at_exit\<close> answers ERROR
  while neither winner is set and OK once one is; \<^verbatim>\<open>collect_gem\<close> answers ERROR when the
  player or the gem is unknown; and none of the five commands, \<^verbatim>\<open>check_hazard_collision\<close>
  included, changes the state when an identifier it is given does not exist.
\<close>

theorem unknown_ids_change_nothing:
  "(map_of (players s) pid = None \<longrightarrow>
      status_of (fst (set_player_state pid x y lv s)) = Some ERROR
      \<and> snd (set_player_state pid x y lv s) = s
      \<and> status_of (fst (get_player_info pid s)) = Some ERROR
      \<and> snd (get_player_info pid s) = s
      \<and> status_of (fst (player_at_exit pid s)) = Some (if undecided s then ERROR else OK)
      \<and> snd (player_at_exit pid s) = s)
   \<and> (map_of (players s) pid = None \<or> map_of (gems s) gid = None \<longrightarrow>
        status_of (fst (collect_gem pid gid s)) = Some ERROR
        \<and> snd (collect_gem pid gid s) = s)
   \<and> (map_of (players s) pid = None \<or> map_of (hazards s) hid = None \<longrightarrow>
        snd (check_hazard_collision pid hid s) = s)"
proof -
  have exit: "status_of (fst (player_at_exit pid s)) = Some (if undecided s then ERROR else OK)
      \<and> snd (player_at_exit pid s) = s" if "map_of (players s) pid = None"
    using that by (cases "undecided s") (simp_all add: player_at_exit_unknown player_at_exit_decided)
  show ?thesis
    using exit
    by (simp add: set_player_state_def get_player_info_def collect_gem_unknown
          check_hazard_collision_unknown_unchanged)
qed

theorem unknown_ids_change_nothing_witness:
  "map_of (players demo_stage) ''ghost'' = None \<and> undecided demo_stage
   \<and> status_of (fst (set_player_state ''ghost'' 1 2 3 demo_stage)) = Some ERROR
   \<and> snd (set_player_state ''ghost'' 1 2 3 demo_stage) = demo_stage
   \<and> status_of (fst (get_player_info ''ghost'' demo_stage)) = Some ERROR
   \<and> status_of (fst (player_at_exit ''ghost'' demo_stage)) = Some ERROR
   \<and> snd (player_at_exit ''ghost'' demo_stage) = demo_stage
   \<and> status_of (fst (collect_gem ''ghost'' ''black_gem_0'' demo_stage)) = Some ERROR
   \<and> snd (collect_gem ''ghost'' ''black_gem_0'' demo_stage) = demo_stage
   \<and> snd (check_hazard_collision ''ghost'' ''white_pool_0'' demo_stage) = demo_stage
   \<and> map_of (players demo_won) ''ghost'' = None \<and> \<not> undecided demo_won
   \<and> status_of (fst (player_at_exit ''ghost'' demo_won)) = Some OK
   \<and> snd (player_at_exit ''ghost'' demo_won) = demo_won"
proof -
  have a: "map_of (players demo_stage) ''ghost'' = None" by (simp add: demo_stage_fields)
  have b: "map_of (players demo_won) ''ghost'' = None" by (simp add: demo_won_unfold)
  have c: "\<not> undecided demo_won" by (simp add: undecided_def demo_won_unfold)
  show ?thesis
    using a b c undecided_demo_stage
      unknown_ids_change_nothing
        [of demo_stage "''ghost''" 1 2 3 "''black_gem_0''" "''white_pool_0''"]
      unknown_ids_change_nothing
        [of demo_won "''ghost''" 1 2 3 "''black_gem_0''" "''white_pool_0''"]
    by simp
qed

text \<open>The claim as stated fails: an unknown player id gets OK from \<^verbatim>\<open>player_at_exit\<close> once
  the stage is won, and unknown ids get OK from \<^verbatim>\<open>check_hazard_collision\<close> while it is
  not.\<close>

theorem unknown_id_answered_ok_counterexample:
  "map_of (players demo_won) ''ghost'' = None
   \<and> status_of (fst (player_at_exit ''ghost'' demo_won)) = Some OK
   \<and> map_of (players demo_stage) ''ghost'' = None
   \<and> map_of (hazards demo_stage) ''nowhere'' = None
   \<and> status_of (fst (check_hazard_collision ''ghost'' ''nowhere'' demo_stage)) = Some OK"
proof -
  have "\<not> undecided demo_won" by (simp add: undecided_def demo_won_unfold)
  then have "status_of (fst (player_at_exit ''ghost'' demo_won)) = Some OK"
    by (simp add: player_at_exit_decided)
  then show ?thesis
    using check_hazard_collision_unknown_ids
    by (simp add: demo_won_unfold demo_stage_fields)
qed

subsection \<open>Malformed requests\<close>

lemma proses_string_rejects:
  assumes "split (strip line) = p # args" "rejected_request (p # args)"
    "players s = [] \<or> truthy_time (start_time s)"
  shows "status_of (fst (proses_string now line s)) = Some ERROR
         \<and> snd (proses_string now line s) = s"
proof -
  have idle: "start_clock now s = s" by (rule start_clock_idle [OF assms(3)])
  show ?thesis
    using assms(2)
    unfolding proses_string_def assms(1) rejected_request_def Let_def list.case idle
    by (auto split: if_splits list.splits option.splits)
qed

lemma legacy_proses_string_rejects:
  assumes "split (strip line) = p # args" "rejected_request (p # args)"
  shows "status_of (fst (legacy_proses_string line t)) = Some ERROR
         \<and> snd (legacy_proses_string line t) = t"
  using assms(2)
  unfolding legacy_proses_string_def assms(1) rejected_request_def Let_def list.case
  by (auto split: if_splits list.splits option.splits)

text \<open>A line with no token makes both command processors raise: \<^verbatim>\<open>parts[0]\<close> is read
  from an empty list.\<close>

lemma blank_line_raises:
  "split (strip line) = [] \<Longrightarrow>
   proses_string now line s = (Raise IndexError, s)
   \<and> legacy_proses_string line t = (Raise IndexError, t)"
  by (simp add: proses_string_def legacy_proses_string_def)

lemma blank_line_example: "split (strip ''   '') = []"
  by (simp add: parse_eval)

lemma legacy_proses_string_rejects_strict:
  assumes "split (strip line) = p # args" "legacy_rejected_request (p # args)"
  shows "status_of (fst (legacy_proses_string line t)) = Some ERROR
         \<and> snd (legacy_proses_string line t) = t"
  using assms(2)
  unfolding legacy_proses_string_def assms(1) legacy_rejected_request_def Let_def list.case
  by (auto split: if_splits list.splits option.splits)

lemma proses_string_first_argument:
  assumes "split (strip line) = p # a # rest"
  shows "lower p = ''register_player'' \<Longrightarrow>
           proses_string now line s = register_player now a (start_clock now s)"
    and "lower p = ''get_player_info'' \<Longrightarrow>
           proses_string now line s = get_player_info a (start_clock now s)"
    and "lower p = ''player_at_exit'' \<Longrightarrow>
           proses_string now line s = player_at_exit a (start_clock now s)"
  by (simp_all add: proses_string_def assms)

lemma proses_string_no_argument:
  assumes "split (strip line) = p # args"
  shows "lower p = ''get_game_state'' \<Longrightarrow>
           proses_string now line s = get_game_state now (start_clock now s)
           \<and> legacy_proses_string line t = legacy_get_game_state t"
    and "lower p = ''reset_game'' \<Longrightarrow>
           proses_string now line s = (Return (reply OK), full_reset (start_clock now s))"
  by (simp_all add: proses_string_def legacy_proses_string_def assms)

text \<open>
  C9, as the code has it. For a request line that has a token:
  the staged engine rejects an unknown command name, no argument for
  \<^verbatim>\<open>register_player\<close>, \<^verbatim>\<open>get_player_info\<close> or \<^verbatim>\<open>player_at_exit\<close>, other than four arguments
  or a non-integer among the last three for \<^verbatim>\<open>set_player_state\<close>, and other than two
  arguments for \<^verbatim>\<open>collect_gem\<close> or \<^verbatim>\<open>check_hazard_collision\<close>; the single-arena engine
  rejects the same and also any number of arguments other than one for
  \<^verbatim>\<open>register_player\<close>, \<^verbatim>\<open>get_player_info\<close> and \<^verbatim>\<open>player_at_exit\<close>. A rejected request
  gets a response with status ERROR and leaves the state as it was: the staged engine in
  every state whose clock is started or that has no player, hence in every state that the
  server reaches from its initial state by requests and timer callbacks, and the
  single-arena engine in every state. Surplus arguments are ignored where no count is checked: the staged engine answers
  \<^verbatim>\<open>register_player\<close>, \<^verbatim>\<open>get_player_info\<close> and \<^verbatim>\<open>player_at_exit\<close> from their first
  argument alone and \<^verbatim>\<open>reset_game\<close> as if it had none, and both engines answer
  \<^verbatim>\<open>get_game_state\<close> as if it had none.
\<close>

theorem rejected_requests_answer_error:
  "(rejected_request (split (strip line))
      \<and> (players s = [] \<or> truthy_time (start_time s)) \<longrightarrow>
        status_of (fst (proses_string now line s)) = Some ERROR
        \<and> snd (proses_string now line s) = s)
   \<and> (rejected_request (split (strip line)) \<and> reachable s \<longrightarrow>
        status_of (fst (proses_string now line s)) = Some ERROR
        \<and> snd (proses_string now line s) = s)
   \<and> (legacy_rejected_request (split (strip line)) \<longrightarrow>
        status_of (fst (legacy_proses_string line t)) = Some ERROR
        \<and> snd (legacy_proses_string line t) = t)
   \<and> (rejected_request (split (strip line)) \<longrightarrow> legacy_rejected_request (split (strip line)))
   \<and> (\<forall>p a rest. split (strip line) = p # a # rest \<longrightarrow>
         (lower p = ''register_player'' \<longrightarrow>
            proses_string now line s = register_player now a (start_clock now s))
         \<and> (lower p = ''get_player_info'' \<longrightarrow>
            proses_string now line s = get_player_info a (start_clock now s))
         \<and> (lower p = ''player_at_exit'' \<longrightarrow>
            proses_string now line s = player_at_exit a (start_clock now s)))
   \<and> (\<forall>p args. split (strip line) = p # args \<longrightarrow>
         (lower p = ''get_game_state'' \<longrightarrow>
            proses_string now line s = get_game_state now (start_clock now s)
            \<and> legacy_proses_string line t = legacy_get_game_state t)
         \<and> (lower p = ''reset_game'' \<longrightarrow>
            proses_string now line s = (Return (reply OK), full_reset (start_clock now s))))"
proof -
  have staged: "status_of (fst (proses_string now line s)) = Some ERROR
        \<and> snd (proses_string now line s) = s"
    if rej: "rejected_request (split (strip line))"
      and idle: "players s = [] \<or> truthy_time (start_time s)"
  proof (cases "split (strip line)")
    case Nil
    then show ?thesis using rej by (simp add: rejected_request_def)
  next
    case (Cons p args)
    then have "rejected_request (p # args)" using rej by simp
    then show ?thesis by (rule proses_string_rejects [OF Cons _ idle])
  qed
  have reached: "status_of (fst (proses_string now line s)) = Some ERROR
        \<and> snd (proses_string now line s) = s"
    if rej: "rejected_request (split (strip line))" and reach: "reachable s"
  proof -
    have "players s = [] \<or> truthy_time (start_time s)"
      using reachable_clock_idle [OF reach, of now] by blast
    with rej show ?thesis by (rule staged)
  qed
  have legacy: "status_of (fst (legacy_proses_string line t)) = Some ERROR
        \<and> snd (legacy_proses_string line t) = t"
    if rej: "legacy_rejected_request (split (strip line))"
  proof (cases "split (strip line)")
    case Nil
    then show ?thesis using rej by (simp add: legacy_rejected_request_def)
  next
    case (Cons p args)
    then have "legacy_rejected_request (p # args)" using rej by simp
    then show ?thesis by (rule legacy_proses_string_rejects_strict [OF Cons])
  qed
  have weaker: "legacy_rejected_request toks" if "rejected_request toks" for toks
    using that
    by (cases toks) (auto simp: rejected_request_def legacy_rejected_request_def Let_def
                       split: if_splits)
  have one: "(lower p = ''register_player'' \<longrightarrow>
            proses_string now line s = register_player now a (start_clock now s))
         \<and> (lower p = ''get_player_info'' \<longrightarrow>
            proses_string now line s = get_player_info a (start_clock now s))
         \<and> (lower p = ''player_at_exit'' \<longrightarrow>
            proses_string now line s = player_at_exit a (start_clock now s))"
    if toks: "split (strip line) = p # a # rest" for p a rest
    using proses_string_first_argument [OF toks] by blast
  have none: "(lower p = ''get_game_state'' \<longrightarrow>
            proses_string now line s = get_game_state now (start_clock now s)
            \<and> legacy_proses_string line t = legacy_get_game_state t)
         \<and> (lower p = ''reset_game'' \<longrightarrow>
            proses_string now line s = (Return (reply OK), full_reset (start_clock now s)))"
    if toks: "split (strip line) = p # args" for p args
    using proses_string_no_argument [OF toks] by blast
  show ?thesis
    using staged reached legacy weaker [of "split (strip line)"] one none
    by blast
qed

lemma tokens_malformed:
  "split (strip ''set_player_state player_black 1 x 3'')
     = [''set_player_state'', ''player_black'', ''1'', ''x'', ''3'']"
  "split (strip ''fly away'') = [''fly'', ''away'']"
  "split (strip ''collect_gem player_black'') = [''collect_gem'', ''player_black'']"
  "split (strip ''register_player white black'') = [''register_player'', ''white'', ''black'']"
  "split (strip ''get_game_state now'') = [''get_game_state'', ''now'']"
  "split (strip ''reset_game now'') = [''reset_game'', ''now'']"
  by (simp_all add: parse_eval)

lemma py_int_examples: "py_int ''x'' = None" "py_int ''1'' = Some 1" "py_int ''-1_0'' = Some (- 10)"
  by (simp_all add: py_int_def is_digit_def digit_val_def)

theorem rejected_requests_answer_error_witness:
  "rejected_request (split (strip ''set_player_state player_black 1 x 3''))
   \<and> rejected_request (split (strip ''fly away''))
   \<and> rejected_request (split (strip ''collect_gem player_black''))
   \<and> legacy_rejected_request (split (strip ''register_player white black''))
   \<and> (players demo_stage = [] \<or> truthy_time (start_time demo_stage))
   \<and> reachable demo_stage
   \<and> reachable (fire_timer (snd (proses_string 3 ''player_at_exit player_black'' demo_stage)))
   \<and> status_of (fst (proses_string 4 ''fly away''
         (fire_timer (snd (proses_string 3 ''player_at_exit player_black'' demo_stage)))))
       = Some ERROR
   \<and> snd (proses_string 4 ''fly away''
         (fire_timer (snd (proses_string 3 ''player_at_exit player_black'' demo_stage))))
       = fire_timer (snd (proses_string 3 ''player_at_exit player_black'' demo_stage))
   \<and> status_of (fst (proses_string 2 ''set_player_state player_black 1 x 3'' demo_stage)) = Some ERROR
   \<and> snd (proses_string 2 ''set_player_state player_black 1 x 3'' demo_stage) = demo_stage
   \<and> status_of (fst (proses_string 2 ''fly away'' demo_stage)) = Some ERROR
   \<and> snd (proses_string 2 ''fly away'' demo_stage) = demo_stage
   \<and> status_of (fst (proses_string 2 ''collect_gem player_black'' demo_stage)) = Some ERROR
   \<and> snd (proses_string 2 ''collect_gem player_black'' demo_stage) = demo_stage
   \<and> status_of (fst (legacy_proses_string ''set_player_state player_black 1 x 3'' legacy_demo))
       = Some ERROR
   \<and> snd (legacy_proses_string ''set_player_state player_black 1 x 3'' legacy_demo) = legacy_demo
   \<and> status_of (fst (legacy_proses_string ''register_player white black'' legacy_demo)) = Some ERROR
   \<and> snd (legacy_proses_string ''register_player white black'' legacy_demo) = legacy_demo
   \<and> proses_string 2 ''register_player white black'' demo_stage
       = register_player 2 ''white'' (start_clock 2 demo_stage)
   \<and> proses_string 2 ''get_game_state now'' demo_stage
       = get_game_state 2 (start_clock 2 demo_stage)
   \<and> legacy_proses_string ''get_game_state now'' legacy_demo = legacy_get_game_state legacy_demo
   \<and> proses_string 2 ''reset_game now'' demo_stage
       = (Return (reply OK), full_reset (start_clock 2 demo_stage))"
proof -
  have r1: "rejected_request (split (strip ''set_player_state player_black 1 x 3''))"
    by (simp add: tokens_malformed rejected_request_def lower_def lower_char_def py_int_examples)
  have r2: "rejected_request (split (strip ''fly away''))"
    by (simp add: tokens_malformed rejected_request_def lower_def lower_char_def)
  have r3: "rejected_request (split (strip ''collect_gem player_black''))"
    by (simp add: tokens_malformed rejected_request_def lower_def lower_char_def)
  have r4: "legacy_rejected_request (split (strip ''register_player white black''))"
    by (simp add: tokens_malformed legacy_rejected_request_def lower_def lower_char_def)
  have idle: "players demo_stage = [] \<or> truthy_time (start_time demo_stage)"
    by (simp add: demo_stage_fields)
  have reach: "reachable demo_stage"
    unfolding demo_stage_def by (rule reachable_command [OF reachable_init]) simp
  let ?later = "fire_timer (snd (proses_string 3 ''player_at_exit player_black'' demo_stage))"
  have later: "reachable ?later"
    by (rule reachable_timer [OF reachable_command [OF reach]]) simp
  note i0 = rejected_requests_answer_error [of "''fly away''" ?later 4 legacy_demo]
  have a0: "status_of (fst (proses_string 4 ''fly away'' ?later)) = Some ERROR
     \<and> snd (proses_string 4 ''fly away'' ?later) = ?later"
    using i0 r2 later by blast
  have l: "lower ''register_player'' = ''register_player''"
    "lower ''get_game_state'' = ''get_game_state''" "lower ''reset_game'' = ''reset_game''"
    by (simp_all add: lower_def lower_char_def)
  note i1 = rejected_requests_answer_error
              [of "''set_player_state player_black 1 x 3''" demo_stage 2 legacy_demo]
  note i2 = rejected_requests_answer_error [of "''fly away''" demo_stage 2 legacy_demo]
  note i3 = rejected_requests_answer_error [of "''collect_gem player_black''" demo_stage 2 legacy_demo]
  note i4 = rejected_requests_answer_error
              [of "''register_player white black''" demo_stage 2 legacy_demo]
  note i5 = rejected_requests_answer_error [of "''get_game_state now''" demo_stage 2 legacy_demo]
  note i6 = rejected_requests_answer_error [of "''reset_game now''" demo_stage 2 legacy_demo]
  have a1: "status_of (fst (proses_string 2 ''set_player_state player_black 1 x 3'' demo_stage)) = Some ERROR
     \<and> snd (proses_string 2 ''set_player_state player_black 1 x 3'' demo_stage) = demo_stage
     \<and> status_of (fst (legacy_proses_string ''set_player_state player_black 1 x 3'' legacy_demo))
         = Some ERROR
     \<and> snd (legacy_proses_string ''set_player_state player_black 1 x 3'' legacy_demo) = legacy_demo"
    using i1 r1 idle by blast
  have a2: "status_of (fst (proses_string 2 ''fly away'' demo_stage)) = Some ERROR
     \<and> snd (proses_string 2 ''fly away'' demo_stage) = demo_stage"
    using i2 r2 idle by blast
  have a3: "status_of (fst (proses_string 2 ''collect_gem player_black'' demo_stage)) = Some ERROR
     \<and> snd (proses_string 2 ''collect_gem player_black'' demo_stage) = demo_stage"
    using i3 r3 idle by blast
  have a4: "status_of (fst (legacy_proses_string ''register_player white black'' legacy_demo)) = Some ERROR
     \<and> snd (legacy_proses_string ''register_player white black'' legacy_demo) = legacy_demo
     \<and> proses_string 2 ''register_player white black'' demo_stage
         = register_player 2 ''white'' (start_clock 2 demo_stage)"
    using i4 r4 l(1) tokens_malformed(4) by blast
  have a5: "proses_string 2 ''get_game_state now'' demo_stage
       = get_game_state 2 (start_clock 2 demo_stage)
     \<and> legacy_proses_string ''get_game_state now'' legacy_demo = legacy_get_game_state legacy_demo"
    using i5 l(2) tokens_malformed(5) by blast
  have a6: "proses_string 2 ''reset_game now'' demo_stage
       = (Return (reply OK), full_reset (start_clock 2 demo_stage))"
    using i6 l(3) tokens_malformed(6) by blast
  show ?thesis
    using r1 r2 r3 r4 idle reach later a0 a1 a2 a3 a4 a5 a6 by blast
qed

lemma tokens_surplus:
  "split (strip ''get_game_state now'') = [''get_game_state'', ''now'']"
  "split (strip ''register_player white black'') = [''register_player'', ''white'', ''black'']"
  by (simp_all add: parse_eval)

text \<open>The claim as stated fails on a wrong argument count: a surplus argument is ignored.
  \<^verbatim>\<open>get_game_state now\<close> is answered with OK by both engines, and the staged engine
  registers the white player on \<^verbatim>\<open>register_player white black\<close>.\<close>

theorem surplus_argument_counterexample:
  "status_of (fst (proses_string 2 ''get_game_state now'' demo_stage)) = Some OK
   \<and> status_of (fst (legacy_proses_string ''get_game_state now'' legacy_demo)) = Some OK
   \<and> status_of (fst (proses_string 2 ''register_player white black'' demo_stage)) = Some OK
   \<and> length (players demo_stage) = 1
   \<and> length (players (snd (proses_string 2 ''register_player white black'' demo_stage))) = 2"
proof -
  have idle: "start_clock 2 demo_stage = demo_stage"
    by (simp add: start_clock_well_formed_idle well_formed_demo_stage)
  have a: "status_of (fst (proses_string 2 ''get_game_state now'' demo_stage)) = Some OK"
    by (simp add: proses_string_def tokens_surplus lower_def lower_char_def get_game_state_def Let_def)
  have b: "status_of (fst (legacy_proses_string ''get_game_state now'' legacy_demo)) = Some OK"
    by (simp add: legacy_proses_string_def tokens_surplus lower_def lower_char_def
          legacy_get_game_state_def)
  have c: "proses_string 2 ''register_player white black'' demo_stage
           = register_player 2 ''white'' demo_stage"
    by (simp add: proses_string_def tokens_surplus lower_def lower_char_def idle)
  have d: "status_of (fst (register_player 2 ''white'' demo_stage)) = Some OK"
    "length (players (snd (register_player 2 ''white'' demo_stage))) = 2"
    by (simp_all add: register_player_def lower_def lower_char_def demo_stage_fields Let_def)
  show ?thesis by (simp add: a b c d demo_stage_fields)
qed

end
